theory Spec2Isabelle
  imports Main "HOL-Library.Word"
begin

section \<open>Data model of the MQTT client connection (source/client.c)\<close>

text \<open>
  C function pointers and user-data pointers are opaque to the client: they are modelled
  as natural numbers that identify them, a nullable pointer as an option.
\<close>

type_synonym fn_ptr = nat
type_synonym user_data = nat

datatype aws_mqtt_client_connection_state =
    AWS_MQTT_CLIENT_STATE_CONNECTING
  | AWS_MQTT_CLIENT_STATE_CONNECTED
  | AWS_MQTT_CLIENT_STATE_RECONNECTING
  | AWS_MQTT_CLIENT_STATE_DISCONNECTING
  | AWS_MQTT_CLIENT_STATE_DISCONNECTED

datatype aws_mqtt_client_request_state =
    AWS_MQTT_CLIENT_REQUEST_ONGOING
  | AWS_MQTT_CLIENT_REQUEST_COMPLETE
  | AWS_MQTT_CLIENT_REQUEST_ERROR

datatype aws_mqtt_qos =
    AWS_MQTT_QOS_AT_MOST_ONCE
  | AWS_MQTT_QOS_AT_LEAST_ONCE
  | AWS_MQTT_QOS_EXACTLY_ONCE

datatype aws_task_status = AWS_TASK_STATUS_RUN_READY | AWS_TASK_STATUS_CANCELED

text \<open>The error codes the client raises or passes on; any other code is \<open>AWS_ERROR_OTHER n\<close>.\<close>

datatype aws_error =
    AWS_ERROR_SUCCESS
  | AWS_ERROR_OOM
  | AWS_ERROR_INVALID_STATE
  | AWS_ERROR_UNSUPPORTED_OPERATION
  | AWS_ERROR_MQTT_INVALID_TOPIC
  | AWS_ERROR_MQTT_TIMEOUT
  | AWS_ERROR_MQTT_NOT_CONNECTED
  | AWS_ERROR_MQTT_ALREADY_CONNECTED
  | AWS_ERROR_MQTT_UNEXPECTED_HANGUP
  | AWS_ERROR_MQTT_CANCELLED_FOR_CLEAN_SESSION
  | AWS_ERROR_MQTT_CONNECTION_DESTROYED
  | AWS_ERROR_OTHER nat

record aws_mqtt_reconnect_timeouts =
  current_sec :: "64 word"
  min_sec :: "64 word"
  max_sec :: "64 word"
  next_attempt_ms :: "64 word"
  next_attempt_reset_timer_ns :: "64 word"

text \<open>
  The will of the connection (\<open>connection->will\<close>); the fields carry the prefix
  \<open>will_\<close> because other structures have fields of the same names. A byte buffer that
  was never initialised (NULL buffer, length 0) is \<open>None\<close>.
\<close>

record aws_mqtt_will =
  will_topic :: "string option"
  will_qos :: aws_mqtt_qos
  will_retain :: bool
  will_payload :: "8 word list option"

text \<open>TLS connection options: only the server name is read by the client.\<close>

record aws_tls_connection_options =
  tls_ctx :: nat
  server_name :: "string option"

text \<open>
  A request of the request table: the fields of \<open>struct aws_mqtt_request\<close> that client.c
  reads.
\<close>

record aws_mqtt_request =
  packet_id :: "16 word"
  on_complete :: "fn_ptr option"
  on_complete_ud :: user_data

text \<open>
  A topic of a subscribe task (\<open>struct subscribe_task_topic\<close>): the filter string and
  the user's subscription request, whose topic cursor refers to the same string. The
  reference count that governs the release of its memory is not modelled.
\<close>

record subscribe_task_topic =
  topic_filter :: string
  request_qos :: aws_mqtt_qos
  on_publish :: "fn_ptr option"
  on_cleanup :: "fn_ptr option"
  on_publish_ud :: user_data
  is_local :: bool

text \<open>
  Modelled from the spec: the topic tree (\<open>aws_mqtt_topic_tree\<close>) is not part of client.c.
  It "stores active subscriptions" keyed by topic filter, each with a QoS and the user
  data given at insertion; it is modelled as the list of the active subscriptions, one
  entry per filter. For every subscription that client.c inserts the callbacks are
  \<open>s_on_publish_client_wrapper\<close> and \<open>s_task_topic_release\<close> and the user data is the
  task topic, so an entry holds the filter, the QoS and the task topic.
\<close>

type_synonym aws_mqtt_topic_tree = "(string \<times> aws_mqtt_qos \<times> subscribe_task_topic) list"

text \<open>
  The connection. The members of \<open>synced_data\<close> (state, pending_requests_list,
  outstanding_requests_table, requests_pool) and of \<open>thread_data\<close>
  (ongoing_requests_list, subscriptions, waiting_on_ping_response) are fields of the one record; the
  mutex is not modelled, every function below runs its critical sections in program order.
  \<open>slot\<close> is whether the channel slot pointer is non-NULL. \<open>requests_pool\<close> lists the
  requests released back to the memory pool, latest first.
\<close>

record aws_mqtt_client_connection =
  state :: aws_mqtt_client_connection_state
  slot :: bool
  clean_session :: bool
  pending_requests_list :: "aws_mqtt_request list"
  ongoing_requests_list :: "aws_mqtt_request list"
  outstanding_requests_table :: "16 word \<rightharpoonup> aws_mqtt_request"
  requests_pool :: "aws_mqtt_request list"
  subscriptions :: aws_mqtt_topic_tree
  reconnect_timeouts :: aws_mqtt_reconnect_timeouts
  reconnect_task_timestamp :: "64 word"
  will :: aws_mqtt_will
  username :: "string option"
  password :: "string option"
  host_name :: "string option"
  port :: "16 word"
  client_id :: "string option"
  socket_options :: nat
  use_tls :: bool
  tls_options :: "aws_tls_connection_options option"
  keep_alive_time_secs :: "16 word"
  ping_timeout_ns :: "64 word"
  operation_timeout_ns :: "64 word"
  connection_count :: nat
  waiting_on_ping_response :: bool
  on_connection_complete :: "fn_ptr option"
  on_connection_complete_ud :: user_data
  on_interrupted :: "fn_ptr option"
  on_interrupted_ud :: user_data
  on_resumed :: "fn_ptr option"
  on_resumed_ud :: user_data
  on_disconnect :: "fn_ptr option"
  on_disconnect_ud :: user_data
  on_any_publish :: "fn_ptr option"
  on_any_publish_ud :: user_data

text \<open>
  The packets client.c fills in. A packet structure whose fixed header still has packet
  type 0 (never initialised) is \<open>None\<close> where the code tests for it.
\<close>

record aws_mqtt_packet_subscribe =
  subscribe_packet_identifier :: "16 word"
  subscribe_topic_filters :: "(string \<times> aws_mqtt_qos) list"

record aws_mqtt_packet_unsubscribe =
  unsubscribe_packet_identifier :: "16 word"
  unsubscribe_topic_filters :: "string list"

record aws_mqtt_packet_publish =
  publish_retain :: bool
  publish_qos :: aws_mqtt_qos
  publish_dup :: bool
  publish_topic_name :: string
  publish_packet_identifier :: "16 word"
  publish_payload :: "8 word list"

text \<open>
  An I/O message handed to the channel: an encoded SUBSCRIBE or UNSUBSCRIBE packet, or a
  message of a PUBLISH, which starts with the encoded headers of the packet (first
  message) or not (later messages) and carries a chunk of the payload.
\<close>

datatype aws_io_message =
    Subscribe_message aws_mqtt_packet_subscribe
  | Unsubscribe_message aws_mqtt_packet_unsubscribe
  | Publish_message "aws_mqtt_packet_publish option" "8 word list"

text \<open>
  What a function does to the outside world, in program order: the callbacks it invokes
  and the calls it makes into the channel, the event loop and the allocator.
\<close>

datatype event =
    Request_on_complete fn_ptr "16 word" aws_error user_data
  | On_interrupted fn_ptr aws_error user_data
  | On_disconnect fn_ptr user_data
  | On_connection_complete fn_ptr aws_error user_data
  | Reconnect_task_scheduled "64 word"
  | Reconnect_task_released
  | Channel_slot_removed
  | Channel_shutdown aws_error
  | Connection_acquired
  | Connection_released
  | Connection_destroyed
  | Message_sent aws_io_message
  | Timeout_task_scheduled "16 word" "64 word"
  | On_suback_multi fn_ptr "16 word" "(string \<times> aws_mqtt_qos) list" aws_error user_data
  | On_suback_single fn_ptr "16 word" string aws_mqtt_qos aws_error user_data

text \<open>Reading a trace of events: completion callbacks and scheduled timeout tasks.\<close>

fun completion_of :: "event \<Rightarrow> 16 word option" where
  "completion_of (Request_on_complete f p e u) = Some p"
| "completion_of _ = None"

fun completion_code :: "event \<Rightarrow> aws_error option" where
  "completion_code (Request_on_complete f p e u) = Some e"
| "completion_code _ = None"

fun is_completion :: "event \<Rightarrow> bool" where
  "is_completion (Request_on_complete f p e u) = True"
| "is_completion _ = False"

fun is_timeout_scheduled :: "event \<Rightarrow> bool" where
  "is_timeout_scheduled (Timeout_task_scheduled p t) = True"
| "is_timeout_scheduled _ = False"

section \<open>A new connection\<close>

text \<open>
  \<open>aws_mqtt_client_connection_new\<close> when every allocation succeeds: the structure is
  zeroed, the state is DISCONNECTED, the reconnect bounds are 1 and 128 seconds and the
  two request lists are empty.
\<close>

definition aws_mqtt_client_connection_new :: aws_mqtt_client_connection where
  "aws_mqtt_client_connection_new =
     \<lparr>state = AWS_MQTT_CLIENT_STATE_DISCONNECTED,
      slot = False,
      clean_session = False,
      pending_requests_list = [],
      ongoing_requests_list = [],
      outstanding_requests_table = Map.empty,
      requests_pool = [],
      subscriptions = [],
      reconnect_timeouts =
        \<lparr>current_sec = 0, min_sec = 1, max_sec = 128, next_attempt_ms = 0,
         next_attempt_reset_timer_ns = 0\<rparr>,
      reconnect_task_timestamp = 0,
      will = \<lparr>will_topic = None, will_qos = AWS_MQTT_QOS_AT_MOST_ONCE, will_retain = False,
              will_payload = None\<rparr>,
      username = None,
      password = None,
      host_name = None,
      port = 0,
      client_id = None,
      socket_options = 0,
      use_tls = False,
      tls_options = None,
      keep_alive_time_secs = 0,
      ping_timeout_ns = 0,
      operation_timeout_ns = 0,
      connection_count = 0,
      waiting_on_ping_response = False,
      on_connection_complete = None,
      on_connection_complete_ud = 0,
      on_interrupted = None,
      on_interrupted_ud = 0,
      on_resumed = None,
      on_resumed_ud = 0,
      on_disconnect = None,
      on_disconnect_ud = 0,
      on_any_publish = None,
      on_any_publish_ud = 0\<rparr>"

section \<open>Timestamps\<close>

text \<open>
  \<open>aws_timestamp_convert\<close> towards a finer unit multiplies by the ratio of the units and
  saturates at \<open>UINT64_MAX\<close> (aws-c-common).
\<close>

definition UINT64_MAX :: "64 word" where
  "UINT64_MAX = - 1"

definition AWS_TIMESTAMP_NANOS :: "64 word" where
  "AWS_TIMESTAMP_NANOS = 1000000000"

definition aws_mul_u64_saturating :: "64 word \<Rightarrow> 64 word \<Rightarrow> 64 word" where
  "aws_mul_u64_saturating a b =
     (if unat a * unat b < 2 ^ 64 then a * b else UINT64_MAX)"

definition aws_timestamp_convert_secs_to_nanos :: "64 word \<Rightarrow> 64 word" where
  "aws_timestamp_convert_secs_to_nanos t = aws_mul_u64_saturating t 1000000000"

definition aws_timestamp_convert_millis_to_nanos :: "64 word \<Rightarrow> 64 word" where
  "aws_timestamp_convert_millis_to_nanos t = aws_mul_u64_saturating t 1000000"

section \<open>Connecting\<close>

text \<open>
  \<open>s_mqtt_client_connect\<close> stores the completion callback and asks the bootstrap (or the
  websocket layer) for a channel; \<open>channel_ok\<close> is whether that call succeeded.
\<close>

definition s_mqtt_client_connect ::
  "aws_mqtt_client_connection \<Rightarrow> fn_ptr option \<Rightarrow> user_data \<Rightarrow> bool
     \<Rightarrow> bool \<times> aws_mqtt_client_connection" where
  "s_mqtt_client_connect connection cb ud channel_ok =
     (channel_ok,
      connection\<lparr>on_connection_complete := cb, on_connection_complete_ud := ud\<rparr>)"

section \<open>The reconnect task\<close>

text \<open>
  \<open>s_attempt_reconnect\<close>. \<open>now1\<close> and \<open>now2\<close> are the two readings of the high
  resolution clock, \<open>channel_ok\<close> the outcome of the connection attempt. The task's
  connection pointer may have been cleared (\<open>None\<close>).
\<close>

definition s_attempt_reconnect ::
  "aws_task_status \<Rightarrow> aws_mqtt_client_connection option \<Rightarrow> 64 word \<Rightarrow> 64 word \<Rightarrow> bool
     \<Rightarrow> aws_mqtt_client_connection option \<times> event list" where
  "s_attempt_reconnect status connection_ptr now1 now2 channel_ok =
     (case connection_ptr of
        None \<Rightarrow> (None, [Reconnect_task_released])
      | Some connection \<Rightarrow>
          if status = AWS_TASK_STATUS_RUN_READY then
            let rt = reconnect_timeouts connection;
                rt1 = rt\<lparr>next_attempt_ms :=
                          now1 + aws_timestamp_convert_secs_to_nanos (current_sec rt)\<rparr>;
                rt2 = (if current_sec rt1 > max_sec rt1 div 2
                       then rt1\<lparr>current_sec := max_sec rt1\<rparr>
                       else rt1\<lparr>current_sec := current_sec rt1 * 2\<rparr>);
                rt3 = rt2\<lparr>next_attempt_reset_timer_ns :=
                          now2 + 10000000000
                            + aws_timestamp_convert_secs_to_nanos (current_sec rt2)\<rparr>;
                c1 = connection\<lparr>reconnect_timeouts := rt3\<rparr>;
                (ok, c2) = s_mqtt_client_connect c1 (on_connection_complete c1)
                             (on_connection_complete_ud c1) channel_ok
            in if \<not> ok
               then (Some c2, [Reconnect_task_scheduled (next_attempt_ms rt3)])
               else (Some (c2\<lparr>reconnect_task_timestamp := 0\<rparr>), [])
          else (Some connection, [Reconnect_task_released]))"

text \<open>
  A sequence of runs of the reconnect task on one connection: each element gives the two
  clock readings and the outcome of that attempt.
\<close>

fun reconnect_attempts ::
  "(64 word \<times> 64 word \<times> bool) list \<Rightarrow> aws_mqtt_client_connection
     \<Rightarrow> aws_mqtt_client_connection" where
  "reconnect_attempts [] connection = connection"
| "reconnect_attempts ((now1, now2, channel_ok) # rest) connection =
     (case fst (s_attempt_reconnect AWS_TASK_STATUS_RUN_READY (Some connection)
                  now1 now2 channel_ok) of
        None \<Rightarrow> connection
      | Some c \<Rightarrow> reconnect_attempts rest c)"

abbreviation backoff :: "aws_mqtt_client_connection \<Rightarrow> 64 word" where
  "backoff c \<equiv> current_sec (reconnect_timeouts c)"

abbreviation backoff_max :: "aws_mqtt_client_connection \<Rightarrow> 64 word" where
  "backoff_max c \<equiv> max_sec (reconnect_timeouts c)"

section \<open>Connection state and configuration\<close>

definition mqtt_connection_set_state ::
  "aws_mqtt_client_connection \<Rightarrow> aws_mqtt_client_connection_state
     \<Rightarrow> aws_mqtt_client_connection" where
  "mqtt_connection_set_state connection new_state =
     (if state connection = new_state then connection
      else connection\<lparr>state := new_state\<rparr>)"

text \<open>\<open>AWS_OP_SUCCESS\<close> and \<open>AWS_OP_ERR\<close>, the two values a C entry point returns.\<close>

definition AWS_OP_SUCCESS :: int where
  "AWS_OP_SUCCESS = 0"

definition AWS_OP_ERR :: int where
  "AWS_OP_ERR = - 1"

definition s_check_connection_state_for_configuration ::
  "aws_mqtt_client_connection \<Rightarrow> int" where
  "s_check_connection_state_for_configuration connection =
     (if state connection \<noteq> AWS_MQTT_CLIENT_STATE_DISCONNECTED
         \<and> state connection \<noteq> AWS_MQTT_CLIENT_STATE_CONNECTED
      then AWS_OP_ERR else AWS_OP_SUCCESS)"

abbreviation configurable :: "aws_mqtt_client_connection \<Rightarrow> bool" where
  "configurable c \<equiv> state c = AWS_MQTT_CLIENT_STATE_DISCONNECTED
                      \<or> state c = AWS_MQTT_CLIENT_STATE_CONNECTED"

text \<open>
  The setters return \<open>Inl e\<close> when the C function returns \<open>AWS_OP_ERR\<close> with \<open>e\<close> the
  error raised, \<open>Inr ()\<close> for \<open>AWS_OP_SUCCESS\<close>, together with the connection as the
  call leaves it. What the functions called from them answer is a parameter:
  \<open>topic_valid\<close> is the answer of \<open>aws_mqtt_is_valid_topic\<close>, the \<open>_copy_ok\<close> flags
  say whether the allocation of a copy succeeded (a failed one raises \<open>AWS_ERROR_OOM\<close>).
\<close>

definition aws_mqtt_client_connection_set_will ::
  "aws_mqtt_client_connection \<Rightarrow> string \<Rightarrow> aws_mqtt_qos \<Rightarrow> bool \<Rightarrow> 8 word list
     \<Rightarrow> bool \<Rightarrow> bool \<Rightarrow> bool \<Rightarrow> (aws_error + unit) \<times> aws_mqtt_client_connection" where
  "aws_mqtt_client_connection_set_will connection tpc q rtn pl
       topic_valid topic_copy_ok payload_copy_ok =
     (if s_check_connection_state_for_configuration connection \<noteq> 0
      then (Inl AWS_ERROR_INVALID_STATE, connection)
      else if \<not> topic_valid then (Inl AWS_ERROR_MQTT_INVALID_TOPIC, connection)
      else if \<not> topic_copy_ok then (Inl AWS_ERROR_OOM, connection)
      else
        let c1 = connection\<lparr>will := (will connection)\<lparr>will_qos := q, will_retain := rtn\<rparr>\<rparr>
        in if \<not> payload_copy_ok then (Inl AWS_ERROR_OOM, c1)
           else (Inr (),
                 c1\<lparr>will := (will c1)\<lparr>will_topic := Some tpc, will_payload := Some pl\<rparr>\<rparr>))"

definition aws_mqtt_client_connection_set_login ::
  "aws_mqtt_client_connection \<Rightarrow> string \<Rightarrow> string option \<Rightarrow> bool \<Rightarrow> bool
     \<Rightarrow> (aws_error + unit) \<times> aws_mqtt_client_connection" where
  "aws_mqtt_client_connection_set_login connection usr pwd
       username_copy_ok password_copy_ok =
     (if s_check_connection_state_for_configuration connection \<noteq> 0
      then (Inl AWS_ERROR_INVALID_STATE, connection)
      else if \<not> username_copy_ok then (Inl AWS_ERROR_OOM, connection)
      else if pwd \<noteq> None \<and> \<not> password_copy_ok then (Inl AWS_ERROR_OOM, connection)
      else (Inr (), connection\<lparr>username := Some usr, password := pwd\<rparr>))"

definition aws_mqtt_client_connection_set_reconnect_timeout ::
  "aws_mqtt_client_connection \<Rightarrow> 64 word \<Rightarrow> 64 word
     \<Rightarrow> (aws_error + unit) \<times> aws_mqtt_client_connection" where
  "aws_mqtt_client_connection_set_reconnect_timeout connection min_timeout max_timeout =
     (if s_check_connection_state_for_configuration connection \<noteq> 0
      then (Inl AWS_ERROR_INVALID_STATE, connection)
      else (Inr (),
            connection\<lparr>reconnect_timeouts :=
              (reconnect_timeouts connection)\<lparr>min_sec := min_timeout,
                                                max_sec := max_timeout\<rparr>\<rparr>))"

definition aws_mqtt_client_connection_set_connection_interruption_handlers ::
  "aws_mqtt_client_connection \<Rightarrow> fn_ptr option \<Rightarrow> user_data \<Rightarrow> fn_ptr option \<Rightarrow> user_data
     \<Rightarrow> (aws_error + unit) \<times> aws_mqtt_client_connection" where
  "aws_mqtt_client_connection_set_connection_interruption_handlers connection
       interrupted interrupted_ud resumed resumed_ud =
     (if s_check_connection_state_for_configuration connection \<noteq> 0
      then (Inl AWS_ERROR_INVALID_STATE, connection)
      else (Inr (),
            connection\<lparr>on_interrupted := interrupted, on_interrupted_ud := interrupted_ud,
                        on_resumed := resumed, on_resumed_ud := resumed_ud\<rparr>))"

definition aws_mqtt_client_connection_set_on_any_publish_handler ::
  "aws_mqtt_client_connection \<Rightarrow> fn_ptr option \<Rightarrow> user_data
     \<Rightarrow> (aws_error + unit) \<times> aws_mqtt_client_connection" where
  "aws_mqtt_client_connection_set_on_any_publish_handler connection any_publish any_publish_ud =
     (if state connection = AWS_MQTT_CLIENT_STATE_CONNECTED
      then (Inl AWS_ERROR_INVALID_STATE, connection)
      else (Inr (),
            connection\<lparr>on_any_publish := any_publish,
                        on_any_publish_ud := any_publish_ud\<rparr>))"

section \<open>Disconnect\<close>

text \<open>
  Modelled from the spec: \<open>mqtt_disconnect_impl\<close> is defined in the channel handler, which
  is not part of client.c. The state table of the spec gives its effect for a user
  disconnect: "transport shutdown(ok)", that is the transport bound to the connection is
  asked to shut down with the error code given; without a bound transport slot there is
  nothing to shut down.
\<close>

definition mqtt_disconnect_impl :: "aws_mqtt_client_connection \<Rightarrow> aws_error \<Rightarrow> event list" where
  "mqtt_disconnect_impl connection error_code =
     (if slot connection then [Channel_shutdown error_code] else [])"

definition aws_mqtt_client_connection_disconnect ::
  "aws_mqtt_client_connection \<Rightarrow> fn_ptr option \<Rightarrow> user_data
     \<Rightarrow> (aws_error + unit) \<times> aws_mqtt_client_connection \<times> event list" where
  "aws_mqtt_client_connection_disconnect connection disconnect_cb userdata =
     (if state connection \<noteq> AWS_MQTT_CLIENT_STATE_CONNECTED
         \<and> state connection \<noteq> AWS_MQTT_CLIENT_STATE_RECONNECTING
      then (Inl AWS_ERROR_MQTT_NOT_CONNECTED, connection, [])
      else
        let c1 = mqtt_connection_set_state connection AWS_MQTT_CLIENT_STATE_DISCONNECTING;
            c2 = c1\<lparr>on_disconnect := disconnect_cb, on_disconnect_ud := userdata,
                    reconnect_timeouts :=
                      (reconnect_timeouts c1)\<lparr>next_attempt_reset_timer_ns := 0\<rparr>\<rparr>
        in (Inr (), c2, mqtt_disconnect_impl c2 AWS_ERROR_SUCCESS))"

section \<open>Cancelling requests\<close>

text \<open>
  The two loops over \<open>cancelling_requests\<close> that \<open>s_mqtt_client_shutdown\<close> and
  \<open>aws_mqtt_client_connection_connect\<close> share: the first walks the list and invokes each
  request's \<open>on_complete\<close> (when it is set) with
  \<open>AWS_ERROR_MQTT_CANCELLED_FOR_CLEAN_SESSION\<close>; the second pops each request, removes its
  packet id from the outstanding requests table and releases it to the pool.
\<close>

fun cancel_requests_callbacks :: "aws_mqtt_request list \<Rightarrow> event list" where
  "cancel_requests_callbacks [] = []"
| "cancel_requests_callbacks (request # rest) =
     (case on_complete request of
        Some f \<Rightarrow> [Request_on_complete f (packet_id request)
                     AWS_ERROR_MQTT_CANCELLED_FOR_CLEAN_SESSION (on_complete_ud request)]
      | None \<Rightarrow> [])
     @ cancel_requests_callbacks rest"

fun cancel_requests_release ::
  "aws_mqtt_request list \<Rightarrow> aws_mqtt_client_connection \<Rightarrow> aws_mqtt_client_connection" where
  "cancel_requests_release [] connection = connection"
| "cancel_requests_release (request # rest) connection =
     cancel_requests_release rest
       (connection\<lparr>outstanding_requests_table :=
                     (outstanding_requests_table connection)(packet_id request := None),
                   requests_pool := request # requests_pool connection\<rparr>)"

section \<open>Releasing and destroying the connection\<close>

text \<open>
  Function pointers are identified by numbers. \<open>s_on_final_disconnect\<close> is the one
  function of client.c that the client itself stores in a callback field of the
  connection (\<open>on_disconnect\<close>, in \<open>s_mqtt_client_connection_start_destroy\<close>); the number
  0 identifies it.
\<close>

definition s_on_final_disconnect :: fn_ptr where
  "s_on_final_disconnect = 0"

text \<open>
  The loop of \<open>s_mqtt_client_connection_destroy_final\<close> over the pending requests, called
  with the pending list of the connection: each request is popped from the front of the
  list, its \<open>on_complete\<close> is invoked (when it is set) with
  \<open>AWS_ERROR_MQTT_CONNECTION_DESTROYED\<close>, and the request is released to the pool.
\<close>

fun destroy_final_requests ::
  "aws_mqtt_request list \<Rightarrow> aws_mqtt_client_connection
     \<Rightarrow> aws_mqtt_client_connection \<times> event list" where
  "destroy_final_requests [] connection = (connection, [])"
| "destroy_final_requests (request # rest) connection =
     (let c1 = connection\<lparr>pending_requests_list := rest\<rparr>;
          ev_cb = (case on_complete request of
                     Some f \<Rightarrow> [Request_on_complete f (packet_id request)
                                  AWS_ERROR_MQTT_CONNECTION_DESTROYED (on_complete_ud request)]
                   | None \<Rightarrow> []);
          c2 = c1\<lparr>requests_pool := request # requests_pool c1\<rparr>
      in case destroy_final_requests rest c2 of
           (c3, evs) \<Rightarrow> (c3, ev_cb @ evs))"

text \<open>
  The completion callbacks that this loop invokes for a list of requests, in its order: what
  the trace of a destroyed connection is compared with.
\<close>

fun destroyed_requests_callbacks :: "aws_mqtt_request list \<Rightarrow> event list" where
  "destroyed_requests_callbacks [] = []"
| "destroyed_requests_callbacks (request # rest) =
     (case on_complete request of
        Some f \<Rightarrow> [Request_on_complete f (packet_id request)
                     AWS_ERROR_MQTT_CONNECTION_DESTROYED (on_complete_ud request)]
      | None \<Rightarrow> [])
     @ destroyed_requests_callbacks rest"

text \<open>
  \<open>s_mqtt_client_connection_destroy_final\<close>. Around the loop the function gives back what
  the connection owns (reconnect task, host name, credentials, will, client id, topic
  tree, requests table, pool, mutex, TLS and proxy options, its reference to the client)
  and, last, the memory of the connection itself (that the slot is NULL by then is asserted
  in debug builds only). None of these calls invokes a callback
  of a request (the cleanup callbacks that the topic tree invokes for its subscriptions
  are not traced, here as elsewhere). They are the one event \<open>Connection_destroyed\<close>, the
  last of the function: once it has occurred the connection no longer exists, and the
  record returned with it holds what the connection held when it was given back.
\<close>

definition s_mqtt_client_connection_destroy_final ::
  "aws_mqtt_client_connection \<Rightarrow> aws_mqtt_client_connection \<times> event list" where
  "s_mqtt_client_connection_destroy_final connection =
     (case destroy_final_requests (pending_requests_list connection) connection of
        (c1, evs) \<Rightarrow> (c1, evs @ [Connection_destroyed]))"

text \<open>
  \<open>s_mqtt_client_connection_start_destroy\<close>, the function that runs when the last
  reference to the connection has been released: a connection that is not DISCONNECTED
  is first disconnected, with \<open>s_on_final_disconnect\<close> as its disconnect callback; a
  DISCONNECTED one is destroyed at once.
\<close>

definition s_mqtt_client_connection_start_destroy ::
  "aws_mqtt_client_connection \<Rightarrow> aws_mqtt_client_connection \<times> event list" where
  "s_mqtt_client_connection_start_destroy connection =
     (if state connection \<noteq> AWS_MQTT_CLIENT_STATE_DISCONNECTED
      then
        let c1 = connection\<lparr>on_disconnect := Some s_on_final_disconnect\<rparr>
        in if state c1 \<noteq> AWS_MQTT_CLIENT_STATE_DISCONNECTING
           then (mqtt_connection_set_state c1 AWS_MQTT_CLIENT_STATE_DISCONNECTING,
                 mqtt_disconnect_impl c1 AWS_ERROR_SUCCESS)
           else (c1, [])
      else s_mqtt_client_connection_destroy_final connection)"

text \<open>
  \<open>aws_mqtt_client_connection_release\<close> gives up one reference to the connection through
  \<open>aws_ref_count_release\<close> (aws-c-common), which calls the function that
  \<open>aws_mqtt_client_connection_new\<close> registered with the count,
  \<open>s_mqtt_client_connection_start_destroy\<close>, when the reference given up was the last
  one. The count is shared with the user of the connection, who holds the reference that
  \<open>aws_mqtt_client_connection_new\<close> returned for as long as they choose;
  \<open>last_reference\<close> is whether the reference given up is the last one.
\<close>

definition aws_mqtt_client_connection_release ::
  "aws_mqtt_client_connection \<Rightarrow> bool \<Rightarrow> aws_mqtt_client_connection \<times> event list" where
  "aws_mqtt_client_connection_release connection last_reference =
     (if last_reference
      then (case s_mqtt_client_connection_start_destroy connection of
              (c1, evs) \<Rightarrow> (c1, Connection_released # evs))
      else (connection, [Connection_released]))"

section \<open>Channel shutdown\<close>

text \<open>
  Modelled from the spec: the macros \<open>MQTT_CLIENT_CALL_CALLBACK\<close> and
  \<open>MQTT_CLIENT_CALL_CALLBACK_ARGS\<close> come from a header that is not part of client.c.
  The state table of the spec says what they do ("fire on_disconnect", "fire
  on_connection_complete(err)"): the callback of the connection is invoked, when one is
  set, with the arguments given and its user data. A user callback is opaque, with one
  exception the source provides for: \<open>on_interrupted\<close> may call
  \<open>aws_mqtt_client_connection_disconnect\<close>; \<open>user_disconnect\<close> gives the arguments of
  that call when the callback makes it. A disconnect callback that is
  \<open>s_on_final_disconnect\<close> is no user callback: invoking it runs that function, which
  calls \<open>s_mqtt_client_connection_destroy_final\<close>.
\<close>

definition call_on_interrupted ::
  "aws_mqtt_client_connection \<Rightarrow> aws_error \<Rightarrow> (fn_ptr option \<times> user_data) option
     \<Rightarrow> aws_mqtt_client_connection \<times> event list" where
  "call_on_interrupted connection error_code user_disconnect =
     (case on_interrupted connection of
        None \<Rightarrow> (connection, [])
      | Some f \<Rightarrow>
          (case user_disconnect of
             None \<Rightarrow> (connection, [On_interrupted f error_code (on_interrupted_ud connection)])
           | Some (cb, ud) \<Rightarrow>
               (case aws_mqtt_client_connection_disconnect connection cb ud of
                  (r, c', evs) \<Rightarrow>
                    (c', On_interrupted f error_code (on_interrupted_ud connection) # evs))))"

definition call_on_disconnect ::
  "aws_mqtt_client_connection \<Rightarrow> aws_mqtt_client_connection \<times> event list" where
  "call_on_disconnect connection =
     (case on_disconnect connection of
        None \<Rightarrow> (connection, [])
      | Some f \<Rightarrow>
          if f = s_on_final_disconnect
          then s_mqtt_client_connection_destroy_final connection
          else (connection, [On_disconnect f (on_disconnect_ud connection)]))"

definition call_on_connection_complete ::
  "aws_mqtt_client_connection \<Rightarrow> aws_error \<Rightarrow> event list" where
  "call_on_connection_complete connection error_code =
     (case on_connection_complete connection of
        None \<Rightarrow> []
      | Some f \<Rightarrow> [On_connection_complete f error_code (on_connection_complete_ud connection)])"

text \<open>
  The end of \<open>s_mqtt_client_shutdown\<close>, under \<open>if (disconnected_state)\<close>: the state becomes
  DISCONNECTED, the callback that belongs to the state the shutdown found is invoked,
  and the reference that \<open>aws_mqtt_client_connection_connect\<close> acquired is released.
\<close>

definition shutdown_disconnected ::
  "aws_mqtt_client_connection \<Rightarrow> aws_mqtt_client_connection_state \<Rightarrow> aws_error \<Rightarrow> bool
     \<Rightarrow> aws_mqtt_client_connection \<times> event list" where
  "shutdown_disconnected connection prev_state error_code last_reference =
     (let c1 = mqtt_connection_set_state connection AWS_MQTT_CLIENT_STATE_DISCONNECTED;
          (c2, ev_final) =
            (case prev_state of
               AWS_MQTT_CLIENT_STATE_CONNECTED \<Rightarrow> call_on_disconnect c1
             | AWS_MQTT_CLIENT_STATE_DISCONNECTING \<Rightarrow> call_on_disconnect c1
             | AWS_MQTT_CLIENT_STATE_CONNECTING \<Rightarrow>
                 (c1, call_on_connection_complete c1 error_code)
             | _ \<Rightarrow> (c1, []));
          (c3, ev_release) = aws_mqtt_client_connection_release c2 last_reference
      in (c3, ev_final @ ev_release))"

text \<open>
  \<open>s_mqtt_client_shutdown\<close>: the channel of the connection has completed its shutdown
  with \<open>error_code\<close>. \<open>last_reference\<close> is whether the reference released at the end of
  the function is the last one to the connection. The result is the connection
  afterwards and the events in program order.
\<close>

definition s_mqtt_client_shutdown ::
  "aws_mqtt_client_connection \<Rightarrow> aws_error \<Rightarrow> (fn_ptr option \<times> user_data) option \<Rightarrow> bool
     \<Rightarrow> aws_mqtt_client_connection \<times> event list" where
  "s_mqtt_client_shutdown connection error_code user_disconnect last_reference =
     (let cancelling_requests =
            (if clean_session connection
             then ongoing_requests_list connection @ pending_requests_list connection
             else []);
          c1 = (if clean_session connection
                then connection\<lparr>ongoing_requests_list := [], pending_requests_list := []\<rparr>
                else connection\<lparr>pending_requests_list :=
                                   pending_requests_list connection
                                     @ ongoing_requests_list connection,
                                 ongoing_requests_list := []\<rparr>);
          prev_state = state c1;
          c2 = (if prev_state = AWS_MQTT_CLIENT_STATE_CONNECTED
                then mqtt_connection_set_state c1 AWS_MQTT_CLIENT_STATE_RECONNECTING
                else c1);
          disconnected_state1 =
            (prev_state = AWS_MQTT_CLIENT_STATE_DISCONNECTING
               \<or> prev_state = AWS_MQTT_CLIENT_STATE_CONNECTING);
          ev_slot = (if slot c2 then [Channel_slot_removed] else []);
          c3 = (if slot c2 then c2\<lparr>slot := False\<rparr> else c2);
          ev_cancel = cancel_requests_callbacks cancelling_requests;
          c4 = cancel_requests_release cancelling_requests c3;
          error_code1 =
            (if error_code = AWS_ERROR_SUCCESS
                \<and> prev_state \<noteq> AWS_MQTT_CLIENT_STATE_DISCONNECTING
                \<and> prev_state \<noteq> AWS_MQTT_CLIENT_STATE_DISCONNECTED
             then AWS_ERROR_MQTT_UNEXPECTED_HANGUP else error_code);
          (c5, ev_reconnect, disconnected_state2) =
            (case prev_state of
               AWS_MQTT_CLIENT_STATE_RECONNECTING \<Rightarrow>
                 (c4, [Reconnect_task_scheduled (next_attempt_ms (reconnect_timeouts c4))],
                  disconnected_state1)
             | AWS_MQTT_CLIENT_STATE_CONNECTED \<Rightarrow>
                 (case call_on_interrupted c4 error_code1 user_disconnect of
                    (c4a, ev_cb) \<Rightarrow>
                      if state c4a = AWS_MQTT_CLIENT_STATE_DISCONNECTING
                      then (c4a, ev_cb, True)
                      else (c4a,
                            ev_cb @ [Reconnect_task_scheduled
                                       (next_attempt_ms (reconnect_timeouts c4a))],
                            disconnected_state1))
             | _ \<Rightarrow> (c4, [], disconnected_state1))
      in if disconnected_state2
         then
           (case shutdown_disconnected c5 prev_state error_code1 last_reference of
              (c6, ev_final) \<Rightarrow> (c6, ev_slot @ ev_cancel @ ev_reconnect @ ev_final))
         else (c5, ev_slot @ ev_cancel @ ev_reconnect))"

text \<open>
  Submission order, as the spec speaks of it for requests that survive a disconnect:
  \<open>submitted\<close> lists packet ids in the order their requests were submitted, first
  submitted first; a list of requests is in submission order when its packet ids occur
  in \<open>submitted\<close> in the same relative order.
\<close>

fun occurs_in_order :: "'a list \<Rightarrow> 'a list \<Rightarrow> bool" where
  "occurs_in_order [] ys = True"
| "occurs_in_order (x # xs) [] = False"
| "occurs_in_order (x # xs) (y # ys) =
     (if x = y then occurs_in_order xs ys else occurs_in_order (x # xs) ys)"

definition in_submission_order :: "16 word list \<Rightarrow> aws_mqtt_request list \<Rightarrow> bool" where
  "in_submission_order submitted requests = occurs_in_order (map packet_id requests) submitted"

section \<open>Connect\<close>

definition s_default_ping_timeout_ns :: "64 word" where
  "s_default_ping_timeout_ns = 3000000000"

definition s_default_keep_alive_sec :: "16 word" where
  "s_default_keep_alive_sec = 1200"

record aws_mqtt_connection_options =
  opt_host_name :: string
  opt_port :: "16 word"
  opt_socket_options :: nat
  opt_tls_options :: "aws_tls_connection_options option"
  opt_client_id :: string
  opt_keep_alive_time_secs :: "16 word"
  opt_ping_timeout_ms :: "32 word"
  opt_protocol_operation_timeout_ms :: "32 word"
  opt_on_connection_complete :: "fn_ptr option"
  opt_user_data :: user_data
  opt_clean_session :: bool

text \<open>
  How a call of \<open>aws_mqtt_client_connection_connect\<close> ends: it returns, or
  \<open>AWS_FATAL_ASSERT\<close> aborts the process.
\<close>

datatype connect_outcome = Aborted_fatal_assert | Returned "aws_error + unit"

text \<open>
  The part of \<open>aws_mqtt_client_connection_connect\<close> that copies the options into the
  connection and replaces the zero values by the defaults (after the state has become
  CONNECTING, before the keep-alive assertion).
\<close>

definition connect_copy_options ::
  "aws_mqtt_client_connection \<Rightarrow> aws_mqtt_connection_options \<Rightarrow> aws_mqtt_client_connection" where
  "connect_copy_options connection connection_options =
     (let c1 = connection\<lparr>host_name := Some (opt_host_name connection_options),
                          port := opt_port connection_options,
                          socket_options := opt_socket_options connection_options,
                          clean_session := opt_clean_session connection_options,
                          keep_alive_time_secs := opt_keep_alive_time_secs connection_options,
                          connection_count := 0\<rparr>;
          c2 = (if keep_alive_time_secs c1 = 0
                then c1\<lparr>keep_alive_time_secs := s_default_keep_alive_sec\<rparr> else c1);
          c3 = (if opt_protocol_operation_timeout_ms connection_options = 0
                then c2\<lparr>operation_timeout_ns := UINT64_MAX\<rparr>
                else c2\<lparr>operation_timeout_ns :=
                          aws_timestamp_convert_millis_to_nanos
                            (ucast (opt_protocol_operation_timeout_ms connection_options))\<rparr>)
      in if opt_ping_timeout_ms connection_options = 0
         then c3\<lparr>ping_timeout_ns := s_default_ping_timeout_ns\<rparr>
         else c3\<lparr>ping_timeout_ns :=
                   aws_timestamp_convert_millis_to_nanos
                     (ucast (opt_ping_timeout_ms connection_options))\<rparr>)"

text \<open>The \<open>error:\<close> label: the TLS options are cleaned up and the state goes back to DISCONNECTED.\<close>

definition connect_error_exit ::
  "aws_mqtt_client_connection \<Rightarrow> aws_error \<Rightarrow> event list
     \<Rightarrow> connect_outcome \<times> aws_mqtt_client_connection \<times> event list" where
  "connect_error_exit connection e evs =
     (Returned (Inl e),
      mqtt_connection_set_state (connection\<lparr>tls_options := None\<rparr>)
        AWS_MQTT_CLIENT_STATE_DISCONNECTED,
      evs)"

text \<open>
  The part after the TLS options: the client id is replaced, a clean session cancels the
  pending requests, the connection is pinned and the channel is requested.
  \<open>channel_error\<close> is the error the channel setup raised, \<open>None\<close> when it succeeded.
  When it failed, the reference acquired for the channel is released at once; as the caller
  still holds a reference of their own, that release is never the last one.
\<close>

definition connect_start ::
  "aws_mqtt_client_connection \<Rightarrow> aws_mqtt_connection_options \<Rightarrow> bool \<Rightarrow> aws_error option
     \<Rightarrow> connect_outcome \<times> aws_mqtt_client_connection \<times> event list" where
  "connect_start connection connection_options client_id_copy_ok channel_error =
     (let c1 = connection\<lparr>client_id := None\<rparr>
      in if \<not> client_id_copy_ok then connect_error_exit c1 AWS_ERROR_OOM []
         else
           let c2 = c1\<lparr>client_id := Some (opt_client_id connection_options)\<rparr>;
               cancelling_requests =
                 (if clean_session c2 then pending_requests_list c2 else []);
               c3 = (if clean_session c2 then c2\<lparr>pending_requests_list := []\<rparr> else c2);
               ev_cancel = cancel_requests_callbacks cancelling_requests;
               c4 = cancel_requests_release cancelling_requests c3;
               (ok, c5) = s_mqtt_client_connect c4
                            (opt_on_connection_complete connection_options)
                            (opt_user_data connection_options) (channel_error = None)
           in case channel_error of
                Some e \<Rightarrow>
                  connect_error_exit c5 e
                    (ev_cancel @ [Connection_acquired, Connection_released])
              | None \<Rightarrow> (Returned (Inr ()), c5, ev_cancel @ [Connection_acquired]))"

text \<open>
  \<open>aws_mqtt_client_connection_connect\<close>. \<open>tls_copy_ok\<close> and \<open>server_name_ok\<close> are the
  outcomes of copying the TLS options and of setting their server name.
\<close>

definition aws_mqtt_client_connection_connect ::
  "aws_mqtt_client_connection \<Rightarrow> aws_mqtt_connection_options \<Rightarrow> bool \<Rightarrow> bool \<Rightarrow> bool
     \<Rightarrow> aws_error option
     \<Rightarrow> connect_outcome \<times> aws_mqtt_client_connection \<times> event list" where
  "aws_mqtt_client_connection_connect connection connection_options
       tls_copy_ok server_name_ok client_id_copy_ok channel_error =
     (if state connection \<noteq> AWS_MQTT_CLIENT_STATE_DISCONNECTED
      then (Returned (Inl AWS_ERROR_MQTT_ALREADY_CONNECTED), connection, [])
      else
        let c1 = mqtt_connection_set_state connection AWS_MQTT_CLIENT_STATE_CONNECTING;
            c2 = connect_copy_options c1 connection_options
        in if ucast (keep_alive_time_secs c2) * AWS_TIMESTAMP_NANOS \<le> ping_timeout_ns c2
           then (Aborted_fatal_assert, c2, [])
           else
             (case opt_tls_options connection_options of
                None \<Rightarrow>
                  connect_start (c2\<lparr>tls_options := None\<rparr>) connection_options
                    client_id_copy_ok channel_error
              | Some tls \<Rightarrow>
                  let c3 = c2\<lparr>use_tls := True\<rparr>
                  in if \<not> tls_copy_ok then (Returned (Inl AWS_ERROR_OOM), c3, [])
                     else
                       let c4 = c3\<lparr>tls_options := Some tls\<rparr>
                       in if server_name tls = None
                          then
                            if \<not> server_name_ok then connect_error_exit c4 AWS_ERROR_OOM []
                            else
                              connect_start
                                (c4\<lparr>tls_options := Some (tls\<lparr>server_name := host_name c4\<rparr>)\<rparr>)
                                connection_options client_id_copy_ok channel_error
                          else connect_start c4 connection_options
                                 client_id_copy_ok channel_error))"

section \<open>Topic tree\<close>

text \<open>
  Modelled from the spec: the operations of the topic tree are not part of client.c. The
  spec describes them: \<open>insert\<close> is an "idempotent addition" (a filter has one entry),
  \<open>remove\<close> takes the entry of a filter out, \<open>transaction_insert\<close> and
  \<open>transaction_remove\<close> "stage without mutating the visible tree",
  \<open>transaction_commit\<close> and \<open>transaction_roll_back\<close> "apply or discard" the staged
  actions, \<open>iterate\<close> "visits every active subscription". Each operation that can fail
  takes its outcome (\<open>ok\<close>) as a parameter.
\<close>

datatype topic_tree_action =
    Tree_insert string aws_mqtt_qos subscribe_task_topic
  | Tree_remove string

fun topic_tree_insert_entry ::
  "aws_mqtt_topic_tree \<Rightarrow> string \<Rightarrow> aws_mqtt_qos \<Rightarrow> subscribe_task_topic
     \<Rightarrow> aws_mqtt_topic_tree" where
  "topic_tree_insert_entry [] f q t = [(f, q, t)]"
| "topic_tree_insert_entry ((g, e) # rest) f q t =
     (if g = f then (f, q, t) # rest else (g, e) # topic_tree_insert_entry rest f q t)"

definition topic_tree_remove_entry :: "aws_mqtt_topic_tree \<Rightarrow> string \<Rightarrow> aws_mqtt_topic_tree" where
  "topic_tree_remove_entry tree f = [entry \<leftarrow> tree. fst entry \<noteq> f]"

definition aws_mqtt_topic_tree_transaction_insert ::
  "aws_mqtt_topic_tree \<Rightarrow> topic_tree_action list \<Rightarrow> string \<Rightarrow> aws_mqtt_qos
     \<Rightarrow> subscribe_task_topic \<Rightarrow> bool \<Rightarrow> topic_tree_action list option" where
  "aws_mqtt_topic_tree_transaction_insert tree transaction f q t ok =
     (if ok then Some (transaction @ [Tree_insert f q t]) else None)"

text \<open>The removal also reports the user data of the subscription removed, if there is one.\<close>

definition aws_mqtt_topic_tree_transaction_remove ::
  "aws_mqtt_topic_tree \<Rightarrow> topic_tree_action list \<Rightarrow> string \<Rightarrow> bool
     \<Rightarrow> (topic_tree_action list \<times> subscribe_task_topic option) option" where
  "aws_mqtt_topic_tree_transaction_remove tree transaction f ok =
     (if ok then Some (transaction @ [Tree_remove f], map_option snd (map_of tree f))
      else None)"

fun topic_tree_apply :: "aws_mqtt_topic_tree \<Rightarrow> topic_tree_action \<Rightarrow> aws_mqtt_topic_tree" where
  "topic_tree_apply tree (Tree_insert f q t) = topic_tree_insert_entry tree f q t"
| "topic_tree_apply tree (Tree_remove f) = topic_tree_remove_entry tree f"

definition aws_mqtt_topic_tree_transaction_commit ::
  "aws_mqtt_topic_tree \<Rightarrow> topic_tree_action list \<Rightarrow> aws_mqtt_topic_tree" where
  "aws_mqtt_topic_tree_transaction_commit tree transaction =
     foldl topic_tree_apply tree transaction"

definition aws_mqtt_topic_tree_transaction_roll_back ::
  "aws_mqtt_topic_tree \<Rightarrow> topic_tree_action list \<Rightarrow> aws_mqtt_topic_tree" where
  "aws_mqtt_topic_tree_transaction_roll_back tree transaction = tree"

definition aws_mqtt_topic_tree_get_sub_count :: "aws_mqtt_topic_tree \<Rightarrow> nat" where
  "aws_mqtt_topic_tree_get_sub_count tree = length tree"

section \<open>Operation timeout task\<close>

definition aws_add_u64_saturating :: "64 word \<Rightarrow> 64 word \<Rightarrow> 64 word" where
  "aws_add_u64_saturating a b =
     (if unat a + unat b < 2 ^ 64 then a + b else UINT64_MAX)"

text \<open>
  \<open>s_schedule_timeout_task\<close>: \<open>alloc_ok\<close> is whether the task could be allocated,
  \<open>clock\<close> the channel's clock reading (\<open>None\<close> when reading it fails). The result is
  the packet id the timeout task argument holds, \<open>None\<close> for NULL.
\<close>

definition s_schedule_timeout_task ::
  "aws_mqtt_client_connection \<Rightarrow> 16 word \<Rightarrow> bool \<Rightarrow> 64 word option
     \<Rightarrow> 16 word option \<times> event list" where
  "s_schedule_timeout_task connection pid alloc_ok clock =
     (if \<not> alloc_ok then (None, [])
      else case clock of
             None \<Rightarrow> (None, [])
           | Some timestamp \<Rightarrow>
               (Some pid,
                [Timeout_task_scheduled pid
                   (aws_add_u64_saturating timestamp (operation_timeout_ns connection))]))"

section \<open>Subscribe\<close>

text \<open>
  What the functions called from a send attempt answer: the outcomes of initialising the
  packet, of adding the i-th topic to it, of the i-th staged tree action, of getting a
  message from the pool, of encoding the packet into it, of handing it to the channel
  (\<open>aws_channel_slot_send_message\<close>), of allocating a timeout task and of reading the
  channel clock, and of initialising the topic list of a resubscribe. A packet whose
  initialisation failed is taken to be left as it was.
\<close>

record send_env =
  packet_init_ok :: bool
  add_topic_ok :: "nat \<Rightarrow> bool"
  tree_transaction_ok :: "nat \<Rightarrow> bool"
  message_acquire_ok :: bool
  encode_ok :: bool
  send_message_ok :: bool
  timeout_alloc_ok :: bool
  channel_clock :: "64 word option"
  topics_init_ok :: bool

text \<open>\<open>struct subscribe_task_arg\<close>; the connection it points to is passed along with it.\<close>

record subscribe_task_arg =
  topics :: "subscribe_task_topic list"
  subscribe :: "aws_mqtt_packet_subscribe option"
  tree_updated :: bool
  on_suback_multi :: "fn_ptr option"
  on_suback_single :: "fn_ptr option"
  on_suback_ud :: user_data

text \<open>
  The loop of \<open>s_subscribe_send\<close> over the topics, from index \<open>i\<close>: it adds each topic
  to the packet when the packet is being initialised and stages its insertion unless the
  tree has been updated by an earlier attempt. The result says whether the loop ran
  through (\<open>False\<close>: \<open>goto handle_error\<close>) and gives the packet and the transaction as
  the loop leaves them.
\<close>

fun subscribe_topics_loop ::
  "send_env \<Rightarrow> aws_mqtt_topic_tree \<Rightarrow> bool \<Rightarrow> bool \<Rightarrow> nat \<Rightarrow> subscribe_task_topic list
     \<Rightarrow> aws_mqtt_packet_subscribe \<Rightarrow> topic_tree_action list
     \<Rightarrow> bool \<times> aws_mqtt_packet_subscribe \<times> topic_tree_action list" where
  "subscribe_topics_loop env tree initing_packet updated i [] packet transaction =
     (True, packet, transaction)"
| "subscribe_topics_loop env tree initing_packet updated i (t # rest) packet transaction =
     (if initing_packet \<and> \<not> add_topic_ok env i then (False, packet, transaction)
      else
        let packet1 =
              (if initing_packet
               then packet\<lparr>subscribe_topic_filters :=
                              subscribe_topic_filters packet @ [(topic_filter t, request_qos t)]\<rparr>
               else packet)
        in if \<not> updated
           then
             (case aws_mqtt_topic_tree_transaction_insert tree transaction
                     (topic_filter t) (request_qos t) t (tree_transaction_ok env i) of
                None \<Rightarrow> (False, packet1, transaction)
              | Some transaction1 \<Rightarrow>
                  subscribe_topics_loop env tree initing_packet updated (Suc i) rest
                    packet1 transaction1)
           else subscribe_topics_loop env tree initing_packet updated (Suc i) rest
                  packet1 transaction)"

text \<open>
  \<open>s_subscribe_send\<close>: one send attempt of a SUBSCRIBE request. The result is the request
  state returned, the connection and the task argument afterwards, and the events.
\<close>

definition s_subscribe_send ::
  "send_env \<Rightarrow> 16 word \<Rightarrow> bool \<Rightarrow> aws_mqtt_client_connection \<Rightarrow> subscribe_task_arg
     \<Rightarrow> aws_mqtt_client_request_state \<times> aws_mqtt_client_connection \<times> subscribe_task_arg
        \<times> event list" where
  "s_subscribe_send env pid is_first_attempt connection task_arg =
     (let initing_packet = (subscribe task_arg = None)
      in if initing_packet \<and> \<not> packet_init_ok env
         then (AWS_MQTT_CLIENT_REQUEST_ERROR, connection, task_arg, [])
         else
           let packet0 =
                 (case subscribe task_arg of
                    None \<Rightarrow> \<lparr>subscribe_packet_identifier = pid, subscribe_topic_filters = []\<rparr>
                  | Some p \<Rightarrow> p);
               num_topics = length (topics task_arg)
           in if num_topics \<le> 0
              then (AWS_MQTT_CLIENT_REQUEST_ERROR, connection,
                    task_arg\<lparr>subscribe := Some packet0\<rparr>, [])
              else
                (case subscribe_topics_loop env (subscriptions connection) initing_packet
                        (tree_updated task_arg) 0 (topics task_arg) packet0 [] of
                   (ran_through, packet1, transaction) \<Rightarrow>
                     let task_arg1 = task_arg\<lparr>subscribe := Some packet1\<rparr>;
                         handle_error =
                           (AWS_MQTT_CLIENT_REQUEST_ERROR,
                            (if \<not> tree_updated task_arg1
                             then connection\<lparr>subscriptions :=
                                    aws_mqtt_topic_tree_transaction_roll_back
                                      (subscriptions connection) transaction\<rparr>
                             else connection),
                            task_arg1, [])
                     in if \<not> ran_through then handle_error
                        else if \<not> message_acquire_ok env then handle_error
                        else if \<not> encode_ok env then handle_error
                        else
                          (AWS_MQTT_CLIENT_REQUEST_ONGOING,
                           (if \<not> tree_updated task_arg1
                            then connection\<lparr>subscriptions :=
                                   aws_mqtt_topic_tree_transaction_commit
                                     (subscriptions connection) transaction\<rparr>
                            else connection),
                           task_arg1\<lparr>tree_updated := True\<rparr>,
                           (if send_message_ok env
                            then [Message_sent (Subscribe_message packet1)] else []))))"

section \<open>Resubscribe\<close>

text \<open>
  \<open>s_reconnect_resub_iterator\<close>, called by the tree's \<open>iterate\<close> for every active
  subscription: it appends a task topic made of the topic and the QoS (the rest zeroed)
  to the topic list.
\<close>

definition s_reconnect_resub_iterator ::
  "string \<Rightarrow> aws_mqtt_qos \<Rightarrow> subscribe_task_arg \<Rightarrow> subscribe_task_arg" where
  "s_reconnect_resub_iterator tpc q task_arg =
     task_arg\<lparr>topics := topics task_arg @
       [\<lparr>topic_filter = tpc, request_qos = q, on_publish = None, on_cleanup = None,
         on_publish_ud = 0, is_local = False\<rparr>]\<rparr>"

fun aws_mqtt_topic_tree_iterate ::
  "aws_mqtt_topic_tree \<Rightarrow> subscribe_task_arg \<Rightarrow> subscribe_task_arg" where
  "aws_mqtt_topic_tree_iterate [] task_arg = task_arg"
| "aws_mqtt_topic_tree_iterate ((f, q, t) # rest) task_arg =
     aws_mqtt_topic_tree_iterate rest (s_reconnect_resub_iterator f q task_arg)"

text \<open>The loop of \<open>s_resubscribe_send\<close> that adds the topics to the packet.\<close>

fun resubscribe_add_topics ::
  "send_env \<Rightarrow> nat \<Rightarrow> subscribe_task_topic list \<Rightarrow> aws_mqtt_packet_subscribe
     \<Rightarrow> bool \<times> aws_mqtt_packet_subscribe" where
  "resubscribe_add_topics env i [] packet = (True, packet)"
| "resubscribe_add_topics env i (t # rest) packet =
     (if \<not> add_topic_ok env i then (False, packet)
      else resubscribe_add_topics env (Suc i) rest
             (packet\<lparr>subscribe_topic_filters :=
                       subscribe_topic_filters packet @ [(topic_filter t, request_qos t)]\<rparr>))"

definition s_resubscribe_send ::
  "send_env \<Rightarrow> 16 word \<Rightarrow> bool \<Rightarrow> aws_mqtt_client_connection \<Rightarrow> subscribe_task_arg
     \<Rightarrow> aws_mqtt_client_request_state \<times> aws_mqtt_client_connection \<times> subscribe_task_arg
        \<times> event list" where
  "s_resubscribe_send env pid is_first_attempt connection task_arg =
     (let initing_packet = (subscribe task_arg = None);
          sub_count = aws_mqtt_topic_tree_get_sub_count (subscriptions connection)
      in if \<not> topics_init_ok env
         then (AWS_MQTT_CLIENT_REQUEST_ERROR, connection, task_arg, [])
         else
           let task_arg1 = task_arg\<lparr>topics := []\<rparr>
           in if sub_count = 0
              then (AWS_MQTT_CLIENT_REQUEST_COMPLETE, connection, task_arg1, [])
              else
                let task_arg2 = aws_mqtt_topic_tree_iterate (subscriptions connection) task_arg1;
                    after_packet =
                      (if initing_packet
                       then
                         if \<not> packet_init_ok env then None
                         else if length (topics task_arg2) \<le> 0 then None
                         else
                           (case resubscribe_add_topics env 0 (topics task_arg2)
                                   \<lparr>subscribe_packet_identifier = pid,
                                    subscribe_topic_filters = []\<rparr> of
                              (ran_through, packet1) \<Rightarrow>
                                Some (ran_through, task_arg2\<lparr>subscribe := Some packet1\<rparr>))
                       else Some (True, task_arg2))
                in case after_packet of
                     None \<Rightarrow> (AWS_MQTT_CLIENT_REQUEST_ERROR, connection, task_arg2, [])
                   | Some (ran_through, task_arg3) \<Rightarrow>
                       if \<not> ran_through
                       then (AWS_MQTT_CLIENT_REQUEST_ERROR, connection, task_arg3, [])
                       else if \<not> message_acquire_ok env
                       then (AWS_MQTT_CLIENT_REQUEST_ERROR, connection, task_arg3, [])
                       else if \<not> encode_ok env
                       then (AWS_MQTT_CLIENT_REQUEST_ERROR, connection, task_arg3, [])
                       else
                         (AWS_MQTT_CLIENT_REQUEST_ONGOING, connection, task_arg3,
                          (case subscribe task_arg3 of
                             Some packet1 \<Rightarrow>
                               if send_message_ok env
                               then [Message_sent (Subscribe_message packet1)] else []
                           | None \<Rightarrow> [])))"

text \<open>
  \<open>s_resubscribe_complete\<close>: the completion function of a resubscribe request. It frees
  the task argument; what is left to observe are the callbacks it invokes.
\<close>

definition s_resubscribe_complete ::
  "16 word \<Rightarrow> aws_error \<Rightarrow> subscribe_task_arg \<Rightarrow> event list" where
  "s_resubscribe_complete pid error_code task_arg =
     (let list_len = length (topics task_arg)
      in if list_len \<le> 0 then []
         else
           (case on_suback_multi task_arg of
              Some multi \<Rightarrow>
                [On_suback_multi multi pid
                   (map (\<lambda>t. (topic_filter t, request_qos t)) (topics task_arg))
                   error_code (on_suback_ud task_arg)]
            | None \<Rightarrow>
                (case on_suback_single task_arg of
                   Some single \<Rightarrow>
                     [On_suback_single single pid (topic_filter (hd (topics task_arg)))
                        (request_qos (hd (topics task_arg))) error_code (on_suback_ud task_arg)]
                 | None \<Rightarrow> [])))"

text \<open>
  \<open>aws_mqtt_resubscribe_existing_topics\<close> creates the task argument of the request: the
  structure is zeroed and the multi-topic callback is stored.
\<close>

definition resubscribe_task_arg :: "fn_ptr option \<Rightarrow> user_data \<Rightarrow> subscribe_task_arg" where
  "resubscribe_task_arg suback suback_ud =
     \<lparr>topics = [], subscribe = None, tree_updated = False, on_suback_multi = suback,
      on_suback_single = None, on_suback_ud = suback_ud\<rparr>"

section \<open>Unsubscribe\<close>

text \<open>
  \<open>struct unsubscribe_task_arg\<close>. \<open>unsub_timeout_task_arg\<close> is the forward pointer of
  the timeout wrapper: the packet id of the timeout task linked to the operation,
  \<open>None\<close> for NULL.
\<close>

record unsubscribe_task_arg =
  unsub_filter :: string
  unsub_is_local :: bool
  unsubscribe :: "aws_mqtt_packet_unsubscribe option"
  unsub_tree_updated :: bool
  on_unsuback :: "fn_ptr option"
  on_unsuback_ud :: user_data
  unsub_timeout_task_arg :: "16 word option"

definition s_unsubscribe_send ::
  "send_env \<Rightarrow> 16 word \<Rightarrow> bool \<Rightarrow> aws_mqtt_client_connection \<Rightarrow> unsubscribe_task_arg
     \<Rightarrow> aws_mqtt_client_request_state \<times> aws_mqtt_client_connection \<times> unsubscribe_task_arg
        \<times> event list" where
  "s_unsubscribe_send env pid is_first_attempt connection task_arg =
     (let removed =
            (if \<not> unsub_tree_updated task_arg
             then aws_mqtt_topic_tree_transaction_remove (subscriptions connection) []
                    (unsub_filter task_arg) (tree_transaction_ok env 0)
             else Some ([], None))
      in case removed of
           None \<Rightarrow> (AWS_MQTT_CLIENT_REQUEST_ERROR, connection, task_arg, [])
         | Some (transaction, removed_topic) \<Rightarrow>
             let task_arg1 =
                   (if \<not> unsub_tree_updated task_arg
                    then task_arg\<lparr>unsub_is_local :=
                           (case removed_topic of Some t \<Rightarrow> is_local t | None \<Rightarrow> False)\<rparr>
                    else task_arg);
                 commit =
                   (\<lambda>ta. if \<not> unsub_tree_updated ta
                         then (connection\<lparr>subscriptions :=
                                 aws_mqtt_topic_tree_transaction_commit
                                   (subscriptions connection) transaction\<rparr>,
                               ta\<lparr>unsub_tree_updated := True\<rparr>)
                         else (connection, ta));
                 roll_back =
                   (\<lambda>ta. if \<not> unsub_tree_updated ta
                         then connection\<lparr>subscriptions :=
                                aws_mqtt_topic_tree_transaction_roll_back
                                  (subscriptions connection) transaction\<rparr>
                         else connection)
             in if unsub_is_local task_arg1
                then (case commit task_arg1 of
                        (c', ta') \<Rightarrow> (AWS_MQTT_CLIENT_REQUEST_COMPLETE, c', ta', []))
                else
                  let initing_packet = (unsubscribe task_arg1 = None)
                  in if initing_packet \<and> \<not> packet_init_ok env
                     then (AWS_MQTT_CLIENT_REQUEST_ERROR, roll_back task_arg1, task_arg1, [])
                     else if initing_packet \<and> \<not> add_topic_ok env 0
                     then (AWS_MQTT_CLIENT_REQUEST_ERROR, roll_back task_arg1,
                           task_arg1\<lparr>unsubscribe :=
                             Some \<lparr>unsubscribe_packet_identifier = pid,
                                   unsubscribe_topic_filters = []\<rparr>\<rparr>, [])
                     else
                       let packet1 =
                             (case unsubscribe task_arg1 of
                                None \<Rightarrow> \<lparr>unsubscribe_packet_identifier = pid,
                                         unsubscribe_topic_filters = [unsub_filter task_arg1]\<rparr>
                              | Some p \<Rightarrow> p);
                           task_arg2 = task_arg1\<lparr>unsubscribe := Some packet1\<rparr>
                       in if \<not> message_acquire_ok env
                          then (AWS_MQTT_CLIENT_REQUEST_ERROR, roll_back task_arg2, task_arg2, [])
                          else if \<not> encode_ok env
                          then (AWS_MQTT_CLIENT_REQUEST_ERROR, roll_back task_arg2, task_arg2, [])
                          else if \<not> send_message_ok env
                          then (AWS_MQTT_CLIENT_REQUEST_ERROR, roll_back task_arg2, task_arg2, [])
                          else
                            (case s_schedule_timeout_task connection pid
                                    (timeout_alloc_ok env) (channel_clock env) of
                               (None, evs) \<Rightarrow>
                                 (AWS_MQTT_CLIENT_REQUEST_ERROR, connection, task_arg2,
                                  Message_sent (Unsubscribe_message packet1) # evs)
                             | (Some timeout_task_arg, evs) \<Rightarrow>
                                 (case commit (task_arg2\<lparr>unsub_timeout_task_arg :=
                                                            Some timeout_task_arg\<rparr>) of
                                    (c', ta') \<Rightarrow>
                                      (AWS_MQTT_CLIENT_REQUEST_ONGOING, c', ta',
                                       Message_sent (Unsubscribe_message packet1) # evs))))"

section \<open>Publish\<close>

text \<open>
  \<open>struct publish_task_arg\<close>; the fields carry the prefix \<open>pub_\<close>. The packet
  \<open>publish\<close> starts zeroed. \<open>pub_timeout_task_arg\<close> is the forward pointer of the
  timeout wrapper, as for an unsubscribe.
\<close>

record publish_task_arg =
  pub_topic :: string
  pub_qos :: aws_mqtt_qos
  pub_retain :: bool
  pub_payload :: "8 word list"
  publish :: aws_mqtt_packet_publish
  pub_on_complete :: "fn_ptr option"
  pub_userdata :: user_data
  pub_timeout_task_arg :: "16 word option"

text \<open>
  What the functions called from \<open>s_publish_send\<close> answer: whether the packet could be
  initialised; the capacity of the i-th message taken from the pool (\<open>None\<close>: no
  message); the number of bytes the encoded headers take (\<open>None\<close>: encoding failed;
  headers that do not fit the message fail to encode as well); whether the i-th message
  was accepted by the channel; and the outcomes of scheduling the timeout task.
\<close>

record publish_env =
  publish_init_ok :: bool
  message_capacity :: "nat \<Rightarrow> nat option"
  headers_len :: "nat option"
  publish_send_ok :: "nat \<Rightarrow> bool"
  publish_timeout_alloc_ok :: bool
  publish_channel_clock :: "64 word option"

text \<open>
  How the loop at \<open>write_payload_chunk\<close> ends: it returns a request state from inside
  (a message was refused by the channel), it reads through the NULL pointer that
  \<open>mqtt_get_message_for_packet\<close> gave for a further message, or it has handed every chunk
  to the channel. The loop need not end: a message without free space takes no payload.
\<close>

datatype chunk_result =
    Chunk_returned aws_mqtt_client_request_state
  | Chunk_null_message
  | Chunk_all_written

text \<open>
  The loop: \<open>i\<close> counts the messages, \<open>headers\<close> is the encoded packet header when the
  current message is the first one, \<open>left_in_message\<close> its free space,
  \<open>payload_cur\<close> the payload not yet written, \<open>evs\<close> the events so far. The chunk
  written never exceeds the free space, so the write into the message cannot fail.
\<close>

partial_function (option) write_payload_chunk ::
  "publish_env \<Rightarrow> bool \<Rightarrow> nat \<Rightarrow> aws_mqtt_packet_publish option \<Rightarrow> nat \<Rightarrow> 8 word list
     \<Rightarrow> event list \<Rightarrow> (chunk_result \<times> event list) option" where
  "write_payload_chunk env is_qos_0 i headers left_in_message payload_cur evs =
     (let to_write = (if length payload_cur < left_in_message
                      then length payload_cur else left_in_message);
          to_write_cur = take to_write payload_cur;
          payload_rest = drop to_write payload_cur
      in if \<not> publish_send_ok env i
         then Some (Chunk_returned (if is_qos_0 then AWS_MQTT_CLIENT_REQUEST_ERROR
                                    else AWS_MQTT_CLIENT_REQUEST_ONGOING), evs)
         else
           let evs1 = evs @ [Message_sent (Publish_message headers to_write_cur)]
           in if payload_rest \<noteq> []
              then (case message_capacity env (Suc i) of
                      None \<Rightarrow> Some (Chunk_null_message, evs1)
                    | Some capacity \<Rightarrow>
                        write_payload_chunk env is_qos_0 (Suc i) None capacity payload_rest evs1)
              else Some (Chunk_all_written, evs1))"

text \<open>
  What a call of \<open>s_publish_send\<close> gives when it ends: the request state returned, or
  the read through a NULL message.
\<close>

datatype publish_send_result =
    Send_returned aws_mqtt_client_request_state
  | Send_null_message

text \<open>
  The end of \<open>s_publish_send\<close>, from the way the chunk loop ended: a return from inside
  the loop is the result; once every chunk is handed over, a request with QoS above 0
  gets its timeout task unless \<open>operation_timeout_ns\<close> is \<open>UINT64_MAX\<close>, and the
  result is COMPLETE for QoS 0 and ONGOING otherwise.
\<close>

fun publish_after_chunks ::
  "publish_env \<Rightarrow> 16 word \<Rightarrow> bool \<Rightarrow> aws_mqtt_client_connection \<Rightarrow> publish_task_arg
     \<Rightarrow> chunk_result \<Rightarrow> event list
     \<Rightarrow> publish_send_result \<times> publish_task_arg \<times> event list" where
  "publish_after_chunks env pid is_qos_0 connection task_arg (Chunk_returned r) evs =
     (Send_returned r, task_arg, evs)"
| "publish_after_chunks env pid is_qos_0 connection task_arg Chunk_null_message evs =
     (Send_null_message, task_arg, evs)"
| "publish_after_chunks env pid is_qos_0 connection task_arg Chunk_all_written evs =
     (if \<not> is_qos_0 \<and> operation_timeout_ns connection \<noteq> UINT64_MAX
      then
        (case s_schedule_timeout_task connection pid
                (publish_timeout_alloc_ok env) (publish_channel_clock env) of
           (None, evs1) \<Rightarrow>
             (Send_returned AWS_MQTT_CLIENT_REQUEST_ERROR, task_arg, evs @ evs1)
         | (Some timeout_task_arg, evs1) \<Rightarrow>
             (Send_returned AWS_MQTT_CLIENT_REQUEST_ONGOING,
              task_arg\<lparr>pub_timeout_task_arg := Some timeout_task_arg\<rparr>, evs @ evs1))
      else
        (Send_returned (if is_qos_0 then AWS_MQTT_CLIENT_REQUEST_COMPLETE
                        else AWS_MQTT_CLIENT_REQUEST_ONGOING),
         task_arg, evs))"

text \<open>
  \<open>s_publish_send\<close>: one send attempt of a PUBLISH request; \<open>None\<close> when the chunk loop
  does not end.
\<close>

definition s_publish_send ::
  "publish_env \<Rightarrow> 16 word \<Rightarrow> bool \<Rightarrow> aws_mqtt_client_connection \<Rightarrow> publish_task_arg
     \<Rightarrow> (publish_send_result \<times> publish_task_arg \<times> event list) option" where
  "s_publish_send env pid is_first_attempt connection task_arg =
     (let is_qos_0 = (pub_qos task_arg = AWS_MQTT_QOS_AT_MOST_ONCE);
          pid1 = (if is_qos_0 then 0 else pid)
      in if is_first_attempt \<and> \<not> publish_init_ok env
         then Some (Send_returned AWS_MQTT_CLIENT_REQUEST_ERROR, task_arg, [])
         else
           let task_arg1 =
                 (if is_first_attempt
                  then task_arg\<lparr>publish :=
                         \<lparr>publish_retain = pub_retain task_arg,
                          publish_qos = pub_qos task_arg,
                          publish_dup = (\<not> is_first_attempt),
                          publish_topic_name = pub_topic task_arg,
                          publish_packet_identifier = pid1,
                          publish_payload = pub_payload task_arg\<rparr>\<rparr>
                  else task_arg)
           in case message_capacity env 0 of
                None \<Rightarrow> Some (Send_returned AWS_MQTT_CLIENT_REQUEST_ERROR, task_arg1, [])
              | Some capacity \<Rightarrow>
                  (case headers_len env of
                     None \<Rightarrow> Some (Send_returned AWS_MQTT_CLIENT_REQUEST_ERROR, task_arg1, [])
                   | Some len \<Rightarrow>
                       if capacity < len
                       then Some (Send_returned AWS_MQTT_CLIENT_REQUEST_ERROR, task_arg1, [])
                       else
                         (case write_payload_chunk env is_qos_0 0 (Some (publish task_arg1))
                                 (capacity - len) (pub_payload task_arg1) [] of
                            None \<Rightarrow> None
                          | Some (ended, evs) \<Rightarrow>
                              Some (publish_after_chunks env pid1 is_qos_0 connection
                                      task_arg1 ended evs))))"

text \<open>
  \<open>aws_mqtt_client_connection_publish\<close> creates the task argument of the request: the
  structure is zeroed and the topic, QoS, retain flag, payload and callback are stored.
\<close>

definition publish_task_arg_new ::
  "string \<Rightarrow> aws_mqtt_qos \<Rightarrow> bool \<Rightarrow> 8 word list \<Rightarrow> fn_ptr option \<Rightarrow> user_data
     \<Rightarrow> publish_task_arg" where
  "publish_task_arg_new tpc q rtn pl cb ud =
     \<lparr>pub_topic = tpc, pub_qos = q, pub_retain = rtn, pub_payload = pl,
      publish = \<lparr>publish_retain = False, publish_qos = AWS_MQTT_QOS_AT_MOST_ONCE,
                 publish_dup = False, publish_topic_name = [],
                 publish_packet_identifier = 0, publish_payload = []\<rparr>,
      pub_on_complete = cb, pub_userdata = ud, pub_timeout_task_arg = None\<rparr>"

text \<open>
  An environment in which nothing a PUBLISH send attempt asks for fails: the packet is
  initialised (on a first attempt), every message is available, the headers are encoded and
  fit the first message, every message is accepted by the channel and the timeout task
  can be scheduled.
\<close>

definition publish_env_succeeds :: "publish_env \<Rightarrow> bool \<Rightarrow> bool" where
  "publish_env_succeeds env is_first_attempt =
     ((is_first_attempt \<longrightarrow> publish_init_ok env)
      \<and> (\<forall>j. message_capacity env j \<noteq> None)
      \<and> (\<exists>len capacity. headers_len env = Some len
             \<and> message_capacity env 0 = Some capacity \<and> len \<le> capacity)
      \<and> (\<forall>j. publish_send_ok env j)
      \<and> publish_timeout_alloc_ok env
      \<and> publish_channel_clock env \<noteq> None)"

section \<open>Example states and requests\<close>

definition connecting_example :: aws_mqtt_client_connection where
  "connecting_example =
     aws_mqtt_client_connection_new\<lparr>state := AWS_MQTT_CLIENT_STATE_CONNECTING, slot := True\<rparr>"

definition connected_example :: aws_mqtt_client_connection where
  "connected_example =
     aws_mqtt_client_connection_new\<lparr>state := AWS_MQTT_CLIENT_STATE_CONNECTED, slot := True\<rparr>"

definition options_example :: aws_mqtt_connection_options where
  "options_example =
     \<lparr>opt_host_name = ''broker'', opt_port = 8883, opt_socket_options = 0,
      opt_tls_options = None, opt_client_id = ''client'',
      opt_keep_alive_time_secs = 0, opt_ping_timeout_ms = 0,
      opt_protocol_operation_timeout_ms = 0, opt_on_connection_complete = Some 1,
      opt_user_data = 0, opt_clean_session = False\<rparr>"

text \<open>
  Two requests: packet id 1 was submitted first and has been written to the transport
  (it is on the ongoing list), packet id 2 was submitted after it and is still queued on
  the pending list.
\<close>

definition first_request :: aws_mqtt_request where
  "first_request = \<lparr>packet_id = 1, on_complete = Some 11, on_complete_ud = 0\<rparr>"

definition second_request :: aws_mqtt_request where
  "second_request = \<lparr>packet_id = 2, on_complete = Some 12, on_complete_ud = 0\<rparr>"

definition in_flight_example :: "bool \<Rightarrow> aws_mqtt_client_connection" where
  "in_flight_example clean =
     connected_example\<lparr>clean_session := clean,
                       ongoing_requests_list := [first_request],
                       pending_requests_list := [second_request],
                       outstanding_requests_table :=
                         [1 \<mapsto> first_request, 2 \<mapsto> second_request]\<rparr>"

definition backoff_example :: aws_mqtt_client_connection where
  "backoff_example = aws_mqtt_client_connection_new\<lparr>reconnect_timeouts :=
     \<lparr>current_sec = 48, min_sec = 1, max_sec = 128, next_attempt_ms = 0,
      next_attempt_reset_timer_ns = 0\<rparr>\<rparr>"

text \<open>
  The backoff has reached the default maximum of 128 seconds on a connected connection;
  the user then lowers the bounds to 1 and 10 seconds.
\<close>

definition backoff_at_max_example :: aws_mqtt_client_connection where
  "backoff_at_max_example = connected_example\<lparr>reconnect_timeouts :=
     \<lparr>current_sec = 128, min_sec = 1, max_sec = 128, next_attempt_ms = 0,
      next_attempt_reset_timer_ns = 0\<rparr>\<rparr>"

definition lowered_max_example :: aws_mqtt_client_connection where
  "lowered_max_example =
     snd (aws_mqtt_client_connection_set_reconnect_timeout backoff_at_max_example 1 10)"

text \<open>
  The user has asked for a disconnect while two requests were in flight (no clean
  session), and the channel is about to report its shutdown.
\<close>

definition disconnecting_example :: aws_mqtt_client_connection where
  "disconnecting_example =
     (in_flight_example False)\<lparr>state := AWS_MQTT_CLIENT_STATE_DISCONNECTING,
                                on_disconnect := Some 21\<rparr>"

definition send_env_ok :: send_env where
  "send_env_ok =
     \<lparr>packet_init_ok = True, add_topic_ok = (\<lambda>i. True), tree_transaction_ok = (\<lambda>i. True),
      message_acquire_ok = True, encode_ok = True, send_message_ok = True,
      timeout_alloc_ok = True, channel_clock = Some 1000, topics_init_ok = True\<rparr>"

definition topic_example :: subscribe_task_topic where
  "topic_example =
     \<lparr>topic_filter = ''a/b'', request_qos = AWS_MQTT_QOS_AT_LEAST_ONCE, on_publish = Some 21,
      on_cleanup = None, on_publish_ud = 0, is_local = False\<rparr>"

definition subscribe_example :: subscribe_task_arg where
  "subscribe_example =
     \<lparr>topics = [topic_example], subscribe = None, tree_updated = False,
      on_suback_multi = None, on_suback_single = Some 22, on_suback_ud = 0\<rparr>"

definition unsubscribe_example :: unsubscribe_task_arg where
  "unsubscribe_example =
     \<lparr>unsub_filter = ''a/b'', unsub_is_local = False, unsubscribe = None,
      unsub_tree_updated = False, on_unsuback = Some 23, on_unsuback_ud = 0,
      unsub_timeout_task_arg = None\<rparr>"

definition publish_env_ok :: publish_env where
  "publish_env_ok =
     \<lparr>publish_init_ok = True, message_capacity = (\<lambda>i. Some 64), headers_len = Some 5,
      publish_send_ok = (\<lambda>i. True), publish_timeout_alloc_ok = True,
      publish_channel_clock = Some 1000\<rparr>"

text \<open>
  A connected session with \<open>clean_session = false\<close> and an operation timeout of 5
  seconds, and a QoS 1 PUBLISH of payload "p" to topic "x".
\<close>

definition session_example :: aws_mqtt_client_connection where
  "session_example = connected_example\<lparr>operation_timeout_ns := 5000000000\<rparr>"

definition publish_example :: publish_task_arg where
  "publish_example =
     publish_task_arg_new ''x'' AWS_MQTT_QOS_AT_LEAST_ONCE False [112] (Some 24) 0"

text \<open>The packet of that PUBLISH with packet id 7 as the first attempt builds it.\<close>

definition publish_example_packet :: aws_mqtt_packet_publish where
  "publish_example_packet =
     \<lparr>publish_retain = False, publish_qos = AWS_MQTT_QOS_AT_LEAST_ONCE, publish_dup = False,
      publish_topic_name = ''x'', publish_packet_identifier = 7, publish_payload = [112]\<rparr>"

text \<open>The same session holding the subscription to "a/b".\<close>

definition subscribed_example :: aws_mqtt_client_connection where
  "subscribed_example =
     session_example\<lparr>subscriptions :=
       [(''a/b'', AWS_MQTT_QOS_AT_LEAST_ONCE, topic_example)]\<rparr>"

section \<open>Reconnect backoff\<close>

lemma backoff_step_nat:
  fixes cur mx :: "64 word"
  shows "unat (if cur > mx div 2 then mx else cur * 2) = min (2 * unat cur) (unat mx)"
proof (cases "cur > mx div 2")
  case True
  then have "unat mx div 2 < unat cur"
    by (simp add: word_less_nat_alt unat_div)
  then have "unat mx < 2 * unat cur" by linarith
  then show ?thesis using True by (simp add: min_def)
next
  case False
  then have le: "unat cur \<le> unat mx div 2"
    by (simp add: word_less_nat_alt unat_div not_less)
  have "unat mx < 2 ^ 64" using unsigned_less [of mx] by simp
  with le have "unat cur * 2 < 2 ^ 64" by linarith
  then have "unat (cur * 2) = unat cur * 2"
    by (simp add: unat_word_ariths)
  with le False show ?thesis by (simp add: min_def)
qed

lemma reconnect_attempt_step:
  "\<exists>c'. fst (s_attempt_reconnect AWS_TASK_STATUS_RUN_READY (Some c) now1 now2 ok) = Some c' \<and>
     backoff_max c' = backoff_max c \<and>
     backoff c' = (if backoff c > backoff_max c div 2 then backoff_max c else backoff c * 2)"
  by (auto simp: s_attempt_reconnect_def s_mqtt_client_connect_def Let_def split: if_splits)

lemma backoff_step_le_max:
  fixes cur mx :: "64 word"
  shows "(if cur > mx div 2 then mx else cur * 2) \<le> mx"
  using backoff_step_nat [of mx cur] by (simp add: word_le_nat_alt)

lemma backoff_step_mono:
  fixes cur mx :: "64 word"
  assumes "cur \<le> mx"
  shows "cur \<le> (if cur > mx div 2 then mx else cur * 2)"
  using backoff_step_nat [of mx cur] assms by (simp add: word_le_nat_alt)

lemma reconnect_attempts_max:
  "backoff_max (reconnect_attempts as c) = backoff_max c"
proof (induction as arbitrary: c)
  case Nil
  show ?case by simp
next
  case (Cons a as)
  obtain n1 n2 ok where a: "a = (n1, n2, ok)" by (cases a) auto
  from reconnect_attempt_step [of c n1 n2 ok] obtain c' where
    "fst (s_attempt_reconnect AWS_TASK_STATUS_RUN_READY (Some c) n1 n2 ok) = Some c'"
    "backoff_max c' = backoff_max c" by blast
  with Cons.IH [of c'] a show ?case by simp
qed

lemma reconnect_attempts_bounded:
  "as \<noteq> [] \<or> backoff c \<le> backoff_max c \<Longrightarrow>
   backoff (reconnect_attempts as c) \<le> backoff_max c"
proof (induction as arbitrary: c)
  case Nil
  then show ?case by simp
next
  case (Cons a as)
  obtain n1 n2 ok where a: "a = (n1, n2, ok)" by (cases a) auto
  from reconnect_attempt_step [of c n1 n2 ok] obtain c' where c':
    "fst (s_attempt_reconnect AWS_TASK_STATUS_RUN_READY (Some c) n1 n2 ok) = Some c'"
    "backoff_max c' = backoff_max c"
    "backoff c' = (if backoff c > backoff_max c div 2 then backoff_max c else backoff c * 2)"
    by blast
  have "backoff c' \<le> backoff_max c'"
    using backoff_step_le_max [of "backoff_max c" "backoff c"] c'(2,3) by simp
  then have "backoff (reconnect_attempts as c') \<le> backoff_max c'"
    using Cons.IH [of c'] by simp
  with c' a show ?case by simp
qed

lemma reconnect_attempts_append:
  "reconnect_attempts (as @ bs) c = reconnect_attempts bs (reconnect_attempts as c)"
proof (induction as arbitrary: c)
  case Nil
  show ?case by simp
next
  case (Cons a as)
  obtain n1 n2 ok where a: "a = (n1, n2, ok)" by (cases a) auto
  from reconnect_attempt_step [of c n1 n2 ok] obtain c' where
    "fst (s_attempt_reconnect AWS_TASK_STATUS_RUN_READY (Some c) n1 n2 ok) = Some c'" by blast
  with Cons.IH [of c'] a show ?case by simp
qed

lemma reconnect_attempts_grow:
  "backoff c \<le> backoff_max c \<Longrightarrow> backoff c \<le> backoff (reconnect_attempts bs c)"
proof (induction bs arbitrary: c)
  case Nil
  show ?case by simp
next
  case (Cons a bs)
  obtain n1 n2 ok where a: "a = (n1, n2, ok)" by (cases a) auto
  from reconnect_attempt_step [of c n1 n2 ok] obtain c' where c':
    "fst (s_attempt_reconnect AWS_TASK_STATUS_RUN_READY (Some c) n1 n2 ok) = Some c'"
    "backoff_max c' = backoff_max c"
    "backoff c' = (if backoff c > backoff_max c div 2 then backoff_max c else backoff c * 2)"
    by blast
  have le: "backoff c' \<le> backoff_max c'"
    using backoff_step_le_max [of "backoff_max c" "backoff c"] c'(2,3) by simp
  have "backoff c \<le> backoff c'"
    using backoff_step_mono [OF Cons.prems] c'(3) by simp
  also have "backoff c' \<le> backoff (reconnect_attempts bs c')"
    using Cons.IH [OF le] .
  finally show ?case using c' a by simp
qed

text \<open>
  C8, as stated, fails: the backoff has reached 128 seconds on a connected connection and
  the user lowers the bounds to 1 and 10 seconds, which
  \<open>aws_mqtt_client_connection_set_reconnect_timeout\<close> accepts, leaving \<open>current_sec\<close> at
  128; the next run of the reconnect task lowers the backoff from 128 to 10.
\<close>

theorem reconnect_backoff_decrease_counterexample:
  "state backoff_at_max_example = AWS_MQTT_CLIENT_STATE_CONNECTED
   \<and> backoff backoff_at_max_example = 128
   \<and> backoff_max backoff_at_max_example = 128
   \<and> fst (aws_mqtt_client_connection_set_reconnect_timeout backoff_at_max_example 1 10)
       = Inr ()
   \<and> backoff lowered_max_example = 128
   \<and> backoff_max lowered_max_example = 10
   \<and> backoff (reconnect_attempts [(5, 6, False)] lowered_max_example) = 10
   \<and> \<not> backoff lowered_max_example
         \<le> backoff (reconnect_attempts [(5, 6, False)] lowered_max_example)"
  by (simp add: lowered_max_example_def backoff_at_max_example_def connected_example_def
      aws_mqtt_client_connection_new_def aws_mqtt_client_connection_set_reconnect_timeout_def
      s_check_connection_state_for_configuration_def AWS_OP_SUCCESS_def AWS_OP_ERR_def
      s_attempt_reconnect_def s_mqtt_client_connect_def Let_def)

text \<open>
  C8, amended. Every run of the reconnect task replaces the backoff \<open>current_sec\<close> by
  \<open>min (2 * current_sec) max_sec\<close> computed without wrap-around: the value after a run
  never exceeds \<open>max_sec\<close>; it does not decrease when it started at or below \<open>max_sec\<close>,
  and it drops to \<open>max_sec\<close> when it started above (\<open>max_sec\<close> was lowered in between);
  in the doubling branch (\<open>current_sec \<le> max_sec / 2\<close>) the product \<open>2 * current_sec\<close>
  is below \<open>2 ^ 64\<close>. Along any sequence of runs with \<open>max_sec\<close> left alone the backoff
  is bounded by \<open>max_sec\<close> after the first run, and it is non-decreasing from the first
  run on, and from the start when it started at or below \<open>max_sec\<close>.
\<close>

theorem s_attempt_reconnect_backoff:
  "(\<exists>c'. fst (s_attempt_reconnect AWS_TASK_STATUS_RUN_READY (Some c) now1 now2 ok) = Some c' \<and>
      backoff_max c' = backoff_max c \<and>
      unat (backoff c') = min (2 * unat (backoff c)) (unat (backoff_max c)) \<and>
      backoff c' \<le> backoff_max c \<and>
      (backoff c \<le> backoff_max c \<longrightarrow> backoff c \<le> backoff c') \<and>
      (backoff_max c < backoff c \<longrightarrow> backoff c' = backoff_max c \<and> backoff c' < backoff c))
   \<and> (\<not> backoff_max c div 2 < backoff c \<longrightarrow> 2 * unat (backoff c) < 2 ^ 64)
   \<and> (as \<noteq> [] \<longrightarrow> backoff (reconnect_attempts as c) \<le> backoff_max c)
   \<and> (as \<noteq> [] \<or> backoff c \<le> backoff_max c \<longrightarrow>
        backoff (reconnect_attempts as c) \<le> backoff (reconnect_attempts (as @ bs) c))"
proof (intro conjI impI)
  from reconnect_attempt_step [of c now1 now2 ok] obtain c' where c':
    "fst (s_attempt_reconnect AWS_TASK_STATUS_RUN_READY (Some c) now1 now2 ok) = Some c'"
    "backoff_max c' = backoff_max c"
    "backoff c' = (if backoff c > backoff_max c div 2 then backoff_max c else backoff c * 2)"
    by blast
  have 1: "unat (backoff c') = min (2 * unat (backoff c)) (unat (backoff_max c))"
    using backoff_step_nat [of "backoff_max c" "backoff c"] c'(3) by simp
  have 2: "backoff c' \<le> backoff_max c"
    using backoff_step_le_max [of "backoff_max c" "backoff c"] c'(3) by simp
  have 3: "backoff c \<le> backoff_max c \<longrightarrow> backoff c \<le> backoff c'"
    using backoff_step_mono [of "backoff c" "backoff_max c"] c'(3) by simp
  have 4: "backoff_max c < backoff c \<longrightarrow> backoff c' = backoff_max c \<and> backoff c' < backoff c"
  proof
    assume a: "backoff_max c < backoff c"
    then have "unat (backoff c') = unat (backoff_max c)"
      using 1 by (simp add: word_less_nat_alt min_def)
    then have "backoff c' = backoff_max c" by (simp only: word_unat_eq_iff)
    with a show "backoff c' = backoff_max c \<and> backoff c' < backoff c" by simp
  qed
  from c'(1,2) 1 2 3 4
  show "\<exists>c'. fst (s_attempt_reconnect AWS_TASK_STATUS_RUN_READY (Some c) now1 now2 ok) = Some c' \<and>
      backoff_max c' = backoff_max c \<and>
      unat (backoff c') = min (2 * unat (backoff c)) (unat (backoff_max c)) \<and>
      backoff c' \<le> backoff_max c \<and>
      (backoff c \<le> backoff_max c \<longrightarrow> backoff c \<le> backoff c') \<and>
      (backoff_max c < backoff c \<longrightarrow> backoff c' = backoff_max c \<and> backoff c' < backoff c)"
    by blast
next
  assume "\<not> backoff_max c div 2 < backoff c"
  then have "unat (backoff c) \<le> unat (backoff_max c) div 2"
    by (simp add: word_less_nat_alt unat_div not_less)
  moreover have "unat (backoff_max c) < 2 ^ 64"
    using unsigned_less [of "backoff_max c"] by simp
  ultimately show "2 * unat (backoff c) < 2 ^ 64" by linarith
next
  assume "as \<noteq> []"
  then show "backoff (reconnect_attempts as c) \<le> backoff_max c"
    using reconnect_attempts_bounded [of as c] by simp
next
  assume h: "as \<noteq> [] \<or> backoff c \<le> backoff_max c"
  let ?d = "reconnect_attempts as c"
  have "backoff ?d \<le> backoff_max ?d"
    using reconnect_attempts_bounded [OF h] reconnect_attempts_max [of as c] by simp
  then show "backoff ?d \<le> backoff (reconnect_attempts (as @ bs) c)"
    using reconnect_attempts_grow [of ?d bs] reconnect_attempts_append [of as bs c] by simp
qed

theorem s_attempt_reconnect_backoff_witness:
  "backoff backoff_example \<le> backoff_max backoff_example
   \<and> \<not> backoff_max backoff_example div 2 < backoff backoff_example
   \<and> backoff (reconnect_attempts [(5, 6, False)] backoff_example) = 96
   \<and> backoff (reconnect_attempts [(5, 6, False), (7, 8, False)] backoff_example) = 128
   \<and> backoff (reconnect_attempts [(5, 6, False), (7, 8, False), (9, 10, True)] backoff_example) = 128
   \<and> backoff_max lowered_max_example < backoff lowered_max_example
   \<and> backoff (reconnect_attempts [(5, 6, False)] lowered_max_example) = 10
   \<and> backoff (reconnect_attempts [(5, 6, False), (7, 8, False)] lowered_max_example) = 10"
  using s_attempt_reconnect_backoff
    [of backoff_example 5 6 False "[(5, 6, False)]" "[(7, 8, False)]"]
    s_attempt_reconnect_backoff
    [of lowered_max_example 5 6 False "[(5, 6, False)]" "[(7, 8, False)]"]
  by (simp add: backoff_example_def aws_mqtt_client_connection_new_def
      lowered_max_example_def backoff_at_max_example_def connected_example_def
      aws_mqtt_client_connection_set_reconnect_timeout_def
      s_check_connection_state_for_configuration_def AWS_OP_SUCCESS_def AWS_OP_ERR_def
      s_attempt_reconnect_def s_mqtt_client_connect_def Let_def)

section \<open>State gates: disconnect and configuration\<close>

text \<open>
  C5, as stated, fails: a disconnect requested while the state is CONNECTING is refused
  with \<open>AWS_ERROR_MQTT_NOT_CONNECTED\<close> and leaves the connection as it was.
\<close>

theorem disconnect_while_connecting_counterexample:
  "aws_mqtt_client_connection_disconnect connecting_example (Some 7) 0
     = (Inl AWS_ERROR_MQTT_NOT_CONNECTED, connecting_example, [])
   \<and> state connecting_example = AWS_MQTT_CLIENT_STATE_CONNECTING"
  by (simp add: aws_mqtt_client_connection_disconnect_def connecting_example_def)

text \<open>
  C5, amended. A user disconnect succeeds exactly when the state is CONNECTED or
  RECONNECTING: it then moves the state to DISCONNECTING, stores the callback and asks a
  bound transport to shut down. In every other state (DISCONNECTED, CONNECTING,
  DISCONNECTING) it fails with \<open>AWS_ERROR_MQTT_NOT_CONNECTED\<close> and changes nothing.
\<close>

theorem disconnect_state_gate:
  "(state c = AWS_MQTT_CLIENT_STATE_CONNECTED \<or> state c = AWS_MQTT_CLIENT_STATE_RECONNECTING \<longrightarrow>
      (\<exists>c' evs. aws_mqtt_client_connection_disconnect c cb ud = (Inr (), c', evs)
         \<and> state c' = AWS_MQTT_CLIENT_STATE_DISCONNECTING
         \<and> on_disconnect c' = cb \<and> on_disconnect_ud c' = ud
         \<and> evs = (if slot c then [Channel_shutdown AWS_ERROR_SUCCESS] else [])))
   \<and> (state c \<noteq> AWS_MQTT_CLIENT_STATE_CONNECTED \<and> state c \<noteq> AWS_MQTT_CLIENT_STATE_RECONNECTING \<longrightarrow>
        aws_mqtt_client_connection_disconnect c cb ud
          = (Inl AWS_ERROR_MQTT_NOT_CONNECTED, c, []))"
  by (auto simp: aws_mqtt_client_connection_disconnect_def mqtt_connection_set_state_def
        mqtt_disconnect_impl_def Let_def)

theorem disconnect_state_gate_witness:
  "state connected_example = AWS_MQTT_CLIENT_STATE_CONNECTED
   \<and> fst (aws_mqtt_client_connection_disconnect connected_example (Some 7) 0) = Inr ()
   \<and> state (fst (snd (aws_mqtt_client_connection_disconnect connected_example (Some 7) 0)))
       = AWS_MQTT_CLIENT_STATE_DISCONNECTING
   \<and> state connecting_example \<noteq> AWS_MQTT_CLIENT_STATE_CONNECTED
   \<and> state connecting_example \<noteq> AWS_MQTT_CLIENT_STATE_RECONNECTING
   \<and> fst (aws_mqtt_client_connection_disconnect connecting_example (Some 7) 0)
       = Inl AWS_ERROR_MQTT_NOT_CONNECTED"
  using disconnect_state_gate [of connected_example "Some 7" 0]
    disconnect_state_gate [of connecting_example "Some 7" 0]
  by (auto simp: connected_example_def connecting_example_def
        aws_mqtt_client_connection_new_def)

text \<open>
  C1, as stated, fails: \<open>set_on_any_publish_handler\<close> is refused in state CONNECTED and
  accepted in state CONNECTING, and \<open>set_will\<close> fails in state DISCONNECTED when the
  topic is invalid.
\<close>

theorem on_any_publish_gate_counterexample:
  "aws_mqtt_client_connection_set_on_any_publish_handler connected_example (Some 3) 0
     = (Inl AWS_ERROR_INVALID_STATE, connected_example)
   \<and> state connected_example = AWS_MQTT_CLIENT_STATE_CONNECTED
   \<and> fst (aws_mqtt_client_connection_set_on_any_publish_handler connecting_example (Some 3) 0)
       = Inr ()
   \<and> on_any_publish
        (snd (aws_mqtt_client_connection_set_on_any_publish_handler connecting_example (Some 3) 0))
       = Some 3
   \<and> state connecting_example = AWS_MQTT_CLIENT_STATE_CONNECTING
   \<and> fst (aws_mqtt_client_connection_set_will aws_mqtt_client_connection_new ''a/#''
            AWS_MQTT_QOS_AT_LEAST_ONCE False [] False True True)
       = Inl AWS_ERROR_MQTT_INVALID_TOPIC
   \<and> state aws_mqtt_client_connection_new = AWS_MQTT_CLIENT_STATE_DISCONNECTED"
  by (simp add: aws_mqtt_client_connection_set_on_any_publish_handler_def
        aws_mqtt_client_connection_set_will_def s_check_connection_state_for_configuration_def
        AWS_OP_SUCCESS_def AWS_OP_ERR_def
        connected_example_def connecting_example_def aws_mqtt_client_connection_new_def)

text \<open>
  C1, amended. \<open>set_will\<close>, \<open>set_login\<close>, \<open>set_reconnect_timeout\<close> and
  \<open>set_connection_interruption_handlers\<close> return \<open>AWS_ERROR_INVALID_STATE\<close> and leave the
  connection unchanged in every state other than DISCONNECTED and CONNECTED; in those two
  states the last two succeed, and the first two never fail with
  \<open>AWS_ERROR_INVALID_STATE\<close> and succeed exactly when the topic is valid and the copies
  could be allocated. \<open>set_on_any_publish_handler\<close> has a gate of its own: it returns
  \<open>AWS_ERROR_INVALID_STATE\<close>, changing nothing, exactly in state CONNECTED and stores the
  handler in every other state.
\<close>

theorem configuration_setters_state_gate:
  "(\<not> configurable c \<longrightarrow>
      aws_mqtt_client_connection_set_will c tpc q rtn pl tv tc pc
        = (Inl AWS_ERROR_INVALID_STATE, c)
      \<and> aws_mqtt_client_connection_set_login c usr pwd uc pwc
        = (Inl AWS_ERROR_INVALID_STATE, c)
      \<and> aws_mqtt_client_connection_set_reconnect_timeout c mn mx
        = (Inl AWS_ERROR_INVALID_STATE, c)
      \<and> aws_mqtt_client_connection_set_connection_interruption_handlers c i iud r rud
        = (Inl AWS_ERROR_INVALID_STATE, c))
   \<and> (configurable c \<longrightarrow>
      (fst (aws_mqtt_client_connection_set_will c tpc q rtn pl tv tc pc) = Inr ()
         \<longleftrightarrow> tv \<and> tc \<and> pc)
      \<and> fst (aws_mqtt_client_connection_set_will c tpc q rtn pl tv tc pc)
          \<noteq> Inl AWS_ERROR_INVALID_STATE
      \<and> (fst (aws_mqtt_client_connection_set_login c usr pwd uc pwc) = Inr ()
         \<longleftrightarrow> uc \<and> (pwd = None \<or> pwc))
      \<and> fst (aws_mqtt_client_connection_set_login c usr pwd uc pwc)
          \<noteq> Inl AWS_ERROR_INVALID_STATE
      \<and> fst (aws_mqtt_client_connection_set_reconnect_timeout c mn mx) = Inr ()
      \<and> fst (aws_mqtt_client_connection_set_connection_interruption_handlers c i iud r rud)
          = Inr ())
   \<and> (state c = AWS_MQTT_CLIENT_STATE_CONNECTED \<longrightarrow>
        aws_mqtt_client_connection_set_on_any_publish_handler c h hud
          = (Inl AWS_ERROR_INVALID_STATE, c))
   \<and> (state c \<noteq> AWS_MQTT_CLIENT_STATE_CONNECTED \<longrightarrow>
        aws_mqtt_client_connection_set_on_any_publish_handler c h hud
          = (Inr (), c\<lparr>on_any_publish := h, on_any_publish_ud := hud\<rparr>))"
  by (auto simp: aws_mqtt_client_connection_set_will_def
        aws_mqtt_client_connection_set_login_def
        aws_mqtt_client_connection_set_reconnect_timeout_def
        aws_mqtt_client_connection_set_connection_interruption_handlers_def
        aws_mqtt_client_connection_set_on_any_publish_handler_def
        s_check_connection_state_for_configuration_def AWS_OP_SUCCESS_def AWS_OP_ERR_def
        Let_def)

theorem configuration_setters_state_gate_witness:
  "\<not> configurable connecting_example
   \<and> fst (aws_mqtt_client_connection_set_reconnect_timeout connecting_example 2 64)
       = Inl AWS_ERROR_INVALID_STATE
   \<and> configurable connected_example
   \<and> fst (aws_mqtt_client_connection_set_reconnect_timeout connected_example 2 64) = Inr ()
   \<and> fst (aws_mqtt_client_connection_set_will connected_example ''a/b''
            AWS_MQTT_QOS_AT_LEAST_ONCE False [] True True True) = Inr ()
   \<and> state connected_example = AWS_MQTT_CLIENT_STATE_CONNECTED
   \<and> fst (aws_mqtt_client_connection_set_on_any_publish_handler connected_example (Some 3) 0)
       = Inl AWS_ERROR_INVALID_STATE
   \<and> state connecting_example \<noteq> AWS_MQTT_CLIENT_STATE_CONNECTED
   \<and> fst (aws_mqtt_client_connection_set_on_any_publish_handler connecting_example (Some 3) 0)
       = Inr ()"
  using configuration_setters_state_gate
      [of connecting_example "''a/b''" AWS_MQTT_QOS_AT_LEAST_ONCE False "[]" True True True
        "''u''" None True True 2 64 None 0 None 0 "Some 3" 0]
    configuration_setters_state_gate
      [of connected_example "''a/b''" AWS_MQTT_QOS_AT_LEAST_ONCE False "[]" True True True
        "''u''" None True True 2 64 None 0 None 0 "Some 3" 0]
  by (auto simp: connected_example_def connecting_example_def
        aws_mqtt_client_connection_new_def)

section \<open>Connect: defaults and the keep-alive assertion\<close>

lemma connect_copy_options_fields:
  "keep_alive_time_secs (connect_copy_options c opts)
     = (if opt_keep_alive_time_secs opts = 0 then 1200 else opt_keep_alive_time_secs opts)"
  "opt_ping_timeout_ms opts = 0 \<Longrightarrow>
     ping_timeout_ns (connect_copy_options c opts) = 3000000000"
  "opt_protocol_operation_timeout_ms opts = 0 \<Longrightarrow>
     operation_timeout_ns (connect_copy_options c opts) = UINT64_MAX"
  "state (connect_copy_options c opts) = state c"
  by (simp_all add: connect_copy_options_def Let_def s_default_keep_alive_sec_def
        s_default_ping_timeout_ns_def)

lemma cancel_requests_release_timeouts:
  "keep_alive_time_secs (cancel_requests_release rs c) = keep_alive_time_secs c
   \<and> ping_timeout_ns (cancel_requests_release rs c) = ping_timeout_ns c
   \<and> operation_timeout_ns (cancel_requests_release rs c) = operation_timeout_ns c"
  by (induction rs arbitrary: c) simp_all

lemma connect_error_exit_timeouts:
  "connect_error_exit c e evs = (r, c', evs') \<Longrightarrow>
     r \<noteq> Aborted_fatal_assert
     \<and> keep_alive_time_secs c' = keep_alive_time_secs c
     \<and> ping_timeout_ns c' = ping_timeout_ns c
     \<and> operation_timeout_ns c' = operation_timeout_ns c"
  by (auto simp: connect_error_exit_def mqtt_connection_set_state_def)

lemma connect_start_timeouts:
  assumes "connect_start c opts idok ch = (r, c', evs)"
  shows "r \<noteq> Aborted_fatal_assert
     \<and> keep_alive_time_secs c' = keep_alive_time_secs c
     \<and> ping_timeout_ns c' = ping_timeout_ns c
     \<and> operation_timeout_ns c' = operation_timeout_ns c"
  using assms
  by (auto simp: connect_start_def Let_def s_mqtt_client_connect_def
        cancel_requests_release_timeouts
        split: if_splits option.splits dest!: connect_error_exit_timeouts)

lemma keep_alive_nanos_nat:
  fixes k :: "16 word" and p :: "64 word"
  shows "(ucast k * AWS_TIMESTAMP_NANOS \<le> p) = (unat k * 1000000000 \<le> unat p)"
proof -
  have "unat k < 2 ^ 16" using unsigned_less [of k] by simp
  then have "unat k * 1000000000 < (2 :: nat) ^ 64" by simp
  moreover have "unat (ucast k :: 64 word) = unat k"
    using \<open>unat k < 2 ^ 16\<close>
    by (simp add: unsigned_ucast_eq take_bit_nat_eq_self)
  ultimately have "unat (ucast k * AWS_TIMESTAMP_NANOS :: 64 word) = unat k * 1000000000"
    by (simp add: AWS_TIMESTAMP_NANOS_def unat_word_ariths)
  then show ?thesis by (simp add: word_le_nat_alt)
qed

text \<open>
  C10. A call of connect that passes the state check (the state is DISCONNECTED; any
  other call returns \<open>AWS_ERROR_MQTT_ALREADY_CONNECTED\<close> before it reads the options)
  leaves, on every way out, the keep-alive at 1200 seconds when the option was 0, the
  ping timeout at 3 seconds when \<open>ping_timeout_ms\<close> was 0 and the operation timeout at
  \<open>UINT64_MAX\<close> when \<open>protocol_operation_timeout_ms\<close> was 0; and it ends in the fatal
  assertion exactly when the keep-alive in nanoseconds is not strictly greater than the
  ping timeout.
\<close>

theorem connect_defaults_and_keep_alive_assertion:
  assumes "state c = AWS_MQTT_CLIENT_STATE_DISCONNECTED"
    and "aws_mqtt_client_connection_connect c opts tls_ok sn_ok id_ok ch = (r, c', evs)"
  shows "keep_alive_time_secs c'
           = (if opt_keep_alive_time_secs opts = 0 then 1200 else opt_keep_alive_time_secs opts)
     \<and> (opt_ping_timeout_ms opts = 0 \<longrightarrow> ping_timeout_ns c' = 3000000000)
     \<and> (opt_protocol_operation_timeout_ms opts = 0 \<longrightarrow> operation_timeout_ns c' = UINT64_MAX)
     \<and> (r = Aborted_fatal_assert)
         = (\<not> unat (keep_alive_time_secs c') * 1000000000 > unat (ping_timeout_ns c'))"
proof -
  let ?c2 = "connect_copy_options
               (mqtt_connection_set_state c AWS_MQTT_CLIENT_STATE_CONNECTING) opts"
  have same: "keep_alive_time_secs c' = keep_alive_time_secs ?c2
      \<and> ping_timeout_ns c' = ping_timeout_ns ?c2
      \<and> operation_timeout_ns c' = operation_timeout_ns ?c2
      \<and> (r = Aborted_fatal_assert)
          = (ucast (keep_alive_time_secs ?c2) * AWS_TIMESTAMP_NANOS \<le> ping_timeout_ns ?c2)"
    using assms
    by (auto simp: aws_mqtt_client_connection_connect_def Let_def
          split: if_splits option.splits
          dest!: connect_start_timeouts connect_error_exit_timeouts)
  then show ?thesis
    using connect_copy_options_fields(1-3)
            [where c = "mqtt_connection_set_state c AWS_MQTT_CLIENT_STATE_CONNECTING"
               and opts = opts]
    by (simp add: keep_alive_nanos_nat not_less)
qed

theorem connect_defaults_and_keep_alive_assertion_witness:
  "state aws_mqtt_client_connection_new = AWS_MQTT_CLIENT_STATE_DISCONNECTED
   \<and> fst (aws_mqtt_client_connection_connect aws_mqtt_client_connection_new options_example
            True True True None) = Returned (Inr ())
   \<and> keep_alive_time_secs (fst (snd (aws_mqtt_client_connection_connect
        aws_mqtt_client_connection_new options_example True True True None))) = 1200
   \<and> ping_timeout_ns (fst (snd (aws_mqtt_client_connection_connect
        aws_mqtt_client_connection_new options_example True True True None))) = 3000000000
   \<and> operation_timeout_ns (fst (snd (aws_mqtt_client_connection_connect
        aws_mqtt_client_connection_new options_example True True True None))) = UINT64_MAX
   \<and> fst (aws_mqtt_client_connection_connect aws_mqtt_client_connection_new
            (options_example\<lparr>opt_keep_alive_time_secs := 2, opt_ping_timeout_ms := 2000\<rparr>)
            True True True None) = Aborted_fatal_assert"
proof -
  obtain r c' evs where e1:
    "aws_mqtt_client_connection_connect aws_mqtt_client_connection_new options_example
       True True True None = (r, c', evs)"
    by (cases "aws_mqtt_client_connection_connect aws_mqtt_client_connection_new
                 options_example True True True None") auto
  obtain r2 c2 evs2 where e2:
    "aws_mqtt_client_connection_connect aws_mqtt_client_connection_new
       (options_example\<lparr>opt_keep_alive_time_secs := 2, opt_ping_timeout_ms := 2000\<rparr>)
       True True True None = (r2, c2, evs2)"
    by (cases "aws_mqtt_client_connection_connect aws_mqtt_client_connection_new
       (options_example\<lparr>opt_keep_alive_time_secs := 2, opt_ping_timeout_ms := 2000\<rparr>)
       True True True None") auto
  have d: "state aws_mqtt_client_connection_new = AWS_MQTT_CLIENT_STATE_DISCONNECTED"
    by (simp add: aws_mqtt_client_connection_new_def)
  have p2: "ping_timeout_ns c2 = 2000000000"
    using e2 d
    by (auto simp: aws_mqtt_client_connection_connect_def Let_def options_example_def
          connect_copy_options_def mqtt_connection_set_state_def
          aws_timestamp_convert_millis_to_nanos_def aws_mul_u64_saturating_def
          AWS_TIMESTAMP_NANOS_def s_default_keep_alive_sec_def
          split: if_splits)
  have f1: "r \<noteq> Aborted_fatal_assert" "keep_alive_time_secs c' = 1200"
      "ping_timeout_ns c' = 3000000000" "operation_timeout_ns c' = UINT64_MAX"
    using connect_defaults_and_keep_alive_assertion [OF d e1]
    by (simp_all add: options_example_def)
  have r: "r = Returned (Inr ())"
    using e1 d f1(1)
    by (auto simp: aws_mqtt_client_connection_connect_def Let_def options_example_def
          connect_start_def s_mqtt_client_connect_def split: if_splits)
  have f2: "r2 = Aborted_fatal_assert"
    using connect_defaults_and_keep_alive_assertion [OF d e2] p2
    by (simp add: options_example_def)
  show ?thesis
    by (simp add: e1 e2 d f1 f2 r)
qed

section \<open>Channel shutdown: requests in flight\<close>

lemma set_state_frame:
  "pending_requests_list (mqtt_connection_set_state c s) = pending_requests_list c"
  "ongoing_requests_list (mqtt_connection_set_state c s) = ongoing_requests_list c"
  "outstanding_requests_table (mqtt_connection_set_state c s) = outstanding_requests_table c"
  "requests_pool (mqtt_connection_set_state c s) = requests_pool c"
  by (simp_all add: mqtt_connection_set_state_def)

lemma set_state_callbacks:
  "on_disconnect (mqtt_connection_set_state c s) = on_disconnect c"
  "on_interrupted (mqtt_connection_set_state c s) = on_interrupted c"
  "state (mqtt_connection_set_state c s) = s"
  by (simp_all add: mqtt_connection_set_state_def)

lemma destroy_final_requests_frame:
  assumes "destroy_final_requests rs c = (c', evs)"
  shows "pending_requests_list c' = (if rs = [] then pending_requests_list c else [])
    \<and> ongoing_requests_list c' = ongoing_requests_list c
    \<and> outstanding_requests_table c' = outstanding_requests_table c
    \<and> requests_pool c' = rev rs @ requests_pool c
    \<and> state c' = state c
    \<and> evs = destroyed_requests_callbacks rs"
  using assms
proof (induction rs arbitrary: c c' evs)
  case Nil
  then show ?case by simp
next
  case (Cons r rs)
  obtain c3 es where d: "destroy_final_requests rs
      (c\<lparr>pending_requests_list := rs,
         requests_pool := r # requests_pool c\<rparr>) = (c3, es)"
    by (metis surj_pair)
  from Cons.IH [OF d] Cons.prems d show ?case
    by (cases rs) (auto simp: Let_def)
qed

lemma destroyed_requests_callbacks_all_completions:
  "filter is_completion (destroyed_requests_callbacks rs) = destroyed_requests_callbacks rs"
  by (induction rs) (simp_all split: option.splits)

lemma destroy_final_frame:
  assumes "s_mqtt_client_connection_destroy_final c = (c', evs)"
  shows "pending_requests_list c' = []
    \<and> ongoing_requests_list c' = ongoing_requests_list c
    \<and> outstanding_requests_table c' = outstanding_requests_table c
    \<and> requests_pool c' = rev (pending_requests_list c) @ requests_pool c
    \<and> state c' = state c
    \<and> Connection_destroyed \<in> set evs
    \<and> filter is_completion evs = destroyed_requests_callbacks (pending_requests_list c)"
proof -
  obtain c1 es where d: "destroy_final_requests (pending_requests_list c) c = (c1, es)"
    by (metis surj_pair)
  note f = destroy_final_requests_frame [OF d]
  have r: "c' = c1" "evs = es @ [Connection_destroyed]"
    using assms d by (simp_all add: s_mqtt_client_connection_destroy_final_def)
  have 1: "pending_requests_list c' = []" using f r(1) by (simp split: if_splits)
  have 2: "filter is_completion evs = es"
    using f r(2) destroyed_requests_callbacks_all_completions
      [of "pending_requests_list c"] by simp
  from 1 2 f r show ?thesis by simp
qed

lemma start_destroy_frame:
  assumes "s_mqtt_client_connection_start_destroy c = (c', evs)"
  shows "(Connection_destroyed \<in> set evs) = (state c = AWS_MQTT_CLIENT_STATE_DISCONNECTED)
    \<and> pending_requests_list c'
        = (if state c = AWS_MQTT_CLIENT_STATE_DISCONNECTED then [] else pending_requests_list c)
    \<and> ongoing_requests_list c' = ongoing_requests_list c
    \<and> (state c = AWS_MQTT_CLIENT_STATE_DISCONNECTED
          \<longrightarrow> state c' = AWS_MQTT_CLIENT_STATE_DISCONNECTED)
    \<and> outstanding_requests_table c' = outstanding_requests_table c
    \<and> requests_pool c'
        = (if state c = AWS_MQTT_CLIENT_STATE_DISCONNECTED
           then rev (pending_requests_list c) else []) @ requests_pool c
    \<and> filter is_completion evs
        = (if state c = AWS_MQTT_CLIENT_STATE_DISCONNECTED
           then destroyed_requests_callbacks (pending_requests_list c) else [])"
proof (cases "state c = AWS_MQTT_CLIENT_STATE_DISCONNECTED")
  case True
  then have "s_mqtt_client_connection_destroy_final c = (c', evs)"
    using assms by (simp add: s_mqtt_client_connection_start_destroy_def)
  from destroy_final_frame [OF this] True show ?thesis by simp
next
  case False
  then show ?thesis using assms
    by (auto simp: s_mqtt_client_connection_start_destroy_def Let_def set_state_frame
          mqtt_disconnect_impl_def split: if_splits)
qed

lemma release_frame:
  assumes "aws_mqtt_client_connection_release c l = (c', evs)"
  shows "(Connection_destroyed \<in> set evs)
           = (l \<and> state c = AWS_MQTT_CLIENT_STATE_DISCONNECTED)
    \<and> pending_requests_list c'
        = (if l \<and> state c = AWS_MQTT_CLIENT_STATE_DISCONNECTED
           then [] else pending_requests_list c)
    \<and> ongoing_requests_list c' = ongoing_requests_list c
    \<and> (state c = AWS_MQTT_CLIENT_STATE_DISCONNECTED
          \<longrightarrow> state c' = AWS_MQTT_CLIENT_STATE_DISCONNECTED)
    \<and> outstanding_requests_table c' = outstanding_requests_table c
    \<and> requests_pool c'
        = (if l \<and> state c = AWS_MQTT_CLIENT_STATE_DISCONNECTED
           then rev (pending_requests_list c) else []) @ requests_pool c
    \<and> filter is_completion evs
        = (if l \<and> state c = AWS_MQTT_CLIENT_STATE_DISCONNECTED
           then destroyed_requests_callbacks (pending_requests_list c) else [])"
proof (cases l)
  case False
  then show ?thesis using assms by (auto simp: aws_mqtt_client_connection_release_def)
next
  case True
  obtain c1 es where d: "s_mqtt_client_connection_start_destroy c = (c1, es)"
    by (metis surj_pair)
  have r: "c' = c1" "evs = Connection_released # es"
    using assms d True by (simp_all add: aws_mqtt_client_connection_release_def)
  from start_destroy_frame [OF d] r True show ?thesis by simp
qed

lemma call_on_disconnect_frame:
  assumes "call_on_disconnect c = (c', evs)"
  shows "(Connection_destroyed \<in> set evs) = (on_disconnect c = Some s_on_final_disconnect)
    \<and> pending_requests_list c'
        = (if on_disconnect c = Some s_on_final_disconnect
           then [] else pending_requests_list c)
    \<and> ongoing_requests_list c' = ongoing_requests_list c
    \<and> outstanding_requests_table c' = outstanding_requests_table c
    \<and> requests_pool c'
        = (if on_disconnect c = Some s_on_final_disconnect
           then rev (pending_requests_list c) else []) @ requests_pool c
    \<and> state c' = state c
    \<and> filter is_completion evs
        = (if on_disconnect c = Some s_on_final_disconnect
           then destroyed_requests_callbacks (pending_requests_list c) else [])"
proof (cases "on_disconnect c = Some s_on_final_disconnect")
  case True
  then have "s_mqtt_client_connection_destroy_final c = (c', evs)"
    using assms by (simp add: call_on_disconnect_def)
  from destroy_final_frame [OF this] True show ?thesis by simp
next
  case False
  then show ?thesis using assms
    by (auto simp: call_on_disconnect_def split: option.splits if_splits)
qed

lemma call_on_connection_complete_trace:
  "filter is_completion (call_on_connection_complete c e) = []"
  "Connection_destroyed \<notin> set (call_on_connection_complete c e)"
  by (simp_all add: call_on_connection_complete_def split: option.splits)

lemma shutdown_disconnected_frame:
  assumes "shutdown_disconnected c p e l = (c', evs)"
  shows "(Connection_destroyed \<in> set evs)
           = (l \<or> (p = AWS_MQTT_CLIENT_STATE_CONNECTED
                     \<or> p = AWS_MQTT_CLIENT_STATE_DISCONNECTING)
                    \<and> on_disconnect c = Some s_on_final_disconnect)
    \<and> pending_requests_list c'
        = (if Connection_destroyed \<in> set evs then [] else pending_requests_list c)
    \<and> ongoing_requests_list c' = ongoing_requests_list c
    \<and> outstanding_requests_table c' = outstanding_requests_table c
    \<and> requests_pool c'
        = (if Connection_destroyed \<in> set evs
           then rev (pending_requests_list c) else []) @ requests_pool c
    \<and> state c' = AWS_MQTT_CLIENT_STATE_DISCONNECTED
    \<and> filter is_completion evs
        = (if Connection_destroyed \<in> set evs
           then destroyed_requests_callbacks (pending_requests_list c) else [])"
proof -
  let ?c1 = "mqtt_connection_set_state c AWS_MQTT_CLIENT_STATE_DISCONNECTED"
  let ?cb = "p = AWS_MQTT_CLIENT_STATE_CONNECTED \<or> p = AWS_MQTT_CLIENT_STATE_DISCONNECTING"
  obtain c2 ev_final where f:
    "(if ?cb then call_on_disconnect ?c1
      else if p = AWS_MQTT_CLIENT_STATE_CONNECTING
           then (?c1, call_on_connection_complete ?c1 e) else (?c1, [])) = (c2, ev_final)"
    by (metis surj_pair)
  obtain c3 ev_release where r: "aws_mqtt_client_connection_release c2 l = (c3, ev_release)"
    by (metis surj_pair)
  have res: "c' = c3" "evs = ev_final @ ev_release"
    using assms f r
    by (cases p; simp add: shutdown_disconnected_def Let_def)+
  let ?d1 = "?cb \<and> on_disconnect c = Some s_on_final_disconnect"
  have s1: "(Connection_destroyed \<in> set ev_final) = ?d1
    \<and> pending_requests_list c2 = (if ?d1 then [] else pending_requests_list c)
    \<and> ongoing_requests_list c2 = ongoing_requests_list c
    \<and> outstanding_requests_table c2 = outstanding_requests_table c
    \<and> requests_pool c2 = (if ?d1 then rev (pending_requests_list c) else []) @ requests_pool c
    \<and> state c2 = AWS_MQTT_CLIENT_STATE_DISCONNECTED
    \<and> filter is_completion ev_final
        = (if ?d1 then destroyed_requests_callbacks (pending_requests_list c) else [])"
  proof (cases ?cb)
    case True
    then have "call_on_disconnect ?c1 = (c2, ev_final)" using f by simp
    from call_on_disconnect_frame [OF this] True show ?thesis
      by (simp add: set_state_frame set_state_callbacks)
  next
    case False
    then show ?thesis using f
      by (auto simp: set_state_frame set_state_callbacks call_on_connection_complete_trace
            split: if_splits)
  qed
  note s2 = release_frame [OF r]
  show ?thesis
  proof (cases ?d1)
    case True
    with s1 s2 res show ?thesis by simp
  next
    case False
    with s1 s2 res show ?thesis by auto
  qed
qed


lemma cancel_requests_callbacks_all_completions:
  "[x \<leftarrow> cancel_requests_callbacks rs. is_completion x] = cancel_requests_callbacks rs"
  by (induction rs) (simp_all split: option.splits)

lemma cancel_requests_callbacks_no_destroyed:
  "Connection_destroyed \<notin> set (cancel_requests_callbacks rs)"
  by (induction rs) (simp_all split: option.splits)

lemma cancel_requests_release_frame:
  "pending_requests_list (cancel_requests_release rs c) = pending_requests_list c"
  "ongoing_requests_list (cancel_requests_release rs c) = ongoing_requests_list c"
  "state (cancel_requests_release rs c) = state c"
  by (induction rs arbitrary: c) simp_all

lemma cancel_requests_release_callbacks:
  "on_disconnect (cancel_requests_release rs c) = on_disconnect c"
  "on_interrupted (cancel_requests_release rs c) = on_interrupted c"
  by (induction rs arbitrary: c) simp_all

lemma cancel_requests_release_table:
  "outstanding_requests_table (cancel_requests_release rs c) p
     = (if p \<in> packet_id ` set rs then None else outstanding_requests_table c p)"
  by (induction rs arbitrary: c) auto

lemma cancel_requests_release_pool:
  "requests_pool (cancel_requests_release rs c) = rev rs @ requests_pool c"
  by (induction rs arbitrary: c) simp_all

lemma call_on_interrupted_frame:
  assumes "call_on_interrupted c e ud = (c', evs)"
  shows "pending_requests_list c' = pending_requests_list c"
    and "ongoing_requests_list c' = ongoing_requests_list c"
    and "outstanding_requests_table c' = outstanding_requests_table c"
    and "requests_pool c' = requests_pool c"
    and "[x \<leftarrow> evs. is_completion x] = []"
  using assms
  by (auto simp: call_on_interrupted_def aws_mqtt_client_connection_disconnect_def
        mqtt_disconnect_impl_def Let_def set_state_frame
        split: option.splits if_splits prod.splits)

lemma call_on_interrupted_reconnecting:
  assumes "call_on_interrupted c e ud = (c', evs)"
    and "state c = AWS_MQTT_CLIENT_STATE_RECONNECTING"
  shows "Connection_destroyed \<notin> set evs"
    and "state c' = (if on_interrupted c \<noteq> None \<and> ud \<noteq> None
                     then AWS_MQTT_CLIENT_STATE_DISCONNECTING
                     else AWS_MQTT_CLIENT_STATE_RECONNECTING)"
    and "on_disconnect c' = (if on_interrupted c \<noteq> None \<and> ud \<noteq> None
                             then fst (the ud) else on_disconnect c)"
  using assms
  by (auto simp: call_on_interrupted_def aws_mqtt_client_connection_disconnect_def
        mqtt_disconnect_impl_def Let_def mqtt_connection_set_state_def
        split: option.splits if_splits prod.splits)

lemma call_on_interrupted_all:
  assumes "call_on_interrupted c e ud = (c', evs)"
  shows "pending_requests_list c' = pending_requests_list c
    \<and> ongoing_requests_list c' = ongoing_requests_list c
    \<and> outstanding_requests_table c' = outstanding_requests_table c
    \<and> requests_pool c' = requests_pool c
    \<and> filter is_completion evs = []
    \<and> (state c = AWS_MQTT_CLIENT_STATE_RECONNECTING \<longrightarrow>
          Connection_destroyed \<notin> set evs
          \<and> state c' = (if on_interrupted c \<noteq> None \<and> ud \<noteq> None
                         then AWS_MQTT_CLIENT_STATE_DISCONNECTING
                         else AWS_MQTT_CLIENT_STATE_RECONNECTING)
          \<and> on_disconnect c' = (if on_interrupted c \<noteq> None \<and> ud \<noteq> None
                                 then fst (the ud) else on_disconnect c))"
  using call_on_interrupted_frame [OF assms] call_on_interrupted_reconnecting [OF assms]
  by simp

lemmas shutdown_frames = set_state_frame set_state_callbacks
  cancel_requests_release_frame cancel_requests_release_pool
  cancel_requests_release_table cancel_requests_release_callbacks
  cancel_requests_callbacks_all_completions cancel_requests_callbacks_no_destroyed

lemma s_mqtt_client_shutdown_summary:
  assumes "s_mqtt_client_shutdown c err ud l = (c', evs)"
  shows "ongoing_requests_list c' = []
    \<and> pending_requests_list c'
        = (if Connection_destroyed \<in> set evs \<or> clean_session c then []
           else pending_requests_list c @ ongoing_requests_list c)
    \<and> outstanding_requests_table c'
        = outstanding_requests_table
            (cancel_requests_release
               (if clean_session c
                then ongoing_requests_list c @ pending_requests_list c else []) c)
    \<and> requests_pool c'
        = (if Connection_destroyed \<in> set evs \<and> \<not> clean_session c
           then rev (pending_requests_list c @ ongoing_requests_list c) else [])
          @ requests_pool
              (cancel_requests_release
                 (if clean_session c
                  then ongoing_requests_list c @ pending_requests_list c else []) c)
    \<and> filter is_completion evs
        = cancel_requests_callbacks
            (if clean_session c
             then ongoing_requests_list c @ pending_requests_list c else [])
          @ (if Connection_destroyed \<in> set evs \<and> \<not> clean_session c
             then destroyed_requests_callbacks
                    (pending_requests_list c @ ongoing_requests_list c)
             else [])
    \<and> (Connection_destroyed \<in> set evs)
        = (state c = AWS_MQTT_CLIENT_STATE_DISCONNECTING
             \<and> (l \<or> on_disconnect c = Some s_on_final_disconnect)
           \<or> state c = AWS_MQTT_CLIENT_STATE_CONNECTING \<and> l
           \<or> state c = AWS_MQTT_CLIENT_STATE_CONNECTED \<and> on_interrupted c \<noteq> None
               \<and> (\<exists>cb u. ud = Some (cb, u) \<and> (l \<or> cb = Some s_on_final_disconnect)))
    \<and> (state c = AWS_MQTT_CLIENT_STATE_RECONNECTING
          \<or> state c = AWS_MQTT_CLIENT_STATE_CONNECTED
              \<and> (on_interrupted c = None \<or> ud = None)
        \<longrightarrow> state c' = AWS_MQTT_CLIENT_STATE_RECONNECTING)"
proof -
  define cancelling where "cancelling =
    (if clean_session c then ongoing_requests_list c @ pending_requests_list c else [])"
  define moved where "moved =
    (if clean_session c then [] else pending_requests_list c @ ongoing_requests_list c)"
  define c1 where "c1 =
    (if clean_session c
     then c\<lparr>ongoing_requests_list := [], pending_requests_list := []\<rparr>
     else c\<lparr>pending_requests_list := pending_requests_list c @ ongoing_requests_list c,
            ongoing_requests_list := []\<rparr>)"
  define c2 where "c2 =
    (if state c1 = AWS_MQTT_CLIENT_STATE_CONNECTED
     then mqtt_connection_set_state c1 AWS_MQTT_CLIENT_STATE_RECONNECTING else c1)"
  define c3 where "c3 = (if slot c2 then c2\<lparr>slot := False\<rparr> else c2)"
  define c4 where "c4 = cancel_requests_release cancelling c3"
  define e1 where "e1 =
    (if err = AWS_ERROR_SUCCESS
        \<and> state c1 \<noteq> AWS_MQTT_CLIENT_STATE_DISCONNECTING
        \<and> state c1 \<noteq> AWS_MQTT_CLIENT_STATE_DISCONNECTED
     then AWS_ERROR_MQTT_UNEXPECTED_HANGUP else err)"
  define ev_slot where "ev_slot = (if slot c2 then [Channel_slot_removed] else [])"
  define ev_cancel where "ev_cancel = cancel_requests_callbacks cancelling"
  have unfolded: "s_mqtt_client_shutdown c err ud l =
    (case (case state c1 of
             AWS_MQTT_CLIENT_STATE_RECONNECTING \<Rightarrow>
               (c4, [Reconnect_task_scheduled (next_attempt_ms (reconnect_timeouts c4))],
                state c1 = AWS_MQTT_CLIENT_STATE_DISCONNECTING
                  \<or> state c1 = AWS_MQTT_CLIENT_STATE_CONNECTING)
           | AWS_MQTT_CLIENT_STATE_CONNECTED \<Rightarrow>
               (case call_on_interrupted c4 e1 ud of
                  (c4a, ev_cb) \<Rightarrow>
                    if state c4a = AWS_MQTT_CLIENT_STATE_DISCONNECTING
                    then (c4a, ev_cb, True)
                    else (c4a,
                          ev_cb @ [Reconnect_task_scheduled
                                     (next_attempt_ms (reconnect_timeouts c4a))],
                          state c1 = AWS_MQTT_CLIENT_STATE_DISCONNECTING
                            \<or> state c1 = AWS_MQTT_CLIENT_STATE_CONNECTING))
           | _ \<Rightarrow> (c4, [], state c1 = AWS_MQTT_CLIENT_STATE_DISCONNECTING
                              \<or> state c1 = AWS_MQTT_CLIENT_STATE_CONNECTING)) of
       (c5, ev_reconnect, disconnected_state2) \<Rightarrow>
         if disconnected_state2
         then (case shutdown_disconnected c5 (state c1) e1 l of
                 (c6, ev_final) \<Rightarrow> (c6, ev_slot @ ev_cancel @ ev_reconnect @ ev_final))
         else (c5, ev_slot @ ev_cancel @ ev_reconnect))"
    unfolding s_mqtt_client_shutdown_def Let_def c1_def c2_def c3_def c4_def e1_def
      ev_slot_def ev_cancel_def cancelling_def
    by (rule refl)
  have s1: "state c1 = state c" by (simp add: c1_def)
  have f4: "pending_requests_list c4 = moved" "ongoing_requests_list c4 = []"
    "outstanding_requests_table c4
       = outstanding_requests_table (cancel_requests_release cancelling c)"
    "requests_pool c4 = requests_pool (cancel_requests_release cancelling c)"
    "on_disconnect c4 = on_disconnect c" "on_interrupted c4 = on_interrupted c"
    "state c4 = (if state c = AWS_MQTT_CLIENT_STATE_CONNECTED
                 then AWS_MQTT_CLIENT_STATE_RECONNECTING else state c)"
    by (auto simp: c4_def c3_def c2_def c1_def moved_def shutdown_frames fun_eq_iff)
  have e0: "filter is_completion ev_slot = []" "Connection_destroyed \<notin> set ev_slot"
    "filter is_completion ev_cancel = ev_cancel" "Connection_destroyed \<notin> set ev_cancel"
    by (simp_all add: ev_slot_def ev_cancel_def shutdown_frames)
  let ?D = "Connection_destroyed \<in> set evs"
  have stay: "ongoing_requests_list c' = []
      \<and> pending_requests_list c' = (if ?D then [] else moved)
      \<and> outstanding_requests_table c'
          = outstanding_requests_table (cancel_requests_release cancelling c)
      \<and> requests_pool c'
          = (if ?D then rev moved else [])
            @ requests_pool (cancel_requests_release cancelling c)
      \<and> filter is_completion evs
          = ev_cancel @ (if ?D then destroyed_requests_callbacks moved else [])
      \<and> \<not> ?D"
    if "pending_requests_list c' = moved" "ongoing_requests_list c' = []"
      "outstanding_requests_table c'
         = outstanding_requests_table (cancel_requests_release cancelling c)"
      "requests_pool c' = requests_pool (cancel_requests_release cancelling c)"
      "evs = ev_slot @ ev_cancel @ evr"
      "filter is_completion evr = []" "Connection_destroyed \<notin> set evr"
    for evr
    using that e0 by simp
  have fin: "ongoing_requests_list c' = []
      \<and> pending_requests_list c' = (if ?D then [] else moved)
      \<and> outstanding_requests_table c'
          = outstanding_requests_table (cancel_requests_release cancelling c)
      \<and> requests_pool c'
          = (if ?D then rev moved else [])
            @ requests_pool (cancel_requests_release cancelling c)
      \<and> filter is_completion evs
          = ev_cancel @ (if ?D then destroyed_requests_callbacks moved else [])
      \<and> ?D = (l \<or> (state c = AWS_MQTT_CLIENT_STATE_CONNECTED
                      \<or> state c = AWS_MQTT_CLIENT_STATE_DISCONNECTING)
                     \<and> on_disconnect c5 = Some s_on_final_disconnect)
      \<and> state c' = AWS_MQTT_CLIENT_STATE_DISCONNECTED"
    if "shutdown_disconnected c5 (state c) e1 l = (c', evf)"
      "evs = ev_slot @ ev_cancel @ evr @ evf"
      "filter is_completion evr = []" "Connection_destroyed \<notin> set evr"
      "pending_requests_list c5 = moved" "ongoing_requests_list c5 = []"
      "outstanding_requests_table c5
         = outstanding_requests_table (cancel_requests_release cancelling c)"
      "requests_pool c5 = requests_pool (cancel_requests_release cancelling c)"
    for c5 evr evf
  proof -
    note sd = shutdown_disconnected_frame [OF that(1)]
    have d: "?D = (Connection_destroyed \<in> set evf)"
      using that(2,4) e0 by simp
    show ?thesis
      using sd that(2-) e0 unfolding d by auto
  qed
  have goal: "ongoing_requests_list c' = []
      \<and> pending_requests_list c' = (if ?D then [] else moved)
      \<and> outstanding_requests_table c'
          = outstanding_requests_table (cancel_requests_release cancelling c)
      \<and> requests_pool c'
          = (if ?D then rev moved else [])
            @ requests_pool (cancel_requests_release cancelling c)
      \<and> filter is_completion evs
          = ev_cancel @ (if ?D then destroyed_requests_callbacks moved else [])
      \<and> ?D
          = (state c = AWS_MQTT_CLIENT_STATE_DISCONNECTING
               \<and> (l \<or> on_disconnect c = Some s_on_final_disconnect)
             \<or> state c = AWS_MQTT_CLIENT_STATE_CONNECTING \<and> l
             \<or> state c = AWS_MQTT_CLIENT_STATE_CONNECTED \<and> on_interrupted c \<noteq> None
                 \<and> (\<exists>cb u. ud = Some (cb, u) \<and> (l \<or> cb = Some s_on_final_disconnect)))
      \<and> (state c = AWS_MQTT_CLIENT_STATE_RECONNECTING
            \<or> state c = AWS_MQTT_CLIENT_STATE_CONNECTED
                \<and> (on_interrupted c = None \<or> ud = None)
          \<longrightarrow> state c' = AWS_MQTT_CLIENT_STATE_RECONNECTING)"
  proof (cases "state c")
    case AWS_MQTT_CLIENT_STATE_CONNECTING
    obtain c6 evf where
      sd: "shutdown_disconnected c4 AWS_MQTT_CLIENT_STATE_CONNECTING e1 l = (c6, evf)"
      by (metis surj_pair)
    have r: "c' = c6" "evs = ev_slot @ ev_cancel @ [] @ evf"
      using assms sd AWS_MQTT_CLIENT_STATE_CONNECTING unfolding unfolded s1 by simp_all
    have sd': "shutdown_disconnected c4 (state c) e1 l = (c', evf)"
      using sd r(1) AWS_MQTT_CLIENT_STATE_CONNECTING by simp
    from fin [OF sd' r(2) _ _ f4(1-4)] AWS_MQTT_CLIENT_STATE_CONNECTING
    show ?thesis by simp
  next
    case AWS_MQTT_CLIENT_STATE_DISCONNECTING
    obtain c6 evf where
      sd: "shutdown_disconnected c4 AWS_MQTT_CLIENT_STATE_DISCONNECTING e1 l = (c6, evf)"
      by (metis surj_pair)
    have r: "c' = c6" "evs = ev_slot @ ev_cancel @ [] @ evf"
      using assms sd AWS_MQTT_CLIENT_STATE_DISCONNECTING unfolding unfolded s1 by simp_all
    have sd': "shutdown_disconnected c4 (state c) e1 l = (c', evf)"
      using sd r(1) AWS_MQTT_CLIENT_STATE_DISCONNECTING by simp
    from fin [OF sd' r(2) _ _ f4(1-4)] AWS_MQTT_CLIENT_STATE_DISCONNECTING f4(5)
    show ?thesis by simp
  next
    case AWS_MQTT_CLIENT_STATE_RECONNECTING
    then have "c' = c4"
      "evs = ev_slot @ ev_cancel
               @ [Reconnect_task_scheduled (next_attempt_ms (reconnect_timeouts c4))]"
      using assms unfolding unfolded s1 by auto
    from stay [OF _ _ _ _ this(2)] this(1) f4 AWS_MQTT_CLIENT_STATE_RECONNECTING
    show ?thesis by simp
  next
    case AWS_MQTT_CLIENT_STATE_DISCONNECTED
    then have "c' = c4" "evs = ev_slot @ ev_cancel @ []"
      using assms unfolding unfolded s1 by auto
    from stay [OF _ _ _ _ this(2)] this(1) f4 AWS_MQTT_CLIENT_STATE_DISCONNECTED
    show ?thesis by simp
  next
    case AWS_MQTT_CLIENT_STATE_CONNECTED
    obtain c4a ev_cb where cb: "call_on_interrupted c4 e1 ud = (c4a, ev_cb)"
      by (metis surj_pair)
    have st4: "state c4 = AWS_MQTT_CLIENT_STATE_RECONNECTING"
      using f4(7) AWS_MQTT_CLIENT_STATE_CONNECTED by simp
    note fr = call_on_interrupted_frame [OF cb]
    note rc = call_on_interrupted_reconnecting [OF cb st4]
    show ?thesis
    proof (cases "on_interrupted c \<noteq> None \<and> ud \<noteq> None")
      case True
      then have st: "state c4a = AWS_MQTT_CLIENT_STATE_DISCONNECTING"
        and od: "on_disconnect c4a = fst (the ud)"
        using rc(2,3) f4(6) by simp_all
      obtain c6 evf where
        sd: "shutdown_disconnected c4a AWS_MQTT_CLIENT_STATE_CONNECTED e1 l = (c6, evf)"
        by (metis surj_pair)
      have r: "c' = c6" "evs = ev_slot @ ev_cancel @ ev_cb @ evf"
        using assms sd cb st AWS_MQTT_CLIENT_STATE_CONNECTED unfolding unfolded s1
        by simp_all
      have sd': "shutdown_disconnected c4a (state c) e1 l = (c', evf)"
        using sd r(1) AWS_MQTT_CLIENT_STATE_CONNECTED by simp
      have p: "pending_requests_list c4a = moved" "ongoing_requests_list c4a = []"
        "outstanding_requests_table c4a
           = outstanding_requests_table (cancel_requests_release cancelling c)"
        "requests_pool c4a = requests_pool (cancel_requests_release cancelling c)"
        using fr f4 by simp_all
      from fin [OF sd' r(2) fr(5) rc(1) p] AWS_MQTT_CLIENT_STATE_CONNECTED od True
      show ?thesis by auto
    next
      case False
      then have st: "state c4a = AWS_MQTT_CLIENT_STATE_RECONNECTING"
        using rc(2) f4(6) by simp
      have r: "c' = c4a"
        "evs = ev_slot @ ev_cancel @ (ev_cb
                 @ [Reconnect_task_scheduled (next_attempt_ms (reconnect_timeouts c4a))])"
        using assms cb st AWS_MQTT_CLIENT_STATE_CONNECTED unfolding unfolded s1
        by auto
      have n: "filter is_completion
                 (ev_cb @ [Reconnect_task_scheduled
                             (next_attempt_ms (reconnect_timeouts c4a))]) = []"
        "Connection_destroyed \<notin> set
           (ev_cb @ [Reconnect_task_scheduled (next_attempt_ms (reconnect_timeouts c4a))])"
        using fr(5) rc(1) by simp_all
      have p: "pending_requests_list c' = moved" "ongoing_requests_list c' = []"
        "outstanding_requests_table c'
           = outstanding_requests_table (cancel_requests_release cancelling c)"
        "requests_pool c' = requests_pool (cancel_requests_release cancelling c)"
        using fr f4 r(1) by simp_all
      from stay [OF p r(2) n] AWS_MQTT_CLIENT_STATE_CONNECTED False st r(1)
      show ?thesis by auto
    qed
  qed
  then have g: "ongoing_requests_list c' = []"
    "pending_requests_list c' = (if ?D then [] else moved)"
    "outstanding_requests_table c'
       = outstanding_requests_table (cancel_requests_release cancelling c)"
    "requests_pool c'
       = (if ?D then rev moved else [])
         @ requests_pool (cancel_requests_release cancelling c)"
    "filter is_completion evs
       = ev_cancel @ (if ?D then destroyed_requests_callbacks moved else [])"
    and rest: "?D
          = (state c = AWS_MQTT_CLIENT_STATE_DISCONNECTING
               \<and> (l \<or> on_disconnect c = Some s_on_final_disconnect)
             \<or> state c = AWS_MQTT_CLIENT_STATE_CONNECTING \<and> l
             \<or> state c = AWS_MQTT_CLIENT_STATE_CONNECTED \<and> on_interrupted c \<noteq> None
                 \<and> (\<exists>cb u. ud = Some (cb, u) \<and> (l \<or> cb = Some s_on_final_disconnect)))"
      "state c = AWS_MQTT_CLIENT_STATE_RECONNECTING
            \<or> state c = AWS_MQTT_CLIENT_STATE_CONNECTED
                \<and> (on_interrupted c = None \<or> ud = None)
          \<longrightarrow> state c' = AWS_MQTT_CLIENT_STATE_RECONNECTING"
    by blast+
  have lists: "pending_requests_list c'
        = (if ?D \<or> clean_session c then []
           else pending_requests_list c @ ongoing_requests_list c)
    \<and> outstanding_requests_table c'
        = outstanding_requests_table
            (cancel_requests_release
               (if clean_session c
                then ongoing_requests_list c @ pending_requests_list c else []) c)
    \<and> requests_pool c'
        = (if ?D \<and> \<not> clean_session c
           then rev (pending_requests_list c @ ongoing_requests_list c) else [])
          @ requests_pool
              (cancel_requests_release
                 (if clean_session c
                  then ongoing_requests_list c @ pending_requests_list c else []) c)
    \<and> filter is_completion evs
        = cancel_requests_callbacks
            (if clean_session c
             then ongoing_requests_list c @ pending_requests_list c else [])
          @ (if ?D \<and> \<not> clean_session c
             then destroyed_requests_callbacks
                    (pending_requests_list c @ ongoing_requests_list c)
             else [])"
    using g(2-5) unfolding moved_def cancelling_def ev_cancel_def
    by (cases "clean_session c"; cases ?D; simp)
  from g(1) lists rest show ?thesis by blast
qed

lemma s_mqtt_client_shutdown_lists:
  assumes "s_mqtt_client_shutdown c err ud l = (c', evs)"
  shows "ongoing_requests_list c' = []"
    and "pending_requests_list c'
           = (if Connection_destroyed \<in> set evs \<or> clean_session c then []
              else pending_requests_list c @ ongoing_requests_list c)"
    and "outstanding_requests_table c'
           = outstanding_requests_table
               (cancel_requests_release
                  (if clean_session c
                   then ongoing_requests_list c @ pending_requests_list c else []) c)"
    and "requests_pool c'
           = (if Connection_destroyed \<in> set evs \<and> \<not> clean_session c
              then rev (pending_requests_list c @ ongoing_requests_list c) else [])
             @ requests_pool
                 (cancel_requests_release
                    (if clean_session c
                     then ongoing_requests_list c @ pending_requests_list c else []) c)"
    and "[x \<leftarrow> evs. is_completion x]
           = cancel_requests_callbacks
               (if clean_session c
                then ongoing_requests_list c @ pending_requests_list c else [])
             @ (if Connection_destroyed \<in> set evs \<and> \<not> clean_session c
                then destroyed_requests_callbacks
                       (pending_requests_list c @ ongoing_requests_list c)
                else [])"
  using s_mqtt_client_shutdown_summary [OF assms] by blast+

lemma s_mqtt_client_shutdown_destroyed:
  assumes "s_mqtt_client_shutdown c err ud l = (c', evs)"
  shows "(Connection_destroyed \<in> set evs)
        = (state c = AWS_MQTT_CLIENT_STATE_DISCONNECTING
             \<and> (l \<or> on_disconnect c = Some s_on_final_disconnect)
           \<or> state c = AWS_MQTT_CLIENT_STATE_CONNECTING \<and> l
           \<or> state c = AWS_MQTT_CLIENT_STATE_CONNECTED \<and> on_interrupted c \<noteq> None
               \<and> (\<exists>cb u. ud = Some (cb, u) \<and> (l \<or> cb = Some s_on_final_disconnect)))"
    and "state c = AWS_MQTT_CLIENT_STATE_RECONNECTING
          \<or> state c = AWS_MQTT_CLIENT_STATE_CONNECTED
              \<and> (on_interrupted c = None \<or> ud = None)
        \<Longrightarrow> state c' = AWS_MQTT_CLIENT_STATE_RECONNECTING"
  using s_mqtt_client_shutdown_summary [OF assms] by blast+

lemma destroyed_requests_callbacks_member:
  "r \<in> set rs \<Longrightarrow> on_complete r = Some f \<Longrightarrow>
     Request_on_complete f (packet_id r) AWS_ERROR_MQTT_CONNECTION_DESTROYED
       (on_complete_ud r) \<in> set (destroyed_requests_callbacks rs)"
  by (induction rs) (auto split: option.splits)

lemma cancel_requests_callbacks_code:
  "e \<in> set (cancel_requests_callbacks rs) \<Longrightarrow>
     completion_code e = Some AWS_ERROR_MQTT_CANCELLED_FOR_CLEAN_SESSION"
  by (induction rs) (auto split: option.splits)

lemma cancel_requests_callbacks_member:
  "r \<in> set rs \<Longrightarrow> on_complete r = Some f \<Longrightarrow>
     Request_on_complete f (packet_id r) AWS_ERROR_MQTT_CANCELLED_FOR_CLEAN_SESSION
       (on_complete_ud r) \<in> set (cancel_requests_callbacks rs)"
  by (induction rs) (auto split: option.splits)

lemma cancel_requests_callbacks_other_id:
  "p \<notin> packet_id ` set rs \<Longrightarrow>
     [e \<leftarrow> cancel_requests_callbacks rs. completion_of e = Some p] = []"
  by (induction rs) (auto split: option.splits)

lemma cancel_requests_callbacks_once:
  "distinct (map packet_id rs) \<Longrightarrow> r \<in> set rs \<Longrightarrow>
     length [e \<leftarrow> cancel_requests_callbacks rs. completion_of e = Some (packet_id r)]
       = (if on_complete r = None then 0 else 1)"
proof (induction rs)
  case Nil
  then show ?case by simp
next
  case (Cons a rs)
  show ?case
  proof (cases "r = a")
    case True
    have "packet_id a \<notin> packet_id ` set rs" using Cons.prems(1) by simp
    then show ?thesis
      using True cancel_requests_callbacks_other_id [of "packet_id a" rs]
      by (simp split: option.splits)
  next
    case False
    then have r: "r \<in> set rs" using Cons.prems(2) by simp
    then have "packet_id a \<noteq> packet_id r" using Cons.prems(1) by auto
    then show ?thesis
      using Cons.IH r Cons.prems(1) by (simp split: option.splits)
  qed
qed

lemma filter_completion_of:
  "[e \<leftarrow> evs. completion_of e = Some p]
     = [e \<leftarrow> filter is_completion evs. completion_of e = Some p]"
proof -
  have "\<And>e. (is_completion e \<and> completion_of e = Some p) = (completion_of e = Some p)"
  proof -
    fix e show "(is_completion e \<and> completion_of e = Some p) = (completion_of e = Some p)"
      by (cases e) simp_all
  qed
  then show ?thesis by (simp add: conj_commute)
qed

lemma is_completion_member:
  "e \<in> set evs \<Longrightarrow> is_completion e \<Longrightarrow> e \<in> set (filter is_completion evs)"
  by simp

lemmas example_defs = in_flight_example_def connected_example_def
  aws_mqtt_client_connection_new_def first_request_def second_request_def

lemmas shutdown_defs = s_mqtt_client_shutdown_def mqtt_connection_set_state_def
  call_on_interrupted_def call_on_disconnect_def call_on_connection_complete_def
  aws_mqtt_client_connection_disconnect_def mqtt_disconnect_impl_def Let_def
  shutdown_disconnected_def aws_mqtt_client_connection_release_def
  s_mqtt_client_connection_start_destroy_def s_mqtt_client_connection_destroy_final_def
  s_on_final_disconnect_def disconnecting_example_def

text \<open>
  C4. When the channel has shut down and \<open>clean_session\<close> is set, both request lists
  end empty; the completion callbacks fired are exactly those of the requests of the
  ongoing list followed by those of the pending list, each with
  \<open>AWS_ERROR_MQTT_CANCELLED_FOR_CLEAN_SESSION\<close>; every such request is removed from the
  outstanding requests table and released to the pool; and, packet ids being distinct,
  a request is completed exactly once (never, when it has no completion callback).
\<close>

theorem clean_session_shutdown_cancels_requests:
  assumes "clean_session c"
    and "s_mqtt_client_shutdown c err ud last_reference = (c', evs)"
  shows "ongoing_requests_list c' = [] \<and> pending_requests_list c' = []
    \<and> filter is_completion evs
        = cancel_requests_callbacks (ongoing_requests_list c @ pending_requests_list c)
    \<and> (\<forall>e \<in> set evs. is_completion e \<longrightarrow>
          completion_code e = Some AWS_ERROR_MQTT_CANCELLED_FOR_CLEAN_SESSION)
    \<and> (\<forall>r \<in> set (ongoing_requests_list c @ pending_requests_list c).
          outstanding_requests_table c' (packet_id r) = None
          \<and> r \<in> set (requests_pool c')
          \<and> (\<forall>f. on_complete r = Some f \<longrightarrow>
                Request_on_complete f (packet_id r) AWS_ERROR_MQTT_CANCELLED_FOR_CLEAN_SESSION
                  (on_complete_ud r) \<in> set evs)
          \<and> (distinct (map packet_id (ongoing_requests_list c @ pending_requests_list c)) \<longrightarrow>
                length [e \<leftarrow> evs. completion_of e = Some (packet_id r)]
                  = (if on_complete r = None then 0 else 1)))"
proof -
  let ?rs = "ongoing_requests_list c @ pending_requests_list c"
  note l = s_mqtt_client_shutdown_lists [OF assms(2)]
  have lists: "ongoing_requests_list c' = []" "pending_requests_list c' = []"
    using l(1,2) assms(1) by simp_all
  have evs: "filter is_completion evs = cancel_requests_callbacks ?rs"
    using l(5) assms(1) by simp
  have codes: "\<forall>e \<in> set evs. is_completion e \<longrightarrow>
          completion_code e = Some AWS_ERROR_MQTT_CANCELLED_FOR_CLEAN_SESSION"
  proof (intro ballI impI)
    fix e assume "e \<in> set evs" "is_completion e"
    then have "e \<in> set (cancel_requests_callbacks ?rs)"
      using is_completion_member [of e evs] evs by simp
    then show "completion_code e = Some AWS_ERROR_MQTT_CANCELLED_FOR_CLEAN_SESSION"
      by (rule cancel_requests_callbacks_code)
  qed
  have each: "\<forall>r \<in> set ?rs.
          outstanding_requests_table c' (packet_id r) = None
          \<and> r \<in> set (requests_pool c')
          \<and> (\<forall>f. on_complete r = Some f \<longrightarrow>
                Request_on_complete f (packet_id r) AWS_ERROR_MQTT_CANCELLED_FOR_CLEAN_SESSION
                  (on_complete_ud r) \<in> set evs)
          \<and> (distinct (map packet_id ?rs) \<longrightarrow>
                length [e \<leftarrow> evs. completion_of e = Some (packet_id r)]
                  = (if on_complete r = None then 0 else 1))"
  proof (intro ballI conjI allI impI)
    fix r assume r: "r \<in> set ?rs"
    show "outstanding_requests_table c' (packet_id r) = None"
      using l(3) assms(1) r cancel_requests_release_table [of ?rs c "packet_id r"]
      by (simp add: image_iff) blast
    show "r \<in> set (requests_pool c')"
      using l(4) assms(1) r cancel_requests_release_pool [of ?rs c] by auto
    show "distinct (map packet_id ?rs) \<Longrightarrow>
            length [e \<leftarrow> evs. completion_of e = Some (packet_id r)]
              = (if on_complete r = None then 0 else 1)"
      using cancel_requests_callbacks_once [of ?rs r] r evs
        filter_completion_of [of "packet_id r" evs] by simp
    fix f assume "on_complete r = Some f"
    then have "Request_on_complete f (packet_id r) AWS_ERROR_MQTT_CANCELLED_FOR_CLEAN_SESSION
                 (on_complete_ud r) \<in> set (filter is_completion evs)"
      using cancel_requests_callbacks_member [OF r] evs by simp
    then show "Request_on_complete f (packet_id r) AWS_ERROR_MQTT_CANCELLED_FOR_CLEAN_SESSION
                 (on_complete_ud r) \<in> set evs"
      by simp
  qed
  from lists evs codes each show ?thesis by blast
qed

theorem clean_session_shutdown_cancels_requests_witness:
  "clean_session (in_flight_example True)
   \<and> distinct (map packet_id (ongoing_requests_list (in_flight_example True)
                                @ pending_requests_list (in_flight_example True)))
   \<and> snd (s_mqtt_client_shutdown (in_flight_example True) (AWS_ERROR_OTHER 1051) None False)
       = [Channel_slot_removed,
          Request_on_complete 11 1 AWS_ERROR_MQTT_CANCELLED_FOR_CLEAN_SESSION 0,
          Request_on_complete 12 2 AWS_ERROR_MQTT_CANCELLED_FOR_CLEAN_SESSION 0,
          Reconnect_task_scheduled 0]
   \<and> pending_requests_list
        (fst (s_mqtt_client_shutdown (in_flight_example True) (AWS_ERROR_OTHER 1051) None
                False)) = []
   \<and> outstanding_requests_table
        (fst (s_mqtt_client_shutdown (in_flight_example True) (AWS_ERROR_OTHER 1051) None
                False)) 1
       = None
   \<and> requests_pool
        (fst (s_mqtt_client_shutdown (in_flight_example True) (AWS_ERROR_OTHER 1051) None
                False))
       = [second_request, first_request]
   \<and> clean_session (disconnecting_example\<lparr>clean_session := True\<rparr>)
   \<and> snd (s_mqtt_client_shutdown (disconnecting_example\<lparr>clean_session := True\<rparr>)
            AWS_ERROR_SUCCESS None True)
       = [Channel_slot_removed,
          Request_on_complete 11 1 AWS_ERROR_MQTT_CANCELLED_FOR_CLEAN_SESSION 0,
          Request_on_complete 12 2 AWS_ERROR_MQTT_CANCELLED_FOR_CLEAN_SESSION 0,
          On_disconnect 21 0, Connection_released, Connection_destroyed]
   \<and> requests_pool
        (fst (s_mqtt_client_shutdown (disconnecting_example\<lparr>clean_session := True\<rparr>)
                AWS_ERROR_SUCCESS None True))
       = [second_request, first_request]"
proof -
  have h: "clean_session (in_flight_example True)" by (simp add: example_defs)
  have h2: "clean_session (disconnecting_example\<lparr>clean_session := True\<rparr>)" by simp
  show ?thesis
    using clean_session_shutdown_cancels_requests [OF h surjective_pairing,
        of "AWS_ERROR_OTHER 1051" None False]
      clean_session_shutdown_cancels_requests [OF h2 surjective_pairing,
        of AWS_ERROR_SUCCESS None True]
    by (simp add: example_defs shutdown_defs)
qed

text \<open>
  C7, as stated, fails: packet id 1 was submitted before packet id 2, request 1 is
  ongoing and request 2 still pending when the channel goes down unexpectedly; the
  shutdown leaves the pending list as 2, 1, which is not the order of submission.
\<close>

theorem resend_order_counterexample:
  "\<not> clean_session (in_flight_example False)
   \<and> state (in_flight_example False) = AWS_MQTT_CLIENT_STATE_CONNECTED
   \<and> in_submission_order [1, 2] (ongoing_requests_list (in_flight_example False))
   \<and> in_submission_order [1, 2] (pending_requests_list (in_flight_example False))
   \<and> map packet_id (pending_requests_list
        (fst (s_mqtt_client_shutdown (in_flight_example False) (AWS_ERROR_OTHER 1051) None
                False)))
       = [2, 1]
   \<and> \<not> in_submission_order [1, 2] (pending_requests_list
        (fst (s_mqtt_client_shutdown (in_flight_example False) (AWS_ERROR_OTHER 1051) None
                False)))
   \<and> snd (s_mqtt_client_shutdown (in_flight_example False) (AWS_ERROR_OTHER 1051) None
            False)
       = [Channel_slot_removed, Reconnect_task_scheduled 0]"
  by (simp add: example_defs shutdown_defs in_submission_order_def)

text \<open>
  C7, amended. When the channel has shut down and \<open>clean_session\<close> is not set, the
  ongoing list ends empty. Unless the shutdown destroys the connection, the requests of
  the ongoing list are appended, in their order, behind the requests already on the
  pending list, no request is completed, and the outstanding requests table and the pool
  are unchanged; when the pending list was empty, the new pending list is in submission
  order if the ongoing list was. The shutdown destroys the connection exactly when it
  ends DISCONNECTED (it found the state DISCONNECTING or CONNECTING, or the user
  disconnected from \<open>on_interrupted\<close>) and the reference it releases is the last one or
  the disconnect callback it invokes is \<open>s_on_final_disconnect\<close>; then every request,
  those just moved from the ongoing list included, is completed with
  \<open>AWS_ERROR_MQTT_CONNECTION_DESTROYED\<close>, in the order of the pending list, and released
  to the pool, and the pending list ends empty. After an unexpected shutdown (the state
  found is RECONNECTING, or CONNECTED and \<open>on_interrupted\<close> does not disconnect) the
  connection is not destroyed and its state is RECONNECTING.
\<close>

theorem shutdown_moves_ongoing_behind_pending:
  assumes "\<not> clean_session c"
    and "s_mqtt_client_shutdown c err ud last_reference = (c', evs)"
  shows "ongoing_requests_list c' = []
    \<and> (Connection_destroyed \<notin> set evs \<longrightarrow>
          pending_requests_list c' = pending_requests_list c @ ongoing_requests_list c
          \<and> outstanding_requests_table c' = outstanding_requests_table c
          \<and> requests_pool c' = requests_pool c
          \<and> filter is_completion evs = []
          \<and> (pending_requests_list c = []
               \<and> in_submission_order submitted (ongoing_requests_list c)
              \<longrightarrow> in_submission_order submitted (pending_requests_list c')))
    \<and> (Connection_destroyed \<in> set evs)
        = (state c = AWS_MQTT_CLIENT_STATE_DISCONNECTING
             \<and> (last_reference \<or> on_disconnect c = Some s_on_final_disconnect)
           \<or> state c = AWS_MQTT_CLIENT_STATE_CONNECTING \<and> last_reference
           \<or> state c = AWS_MQTT_CLIENT_STATE_CONNECTED \<and> on_interrupted c \<noteq> None
               \<and> (\<exists>cb u. ud = Some (cb, u)
                      \<and> (last_reference \<or> cb = Some s_on_final_disconnect)))
    \<and> (Connection_destroyed \<in> set evs \<longrightarrow>
          pending_requests_list c' = []
          \<and> requests_pool c'
              = rev (pending_requests_list c @ ongoing_requests_list c) @ requests_pool c
          \<and> filter is_completion evs
              = destroyed_requests_callbacks
                  (pending_requests_list c @ ongoing_requests_list c)
          \<and> (\<forall>r \<in> set (pending_requests_list c @ ongoing_requests_list c).
                \<forall>f. on_complete r = Some f \<longrightarrow>
                  Request_on_complete f (packet_id r) AWS_ERROR_MQTT_CONNECTION_DESTROYED
                    (on_complete_ud r) \<in> set evs))
    \<and> (state c = AWS_MQTT_CLIENT_STATE_RECONNECTING
          \<or> state c = AWS_MQTT_CLIENT_STATE_CONNECTED
              \<and> (on_interrupted c = None \<or> ud = None)
        \<longrightarrow> state c' = AWS_MQTT_CLIENT_STATE_RECONNECTING
            \<and> Connection_destroyed \<notin> set evs)"
proof -
  note l = s_mqtt_client_shutdown_lists [OF assms(2)]
  note d = s_mqtt_client_shutdown_destroyed [OF assms(2)]
  let ?D = "Connection_destroyed \<in> set evs"
  let ?rs = "pending_requests_list c @ ongoing_requests_list c"
  have stay: "\<not> ?D \<longrightarrow>
          pending_requests_list c' = ?rs
          \<and> outstanding_requests_table c' = outstanding_requests_table c
          \<and> requests_pool c' = requests_pool c
          \<and> filter is_completion evs = []
          \<and> (pending_requests_list c = []
               \<and> in_submission_order submitted (ongoing_requests_list c)
              \<longrightarrow> in_submission_order submitted (pending_requests_list c'))"
  proof
    assume n: "\<not> ?D"
    show "pending_requests_list c' = ?rs
          \<and> outstanding_requests_table c' = outstanding_requests_table c
          \<and> requests_pool c' = requests_pool c
          \<and> filter is_completion evs = []
          \<and> (pending_requests_list c = []
               \<and> in_submission_order submitted (ongoing_requests_list c)
              \<longrightarrow> in_submission_order submitted (pending_requests_list c'))"
      using l(2-5) assms(1) n by simp
  qed
  have gone: "?D \<longrightarrow>
          pending_requests_list c' = []
          \<and> requests_pool c' = rev ?rs @ requests_pool c
          \<and> filter is_completion evs = destroyed_requests_callbacks ?rs
          \<and> (\<forall>r \<in> set ?rs.
                \<forall>f. on_complete r = Some f \<longrightarrow>
                  Request_on_complete f (packet_id r) AWS_ERROR_MQTT_CONNECTION_DESTROYED
                    (on_complete_ud r) \<in> set evs)"
  proof
    assume y: ?D
    have 1: "pending_requests_list c' = []" using l(2) y by simp
    have 2: "requests_pool c' = rev ?rs @ requests_pool c" using l(4) y assms(1) by simp
    have 3: "filter is_completion evs = destroyed_requests_callbacks ?rs"
      using l(5) y assms(1) by simp
    have 4: "\<forall>r \<in> set ?rs.
                \<forall>f. on_complete r = Some f \<longrightarrow>
                  Request_on_complete f (packet_id r) AWS_ERROR_MQTT_CONNECTION_DESTROYED
                    (on_complete_ud r) \<in> set evs"
    proof (intro ballI allI impI)
      fix r f assume "r \<in> set ?rs" "on_complete r = Some f"
      then have "Request_on_complete f (packet_id r) AWS_ERROR_MQTT_CONNECTION_DESTROYED
                   (on_complete_ud r) \<in> set (filter is_completion evs)"
        using destroyed_requests_callbacks_member [of r ?rs f] 3 by simp
      then show "Request_on_complete f (packet_id r) AWS_ERROR_MQTT_CONNECTION_DESTROYED
                   (on_complete_ud r) \<in> set evs"
        by simp
    qed
    from 1 2 3 4 show "pending_requests_list c' = []
          \<and> requests_pool c' = rev ?rs @ requests_pool c
          \<and> filter is_completion evs = destroyed_requests_callbacks ?rs
          \<and> (\<forall>r \<in> set ?rs.
                \<forall>f. on_complete r = Some f \<longrightarrow>
                  Request_on_complete f (packet_id r) AWS_ERROR_MQTT_CONNECTION_DESTROYED
                    (on_complete_ud r) \<in> set evs)"
      by blast
  qed
  have hangup: "state c = AWS_MQTT_CLIENT_STATE_RECONNECTING
          \<or> state c = AWS_MQTT_CLIENT_STATE_CONNECTED
              \<and> (on_interrupted c = None \<or> ud = None)
        \<longrightarrow> state c' = AWS_MQTT_CLIENT_STATE_RECONNECTING \<and> \<not> ?D"
  proof
    assume h: "state c = AWS_MQTT_CLIENT_STATE_RECONNECTING
          \<or> state c = AWS_MQTT_CLIENT_STATE_CONNECTED
              \<and> (on_interrupted c = None \<or> ud = None)"
    have "state c' = AWS_MQTT_CLIENT_STATE_RECONNECTING" using d(2) [OF h] .
    moreover have "\<not> ?D" unfolding d(1) using h by auto
    ultimately show "state c' = AWS_MQTT_CLIENT_STATE_RECONNECTING \<and> \<not> ?D" by blast
  qed
  from l(1) stay d(1) gone hangup show ?thesis by blast
qed

theorem shutdown_moves_ongoing_behind_pending_witness:
  "\<not> clean_session (in_flight_example False)
   \<and> state (in_flight_example False) = AWS_MQTT_CLIENT_STATE_CONNECTED
   \<and> pending_requests_list
        (fst (s_mqtt_client_shutdown (in_flight_example False) (AWS_ERROR_OTHER 1051) None
                False))
       = [second_request, first_request]
   \<and> state (fst (s_mqtt_client_shutdown (in_flight_example False) (AWS_ERROR_OTHER 1051)
                    None False))
       = AWS_MQTT_CLIENT_STATE_RECONNECTING
   \<and> \<not> clean_session ((in_flight_example False)\<lparr>pending_requests_list := []\<rparr>)
   \<and> in_submission_order [1, 2] [first_request]
   \<and> in_submission_order [1, 2] (pending_requests_list
        (fst (s_mqtt_client_shutdown ((in_flight_example False)\<lparr>pending_requests_list := []\<rparr>)
               (AWS_ERROR_OTHER 1051) None False)))
   \<and> \<not> clean_session disconnecting_example
   \<and> state disconnecting_example = AWS_MQTT_CLIENT_STATE_DISCONNECTING
   \<and> snd (s_mqtt_client_shutdown disconnecting_example AWS_ERROR_SUCCESS None False)
       = [Channel_slot_removed, On_disconnect 21 0, Connection_released]
   \<and> pending_requests_list
        (fst (s_mqtt_client_shutdown disconnecting_example AWS_ERROR_SUCCESS None False))
       = [second_request, first_request]
   \<and> snd (s_mqtt_client_shutdown disconnecting_example AWS_ERROR_SUCCESS None True)
       = [Channel_slot_removed, On_disconnect 21 0, Connection_released,
          Request_on_complete 12 2 AWS_ERROR_MQTT_CONNECTION_DESTROYED 0,
          Request_on_complete 11 1 AWS_ERROR_MQTT_CONNECTION_DESTROYED 0,
          Connection_destroyed]
   \<and> pending_requests_list
        (fst (s_mqtt_client_shutdown disconnecting_example AWS_ERROR_SUCCESS None True))
       = []
   \<and> requests_pool
        (fst (s_mqtt_client_shutdown disconnecting_example AWS_ERROR_SUCCESS None True))
       = [first_request, second_request]"
proof -
  have h: "\<not> clean_session (in_flight_example False)" by (simp add: example_defs)
  have h2: "\<not> clean_session ((in_flight_example False)\<lparr>pending_requests_list := []\<rparr>)"
    by (simp add: example_defs)
  have h3: "\<not> clean_session disconnecting_example"
    by (simp add: example_defs disconnecting_example_def)
  have e1: "snd (s_mqtt_client_shutdown disconnecting_example AWS_ERROR_SUCCESS None False)
       = [Channel_slot_removed, On_disconnect 21 0, Connection_released]"
    by (simp add: example_defs shutdown_defs)
  have e2: "snd (s_mqtt_client_shutdown disconnecting_example AWS_ERROR_SUCCESS None True)
       = [Channel_slot_removed, On_disconnect 21 0, Connection_released,
          Request_on_complete 12 2 AWS_ERROR_MQTT_CONNECTION_DESTROYED 0,
          Request_on_complete 11 1 AWS_ERROR_MQTT_CONNECTION_DESTROYED 0,
          Connection_destroyed]"
    by (simp add: example_defs shutdown_defs)
  have s: "state (in_flight_example False) = AWS_MQTT_CLIENT_STATE_CONNECTED"
    "state ((in_flight_example False)\<lparr>pending_requests_list := []\<rparr>)
       = AWS_MQTT_CLIENT_STATE_CONNECTED"
    "state disconnecting_example = AWS_MQTT_CLIENT_STATE_DISCONNECTING"
    "pending_requests_list (in_flight_example False) = [second_request]"
    "ongoing_requests_list (in_flight_example False) = [first_request]"
    "pending_requests_list disconnecting_example = [second_request]"
    "ongoing_requests_list disconnecting_example = [first_request]"
    "requests_pool disconnecting_example = []"
    by (simp_all add: example_defs disconnecting_example_def)
  show ?thesis
    using shutdown_moves_ongoing_behind_pending [OF h surjective_pairing,
        of "AWS_ERROR_OTHER 1051" None False "[1, 2]"]
      shutdown_moves_ongoing_behind_pending [OF h2 surjective_pairing,
        of "AWS_ERROR_OTHER 1051" None False "[1, 2]"]
      shutdown_moves_ongoing_behind_pending [OF h3 surjective_pairing,
        of AWS_ERROR_SUCCESS None False "[1, 2]"]
      shutdown_moves_ongoing_behind_pending [OF h3 surjective_pairing,
        of AWS_ERROR_SUCCESS None True "[1, 2]"]
    by (simp add: h h2 h3 e1 e2 s in_submission_order_def first_request_def
          second_request_def)
qed

section \<open>Subscribe: the topic tree across a send attempt\<close>

lemmas subscribe_example_defs = send_env_ok_def subscribe_example_def topic_example_def
  connected_example_def aws_mqtt_client_connection_new_def unsubscribe_example_def

lemmas topic_tree_defs = aws_mqtt_topic_tree_transaction_insert_def
  aws_mqtt_topic_tree_transaction_commit_def aws_mqtt_topic_tree_transaction_roll_back_def
  aws_mqtt_topic_tree_transaction_remove_def topic_tree_remove_entry_def






section \<open>Resubscribe without subscriptions\<close>

text \<open>
  C9, as stated, fails in its last part: with no subscription in the tree the send
  attempt returns COMPLETE and sends nothing, but \<open>s_resubscribe_complete\<close>, run with
  SUCCESS on the task the attempt leaves, invokes no callback although the user's
  \<open>on_suback\<close> is set.
\<close>

theorem resubscribe_nothing_counterexample:
  "subscriptions connected_example = []
   \<and> s_resubscribe_send send_env_ok 3 True connected_example (resubscribe_task_arg (Some 25) 0)
       = (AWS_MQTT_CLIENT_REQUEST_COMPLETE, connected_example,
          resubscribe_task_arg (Some 25) 0, [])
   \<and> on_suback_multi (resubscribe_task_arg (Some 25) 0) = Some 25
   \<and> s_resubscribe_complete 3 AWS_ERROR_SUCCESS (resubscribe_task_arg (Some 25) 0) = []"
  by (simp add: s_resubscribe_send_def s_resubscribe_complete_def resubscribe_task_arg_def
        send_env_ok_def connected_example_def aws_mqtt_client_connection_new_def
        aws_mqtt_topic_tree_get_sub_count_def Let_def)

text \<open>
  C9, amended. When the topic tree holds no subscription (and the topic list could be
  initialised), the send function of a resubscribe request returns COMPLETE without
  sending a packet and leaves an empty topic list; the completion function of the
  request, run on that task with whatever error code, skips the user's \<open>on_suback\<close>
  callback and only cleans up. The callback is invoked when the topic list is not empty.
\<close>

theorem resubscribe_nothing_sends_nothing:
  "(subscriptions c = [] \<and> topics_init_ok env \<longrightarrow>
      s_resubscribe_send env pid is_first_attempt c task_arg
        = (AWS_MQTT_CLIENT_REQUEST_COMPLETE, c, task_arg\<lparr>topics := []\<rparr>, [])
      \<and> s_resubscribe_complete pid error_code (task_arg\<lparr>topics := []\<rparr>) = [])
   \<and> (topics task_arg \<noteq> [] \<and> on_suback_multi task_arg = Some f \<longrightarrow>
        s_resubscribe_complete pid error_code task_arg
          = [On_suback_multi f pid
               (map (\<lambda>t. (topic_filter t, request_qos t)) (topics task_arg))
               error_code (on_suback_ud task_arg)])"
  by (auto simp: s_resubscribe_send_def s_resubscribe_complete_def
        aws_mqtt_topic_tree_get_sub_count_def Let_def)

theorem resubscribe_nothing_sends_nothing_witness:
  "subscriptions connected_example = [] \<and> topics_init_ok send_env_ok
   \<and> fst (s_resubscribe_send send_env_ok 3 True connected_example
            (resubscribe_task_arg (Some 25) 0)) = AWS_MQTT_CLIENT_REQUEST_COMPLETE
   \<and> snd (snd (snd (s_resubscribe_send send_env_ok 3 True connected_example
            (resubscribe_task_arg (Some 25) 0)))) = []
   \<and> topics (subscribe_example\<lparr>on_suback_multi := Some 25\<rparr>) \<noteq> []
   \<and> s_resubscribe_complete 3 AWS_ERROR_SUCCESS (subscribe_example\<lparr>on_suback_multi := Some 25\<rparr>)
       = [On_suback_multi 25 3 [(''a/b'', AWS_MQTT_QOS_AT_LEAST_ONCE)] AWS_ERROR_SUCCESS 0]"
  using resubscribe_nothing_sends_nothing
      [of connected_example send_env_ok 3 True "resubscribe_task_arg (Some 25) 0"
        AWS_ERROR_SUCCESS 25]
    resubscribe_nothing_sends_nothing
      [of connected_example send_env_ok 3 True "subscribe_example\<lparr>on_suback_multi := Some 25\<rparr>"
        AWS_ERROR_SUCCESS 25]
  by (simp add: send_env_ok_def connected_example_def aws_mqtt_client_connection_new_def
        subscribe_example_def topic_example_def resubscribe_task_arg_def)

section \<open>Operation timeout tasks\<close>

lemmas publish_example_defs = publish_env_ok_def publish_example_def
  publish_task_arg_new_def publish_example_packet_def session_example_def
  connected_example_def aws_mqtt_client_connection_new_def

text \<open>
  C6, as stated, fails: a SUBSCRIBE send attempt in which every step succeeds hands the
  packet to the channel and returns ONGOING, and schedules no timeout task.
\<close>

theorem subscribe_send_no_timeout_counterexample:
  "s_subscribe_send send_env_ok 3 True connected_example subscribe_example
     = (AWS_MQTT_CLIENT_REQUEST_ONGOING,
        connected_example\<lparr>subscriptions :=
          [(''a/b'', AWS_MQTT_QOS_AT_LEAST_ONCE, topic_example)]\<rparr>,
        subscribe_example\<lparr>subscribe :=
            Some \<lparr>subscribe_packet_identifier = 3,
                  subscribe_topic_filters = [(''a/b'', AWS_MQTT_QOS_AT_LEAST_ONCE)]\<rparr>,
          tree_updated := True\<rparr>,
        [Message_sent (Subscribe_message
           \<lparr>subscribe_packet_identifier = 3,
            subscribe_topic_filters = [(''a/b'', AWS_MQTT_QOS_AT_LEAST_ONCE)]\<rparr>)])
   \<and> filter is_timeout_scheduled
        (snd (snd (snd (s_subscribe_send send_env_ok 3 True connected_example
                          subscribe_example)))) = []"
  by (simp add: s_subscribe_send_def subscribe_example_defs topic_tree_defs Let_def)

lemma s_subscribe_send_no_timeout:
  "filter is_timeout_scheduled
     (snd (snd (snd (s_subscribe_send env pid is_first_attempt c task_arg)))) = []"
  by (simp add: s_subscribe_send_def Let_def split: prod.splits)

lemma s_resubscribe_send_no_timeout:
  "filter is_timeout_scheduled
     (snd (snd (snd (s_resubscribe_send env pid is_first_attempt c task_arg)))) = []"
  by (simp add: s_resubscribe_send_def Let_def split: prod.splits option.splits)

lemma s_unsubscribe_send_timeout:
  assumes "s_unsubscribe_send env pid is_first_attempt c task_arg = (r, c', task_arg', evs)"
  shows "filter is_timeout_scheduled evs
           = (if r = AWS_MQTT_CLIENT_REQUEST_ONGOING
              then [Timeout_task_scheduled pid
                      (aws_add_u64_saturating (the (channel_clock env))
                         (operation_timeout_ns c))]
              else [])"
  using assms
  by (auto simp: s_unsubscribe_send_def Let_def s_schedule_timeout_task_def
        aws_mqtt_topic_tree_transaction_remove_def
        split: if_splits option.splits prod.splits)

lemma s_unsubscribe_send_clock:
  assumes "s_unsubscribe_send env pid is_first_attempt c task_arg = (r, c', task_arg', evs)"
  shows "r = AWS_MQTT_CLIENT_REQUEST_ONGOING \<longrightarrow> channel_clock env \<noteq> None"
  using assms
  by (auto simp: s_unsubscribe_send_def Let_def s_schedule_timeout_task_def
        aws_mqtt_topic_tree_transaction_remove_def
        split: if_splits option.splits prod.splits)

lemma write_payload_chunk_timeouts:
  assumes "write_payload_chunk env q i h l p evs = Some y"
  shows "filter is_timeout_scheduled (snd y) = filter is_timeout_scheduled evs"
proof (rule write_payload_chunk.raw_induct
         [where P = "\<lambda>env q i h l p evs y.
                       filter is_timeout_scheduled (snd y) = filter is_timeout_scheduled evs",
          OF _ assms])
  fix f env q i h l p evs y
  assume IH: "\<And>env q i h l p evs y. f env q i h l p evs = Some y \<Longrightarrow>
                filter is_timeout_scheduled (snd y) = filter is_timeout_scheduled evs"
    and body: "(let to_write = (if length p < l then length p else l);
                    to_write_cur = take to_write p;
                    payload_rest = drop to_write p
                in if \<not> publish_send_ok env i
                   then Some (Chunk_returned (if q then AWS_MQTT_CLIENT_REQUEST_ERROR
                                              else AWS_MQTT_CLIENT_REQUEST_ONGOING), evs)
                   else
                     let evs1 = evs @ [Message_sent (Publish_message h to_write_cur)]
                     in if payload_rest \<noteq> []
                        then (case message_capacity env (Suc i) of
                                None \<Rightarrow> Some (Chunk_null_message, evs1)
                              | Some capacity \<Rightarrow> f env q (Suc i) None capacity payload_rest evs1)
                        else Some (Chunk_all_written, evs1)) = Some y"
  show "filter is_timeout_scheduled (snd y) = filter is_timeout_scheduled evs"
    using body
    by (auto simp: Let_def split: if_splits option.splits dest!: IH)
qed

lemma write_payload_chunk_all_written:
  assumes "write_payload_chunk env q i h l p evs = Some y"
    and "\<forall>j. publish_send_ok env j" and "\<forall>j. message_capacity env j \<noteq> None"
  shows "fst y = Chunk_all_written"
proof -
  have "(\<forall>j. publish_send_ok env j) \<and> (\<forall>j. message_capacity env j \<noteq> None)
          \<longrightarrow> fst y = Chunk_all_written"
  proof (rule write_payload_chunk.raw_induct
         [where P = "\<lambda>env q i h l p evs y.
                       (\<forall>j. publish_send_ok env j) \<and> (\<forall>j. message_capacity env j \<noteq> None)
                         \<longrightarrow> fst y = Chunk_all_written",
          OF _ assms(1)])
    fix f env q i h l p evs y
    assume IH: "\<And>env q i h l p evs y. f env q i h l p evs = Some y \<Longrightarrow>
                  (\<forall>j. publish_send_ok env j) \<and> (\<forall>j. message_capacity env j \<noteq> None)
                    \<longrightarrow> fst y = Chunk_all_written"
      and body: "(let to_write = (if length p < l then length p else l);
                    to_write_cur = take to_write p;
                    payload_rest = drop to_write p
                in if \<not> publish_send_ok env i
                   then Some (Chunk_returned (if q then AWS_MQTT_CLIENT_REQUEST_ERROR
                                              else AWS_MQTT_CLIENT_REQUEST_ONGOING), evs)
                   else
                     let evs1 = evs @ [Message_sent (Publish_message h to_write_cur)]
                     in if payload_rest \<noteq> []
                        then (case message_capacity env (Suc i) of
                                None \<Rightarrow> Some (Chunk_null_message, evs1)
                              | Some capacity \<Rightarrow> f env q (Suc i) None capacity payload_rest evs1)
                        else Some (Chunk_all_written, evs1)) = Some y"
    show "(\<forall>j. publish_send_ok env j) \<and> (\<forall>j. message_capacity env j \<noteq> None)
            \<longrightarrow> fst y = Chunk_all_written"
      using body
      by (auto simp: Let_def split: if_splits option.splits dest!: IH)
         (metis option.distinct(1))
  qed
  with assms(2,3) show ?thesis by simp
qed

lemma write_payload_chunk_returns:
  assumes "\<forall>j > 0. \<exists>capacity > 0. message_capacity env j = Some capacity"
  shows "\<exists>y. write_payload_chunk env q i h l p evs = Some y"
proof (induction "2 * length p + (if l = 0 then 1 else 0)" arbitrary: i h l p evs
         rule: less_induct)
  case less
  show ?case
  proof (cases "publish_send_ok env i \<and> drop (min (length p) l) p \<noteq> []")
    case False
    then show ?thesis
      by (subst write_payload_chunk.simps) (auto simp: Let_def min_def)
  next
    case True
    from assms obtain capacity where c: "capacity > 0"
      "message_capacity env (Suc i) = Some capacity" by auto
    let ?rest = "drop (min (length p) l) p"
    have "2 * length ?rest + (if capacity = 0 then 1 else 0)
            < 2 * length p + (if l = 0 then 1 else 0)"
      using True c(1) by (auto simp: min_def)
    from less [OF this] obtain y where
      "write_payload_chunk env q (Suc i) None capacity ?rest
         (evs @ [Message_sent (Publish_message h (take (min (length p) l) p))]) = Some y"
      by blast
    then show ?thesis
      using True c(2)
      by (subst write_payload_chunk.simps) (auto simp: Let_def min_def)
  qed
qed

lemma publish_after_chunks_timeout:
  assumes "publish_after_chunks env pid q c ta ended evs0 = (r, ta', evs)"
    and "filter is_timeout_scheduled evs0 = []"
  shows "(filter is_timeout_scheduled evs \<noteq> [] \<longrightarrow>
            \<not> q \<and> operation_timeout_ns c \<noteq> UINT64_MAX
            \<and> r = Send_returned AWS_MQTT_CLIENT_REQUEST_ONGOING)
    \<and> (ended = Chunk_all_written \<and> publish_timeout_alloc_ok env
           \<and> publish_channel_clock env = Some now \<longrightarrow>
         filter is_timeout_scheduled evs
           = (if \<not> q \<and> operation_timeout_ns c \<noteq> UINT64_MAX
              then [Timeout_task_scheduled pid
                      (aws_add_u64_saturating now (operation_timeout_ns c))]
              else []))"
proof (cases ended)
  case (Chunk_returned x)
  with assms show ?thesis by auto
next
  case Chunk_null_message
  with assms show ?thesis by auto
next
  case Chunk_all_written
  with assms show ?thesis
    by (auto simp: s_schedule_timeout_task_def split: if_splits option.splits)
qed

lemma s_publish_send_Some:
  assumes "s_publish_send env pid is_first_attempt c task_arg = Some (r, task_arg', evs)"
  shows "evs = []
    \<or> (\<exists>capacity len ta1 ended evs0.
          message_capacity env 0 = Some capacity \<and> headers_len env = Some len
          \<and> len \<le> capacity
          \<and> write_payload_chunk env (pub_qos task_arg = AWS_MQTT_QOS_AT_MOST_ONCE) 0
                (Some (publish ta1)) (capacity - len) (pub_payload ta1) []
              = Some (ended, evs0)
          \<and> publish_after_chunks env
                (if pub_qos task_arg = AWS_MQTT_QOS_AT_MOST_ONCE then 0 else pid)
                (pub_qos task_arg = AWS_MQTT_QOS_AT_MOST_ONCE) c ta1 ended evs0
              = (r, task_arg', evs))"
proof (cases "is_first_attempt \<and> \<not> publish_init_ok env")
  case True
  with assms show ?thesis by (simp add: s_publish_send_def Let_def)
next
  case False
  note init = this
  show ?thesis
  proof (cases "message_capacity env 0")
    case None
    with assms init show ?thesis by (auto simp: s_publish_send_def Let_def)
  next
    case (Some capacity)
    note cap = this
    show ?thesis
    proof (cases "headers_len env")
      case None
      with assms init cap show ?thesis by (auto simp: s_publish_send_def Let_def)
    next
      case (Some len)
      show ?thesis
      proof (cases "capacity < len")
        case True
        with assms init cap Some show ?thesis by (auto simp: s_publish_send_def Let_def)
      next
        case False
        let ?q = "pub_qos task_arg = AWS_MQTT_QOS_AT_MOST_ONCE"
        let ?ta1 = "if is_first_attempt
                    then task_arg\<lparr>publish :=
                           \<lparr>publish_retain = pub_retain task_arg,
                            publish_qos = pub_qos task_arg,
                            publish_dup = (\<not> is_first_attempt),
                            publish_topic_name = pub_topic task_arg,
                            publish_packet_identifier = (if ?q then 0 else pid),
                            publish_payload = pub_payload task_arg\<rparr>\<rparr>
                    else task_arg"
        have eq: "(case write_payload_chunk env ?q 0 (Some (publish ?ta1))
                          (capacity - len) (pub_payload ?ta1) [] of
                     None \<Rightarrow> None
                   | Some (ended, evs0) \<Rightarrow>
                       Some (publish_after_chunks env (if ?q then 0 else pid) ?q c
                               ?ta1 ended evs0))
                  = Some (r, task_arg', evs)"
          using assms init cap Some False
          by (simp add: s_publish_send_def Let_def)
        then obtain ended evs0 where
          w: "write_payload_chunk env ?q 0 (Some (publish ?ta1))
                (capacity - len) (pub_payload ?ta1) [] = Some (ended, evs0)"
          by (cases "write_payload_chunk env ?q 0 (Some (publish ?ta1))
                       (capacity - len) (pub_payload ?ta1) []") auto
        with eq have
          a: "publish_after_chunks env (if ?q then 0 else pid) ?q c ?ta1 ended evs0
                = (r, task_arg', evs)"
          by simp
        have "len \<le> capacity" using False by simp
        with cap Some w a show ?thesis by blast
      qed
    qed
  qed
qed

lemma s_publish_send_timeout_only_if:
  assumes "s_publish_send env pid is_first_attempt c task_arg = Some (r, task_arg', evs)"
    and "filter is_timeout_scheduled evs \<noteq> []"
  shows "pub_qos task_arg \<noteq> AWS_MQTT_QOS_AT_MOST_ONCE
     \<and> operation_timeout_ns c \<noteq> UINT64_MAX
     \<and> r = Send_returned AWS_MQTT_CLIENT_REQUEST_ONGOING"
proof -
  from s_publish_send_Some [OF assms(1)] assms(2)
  obtain capacity len ta1 ended evs0 where
    w: "write_payload_chunk env (pub_qos task_arg = AWS_MQTT_QOS_AT_MOST_ONCE) 0
          (Some (publish ta1)) (capacity - len) (pub_payload ta1) [] = Some (ended, evs0)"
    and a: "publish_after_chunks env
              (if pub_qos task_arg = AWS_MQTT_QOS_AT_MOST_ONCE then 0 else pid)
              (pub_qos task_arg = AWS_MQTT_QOS_AT_MOST_ONCE) c ta1 ended evs0
            = (r, task_arg', evs)"
    by auto
  have "filter is_timeout_scheduled evs0 = []"
    using write_payload_chunk_timeouts [OF w] by simp
  from publish_after_chunks_timeout [OF a this] assms(2) show ?thesis by blast
qed

lemma s_publish_send_loop:
  assumes "is_first_attempt \<longrightarrow> publish_init_ok env"
    and "message_capacity env 0 = Some capacity" and "headers_len env = Some len"
    and "len \<le> capacity"
  shows "s_publish_send env pid is_first_attempt c task_arg
    = (let q = (pub_qos task_arg = AWS_MQTT_QOS_AT_MOST_ONCE);
           ta1 = (if is_first_attempt
                  then task_arg\<lparr>publish :=
                         \<lparr>publish_retain = pub_retain task_arg,
                          publish_qos = pub_qos task_arg,
                          publish_dup = (\<not> is_first_attempt),
                          publish_topic_name = pub_topic task_arg,
                          publish_packet_identifier = (if q then 0 else pid),
                          publish_payload = pub_payload task_arg\<rparr>\<rparr>
                  else task_arg)
       in case write_payload_chunk env q 0 (Some (publish ta1))
                 (capacity - len) (pub_payload ta1) [] of
            None \<Rightarrow> None
          | Some (ended, evs0) \<Rightarrow>
              Some (publish_after_chunks env (if q then 0 else pid) q c ta1 ended evs0))"
  using assms by (simp add: s_publish_send_def Let_def)

lemma s_publish_send_timeout_if:
  assumes "s_publish_send env pid is_first_attempt c task_arg = Some (r, task_arg', evs)"
    and "publish_env_succeeds env is_first_attempt"
  shows "\<exists>now. publish_channel_clock env = Some now
     \<and> filter is_timeout_scheduled evs
         = (if pub_qos task_arg \<noteq> AWS_MQTT_QOS_AT_MOST_ONCE
               \<and> operation_timeout_ns c \<noteq> UINT64_MAX
            then [Timeout_task_scheduled pid
                    (aws_add_u64_saturating now (operation_timeout_ns c))]
            else [])"
proof -
  from assms(2) obtain len capacity now where env:
    "is_first_attempt \<longrightarrow> publish_init_ok env"
    "\<forall>j. message_capacity env j \<noteq> None"
    "headers_len env = Some len" "message_capacity env 0 = Some capacity" "len \<le> capacity"
    "\<forall>j. publish_send_ok env j" "publish_timeout_alloc_ok env"
    "publish_channel_clock env = Some now"
    unfolding publish_env_succeeds_def by blast
  let ?q = "pub_qos task_arg = AWS_MQTT_QOS_AT_MOST_ONCE"
  let ?ta1 = "if is_first_attempt
              then task_arg\<lparr>publish :=
                     \<lparr>publish_retain = pub_retain task_arg,
                      publish_qos = pub_qos task_arg,
                      publish_dup = (\<not> is_first_attempt),
                      publish_topic_name = pub_topic task_arg,
                      publish_packet_identifier = (if ?q then 0 else pid),
                      publish_payload = pub_payload task_arg\<rparr>\<rparr>
              else task_arg"
  have eq: "(case write_payload_chunk env ?q 0 (Some (publish ?ta1))
                    (capacity - len) (pub_payload ?ta1) [] of
               None \<Rightarrow> None
             | Some (ended, evs0) \<Rightarrow>
                 Some (publish_after_chunks env (if ?q then 0 else pid) ?q c ?ta1 ended evs0))
            = Some (r, task_arg', evs)"
    using assms(1)
    unfolding s_publish_send_loop [OF env(1) env(4) env(3) env(5), of pid c task_arg] Let_def .
  then obtain ended evs0 where
    w: "write_payload_chunk env ?q 0 (Some (publish ?ta1))
          (capacity - len) (pub_payload ?ta1) [] = Some (ended, evs0)"
    by (cases "write_payload_chunk env ?q 0 (Some (publish ?ta1))
                 (capacity - len) (pub_payload ?ta1) []") auto
  with eq have
    a: "publish_after_chunks env (if ?q then 0 else pid) ?q c ?ta1 ended evs0
          = (r, task_arg', evs)"
    by simp
  have e: "ended = Chunk_all_written" "filter is_timeout_scheduled evs0 = []"
    using write_payload_chunk_all_written [OF w env(6) env(2)]
      write_payload_chunk_timeouts [OF w] by simp_all
  have t: "filter is_timeout_scheduled evs
          = (if \<not> ?q \<and> operation_timeout_ns c \<noteq> UINT64_MAX
             then [Timeout_task_scheduled (if ?q then 0 else pid)
                     (aws_add_u64_saturating now (operation_timeout_ns c))]
             else [])"
    by (rule publish_after_chunks_timeout [OF a e(2), of now, THEN conjunct2, rule_format])
       (intro conjI e(1) env(7) env(8))
  show ?thesis
  proof (cases ?q)
    case True
    with t env(8) show ?thesis by simp
  next
    case False
    with t env(8) show ?thesis by simp
  qed
qed

lemma s_publish_send_returns:
  assumes "\<forall>j > 0. \<exists>capacity > 0. message_capacity env j = Some capacity"
  shows "\<exists>res. s_publish_send env pid is_first_attempt c task_arg = Some res"
proof (cases "is_first_attempt \<and> \<not> publish_init_ok env")
  case True
  then show ?thesis by (simp add: s_publish_send_def Let_def)
next
  case False
  then have init: "is_first_attempt \<longrightarrow> publish_init_ok env" by simp
  show ?thesis
  proof (cases "message_capacity env 0")
    case None
    with False show ?thesis by (simp add: s_publish_send_def Let_def)
  next
    case (Some capacity)
    note cap = this
    show ?thesis
    proof (cases "headers_len env")
      case None
      with False cap show ?thesis by (simp add: s_publish_send_def Let_def)
    next
      case (Some len)
      show ?thesis
      proof (cases "capacity < len")
        case True
        with False cap Some show ?thesis by (simp add: s_publish_send_def Let_def)
      next
        case False
        then have le: "len \<le> capacity" by simp
        let ?q = "pub_qos task_arg = AWS_MQTT_QOS_AT_MOST_ONCE"
        let ?ta1 = "if is_first_attempt
                    then task_arg\<lparr>publish :=
                           \<lparr>publish_retain = pub_retain task_arg,
                            publish_qos = pub_qos task_arg,
                            publish_dup = (\<not> is_first_attempt),
                            publish_topic_name = pub_topic task_arg,
                            publish_packet_identifier = (if ?q then 0 else pid),
                            publish_payload = pub_payload task_arg\<rparr>\<rparr>
                    else task_arg"
        obtain ended evs0 where
          "write_payload_chunk env ?q 0 (Some (publish ?ta1))
             (capacity - len) (pub_payload ?ta1) [] = Some (ended, evs0)"
          using write_payload_chunk_returns [OF assms, of ?q 0 "Some (publish ?ta1)"
              "capacity - len" "pub_payload ?ta1" "[]"]
          by auto
        then have "s_publish_send env pid is_first_attempt c task_arg
            = Some (publish_after_chunks env (if ?q then 0 else pid) ?q c ?ta1 ended evs0)"
          unfolding s_publish_send_loop [OF init cap Some le] Let_def by simp
        then show ?thesis by blast
      qed
    qed
  qed
qed

text \<open>
  C6, amended. A SUBSCRIBE or resubscribe send attempt never schedules an operation
  timeout task. An UNSUBSCRIBE send attempt schedules one, for its packet id at the
  channel time plus \<open>operation_timeout_ns\<close> (saturating), exactly when it returns
  ONGOING. A PUBLISH send attempt that schedules one has QoS above 0, an
  \<open>operation_timeout_ns\<close> other than \<open>UINT64_MAX\<close> and returns ONGOING; when nothing
  the attempt asks for fails, it schedules one exactly when QoS is above 0 and
  \<open>operation_timeout_ns\<close> is not \<open>UINT64_MAX\<close>. A PUBLISH send attempt returns
  whenever every further message taken from the pool has room for payload.
\<close>

theorem operation_timeout_armed:
  "filter is_timeout_scheduled
     (snd (snd (snd (s_subscribe_send senv pid is_first_attempt c sub_arg)))) = []
   \<and> filter is_timeout_scheduled
       (snd (snd (snd (s_resubscribe_send senv pid is_first_attempt c sub_arg)))) = []
   \<and> (\<forall>r c' ta' evs.
        s_unsubscribe_send senv pid is_first_attempt c unsub_arg = (r, c', ta', evs) \<longrightarrow>
          (r = AWS_MQTT_CLIENT_REQUEST_ONGOING \<longrightarrow>
             (\<exists>now. channel_clock senv = Some now
                \<and> filter is_timeout_scheduled evs
                    = [Timeout_task_scheduled pid
                         (aws_add_u64_saturating now (operation_timeout_ns c))]))
          \<and> (r \<noteq> AWS_MQTT_CLIENT_REQUEST_ONGOING \<longrightarrow> filter is_timeout_scheduled evs = []))
   \<and> (\<forall>r ta' evs.
        s_publish_send penv pid is_first_attempt c pub_arg = Some (r, ta', evs) \<longrightarrow>
          (filter is_timeout_scheduled evs \<noteq> [] \<longrightarrow>
             pub_qos pub_arg \<noteq> AWS_MQTT_QOS_AT_MOST_ONCE
             \<and> operation_timeout_ns c \<noteq> UINT64_MAX
             \<and> r = Send_returned AWS_MQTT_CLIENT_REQUEST_ONGOING)
          \<and> (publish_env_succeeds penv is_first_attempt \<longrightarrow>
               (\<exists>now. publish_channel_clock penv = Some now
                  \<and> filter is_timeout_scheduled evs
                      = (if pub_qos pub_arg \<noteq> AWS_MQTT_QOS_AT_MOST_ONCE
                            \<and> operation_timeout_ns c \<noteq> UINT64_MAX
                         then [Timeout_task_scheduled pid
                                 (aws_add_u64_saturating now (operation_timeout_ns c))]
                         else []))))
   \<and> ((\<forall>j > 0. \<exists>capacity > 0. message_capacity penv j = Some capacity) \<longrightarrow>
        (\<exists>res. s_publish_send penv pid is_first_attempt c pub_arg = Some res))"
proof (intro conjI allI impI)
  show "filter is_timeout_scheduled
     (snd (snd (snd (s_subscribe_send senv pid is_first_attempt c sub_arg)))) = []"
    by (rule s_subscribe_send_no_timeout)
  show "filter is_timeout_scheduled
       (snd (snd (snd (s_resubscribe_send senv pid is_first_attempt c sub_arg)))) = []"
    by (rule s_resubscribe_send_no_timeout)
next
  fix r c' ta' evs
  assume u: "s_unsubscribe_send senv pid is_first_attempt c unsub_arg = (r, c', ta', evs)"
  show "r \<noteq> AWS_MQTT_CLIENT_REQUEST_ONGOING \<Longrightarrow> filter is_timeout_scheduled evs = []"
    using s_unsubscribe_send_timeout [OF u] by simp
  assume o: "r = AWS_MQTT_CLIENT_REQUEST_ONGOING"
  have "channel_clock senv \<noteq> None"
    using s_unsubscribe_send_clock [OF u] o by simp
  then show "\<exists>now. channel_clock senv = Some now
                \<and> filter is_timeout_scheduled evs
                    = [Timeout_task_scheduled pid
                         (aws_add_u64_saturating now (operation_timeout_ns c))]"
    using s_unsubscribe_send_timeout [OF u] o by auto
next
  fix r ta' evs
  assume p: "s_publish_send penv pid is_first_attempt c pub_arg = Some (r, ta', evs)"
  {
    assume t: "filter is_timeout_scheduled evs \<noteq> []"
    from s_publish_send_timeout_only_if [OF p t]
    show "pub_qos pub_arg \<noteq> AWS_MQTT_QOS_AT_MOST_ONCE"
      and "operation_timeout_ns c \<noteq> UINT64_MAX"
      and "r = Send_returned AWS_MQTT_CLIENT_REQUEST_ONGOING"
      by simp_all
  }
  assume s: "publish_env_succeeds penv is_first_attempt"
  from s_publish_send_timeout_if [OF p s]
  show "\<exists>now. publish_channel_clock penv = Some now
                  \<and> filter is_timeout_scheduled evs
                      = (if pub_qos pub_arg \<noteq> AWS_MQTT_QOS_AT_MOST_ONCE
                            \<and> operation_timeout_ns c \<noteq> UINT64_MAX
                         then [Timeout_task_scheduled pid
                                 (aws_add_u64_saturating now (operation_timeout_ns c))]
                         else [])" .
next
  assume "\<forall>j > 0. \<exists>capacity > 0. message_capacity penv j = Some capacity"
  then show "\<exists>res. s_publish_send penv pid is_first_attempt c pub_arg = Some res"
    by (rule s_publish_send_returns)
qed

theorem operation_timeout_armed_witness:
  "fst (s_unsubscribe_send send_env_ok 7 True subscribed_example unsubscribe_example)
     = AWS_MQTT_CLIENT_REQUEST_ONGOING
   \<and> snd (snd (snd (s_unsubscribe_send send_env_ok 7 True subscribed_example
                      unsubscribe_example)))
     = [Message_sent (Unsubscribe_message
          \<lparr>unsubscribe_packet_identifier = 7, unsubscribe_topic_filters = [''a/b'']\<rparr>),
        Timeout_task_scheduled 7 5000001000]
   \<and> subscriptions (fst (snd (s_unsubscribe_send send_env_ok 7 True subscribed_example
                      unsubscribe_example))) = []
   \<and> publish_env_succeeds publish_env_ok True
   \<and> pub_qos publish_example \<noteq> AWS_MQTT_QOS_AT_MOST_ONCE
   \<and> operation_timeout_ns subscribed_example \<noteq> UINT64_MAX
   \<and> s_publish_send publish_env_ok 7 True subscribed_example publish_example
     = Some (Send_returned AWS_MQTT_CLIENT_REQUEST_ONGOING,
             publish_example\<lparr>publish := publish_example_packet,
                              pub_timeout_task_arg := Some 7\<rparr>,
             [Message_sent (Publish_message (Some publish_example_packet) [112]),
              Timeout_task_scheduled 7 5000001000])"
  using operation_timeout_armed
    [where senv = send_env_ok and pid = 7 and is_first_attempt = True
       and c = subscribed_example and sub_arg = subscribe_example
       and unsub_arg = unsubscribe_example and penv = publish_env_ok
       and pub_arg = publish_example]
  by (simp add: s_unsubscribe_send_def s_publish_send_def subscribed_example_def
        subscribe_example_defs topic_tree_defs publish_example_defs
        publish_env_succeeds_def write_payload_chunk.simps
        s_schedule_timeout_task_def aws_add_u64_saturating_def UINT64_MAX_def Let_def)

section \<open>Re-sending a PUBLISH\<close>

text \<open>
  C3. The first attempt of a QoS 1 PUBLISH with packet id 7 builds the packet with the
  DUP flag clear and sends it; the re-send of the same request
  (\<open>is_first_attempt = False\<close>) does not rebuild the packet and sends it again as it is:
  with the same packet id, and with the DUP flag still clear.
\<close>

theorem publish_resend_without_dup:
  "s_publish_send publish_env_ok 7 True session_example publish_example
     = Some (Send_returned AWS_MQTT_CLIENT_REQUEST_ONGOING,
             publish_example\<lparr>publish := publish_example_packet,
                              pub_timeout_task_arg := Some 7\<rparr>,
             [Message_sent (Publish_message (Some publish_example_packet) [112]),
              Timeout_task_scheduled 7 5000001000])
   \<and> s_publish_send publish_env_ok 7 False session_example
        (publish_example\<lparr>publish := publish_example_packet, pub_timeout_task_arg := Some 7\<rparr>)
     = Some (Send_returned AWS_MQTT_CLIENT_REQUEST_ONGOING,
             publish_example\<lparr>publish := publish_example_packet,
                              pub_timeout_task_arg := Some 7\<rparr>,
             [Message_sent (Publish_message (Some publish_example_packet) [112]),
              Timeout_task_scheduled 7 5000001000])
   \<and> publish_dup publish_example_packet = False
   \<and> publish_packet_identifier publish_example_packet = 7"
  by (simp add: s_publish_send_def publish_example_defs
        write_payload_chunk.simps s_schedule_timeout_task_def aws_add_u64_saturating_def
        UINT64_MAX_def Let_def)

end
